theory Spec2Isabelle
  imports Complex_Main "HOL-Library.Word"
begin

unbundle bit_operations_syntax

section \<open>Values and types (types.h)\<close>

text \<open>
  \<open>enum class ValueType : uint8_t\<close>. The decoder casts any byte to a \<open>ValueType\<close>, so the
  tag is kept as the byte it is stored in.
\<close>

type_synonym ValueType = "8 word"

definition I32 :: ValueType where "I32 = 0x7F"
definition I64 :: ValueType where "I64 = 0x7E"
definition F32 :: ValueType where "F32 = 0x7D"
definition F64 :: ValueType where "F64 = 0x7C"
definition VOID :: ValueType where "VOID = 0x40"

lemmas ValueType_defs = I32_def I64_def F32_def F64_def VOID_def

text \<open>
  \<open>union Value { int32_t i32; int64_t i64; float f32; double f64; }\<close>: eight bytes of
  storage. The payload is kept as the 64-bit pattern; the 32-bit members are its low four
  bytes (little-endian host). A \<open>float\<close> is its IEEE-754 binary32 pattern, a \<open>double\<close>
  its binary64 pattern. The constructors \<open>Value(int32_t)\<close> and \<open>Value(float)\<close> write four
  bytes only; the other four are taken as zero.
\<close>

type_synonym i32 = "32 word"
type_synonym i64 = "64 word"
type_synonym f32 = "32 word"
type_synonym f64 = "64 word"

record TypedValue =
  vtype :: ValueType
  payload :: "64 word"

definition makeI32 :: "i32 \<Rightarrow> TypedValue" where
  "makeI32 v = \<lparr>vtype = I32, payload = ucast v\<rparr>"

definition makeI64 :: "i64 \<Rightarrow> TypedValue" where
  "makeI64 v = \<lparr>vtype = I64, payload = v\<rparr>"

definition makeF32 :: "f32 \<Rightarrow> TypedValue" where
  "makeF32 v = \<lparr>vtype = F32, payload = ucast v\<rparr>"

definition makeF64 :: "f64 \<Rightarrow> TypedValue" where
  "makeF64 v = \<lparr>vtype = F64, payload = v\<rparr>"

fun valueTypeToString :: "ValueType \<Rightarrow> string" where
  "valueTypeToString t =
     (if t = I32 then ''i32''
      else if t = I64 then ''i64''
      else if t = F32 then ''f32''
      else if t = F64 then ''f64''
      else if t = VOID then ''void''
      else ''unknown'')"

section \<open>Errors\<close>

text \<open>
  The exception classes of the repository, each a subclass of \<open>std::runtime_error\<close>
  carrying a message: \<open>StackError\<close> (stack.h), \<open>MemoryError\<close> (memory.h),
  \<open>DecoderError\<close> (decoder.h), \<open>InterpreterError\<close> and \<open>Trap\<close> (interpreter.h).
\<close>

datatype error =
    is_StackError: StackError string
  | is_MemoryError: MemoryError string
  | is_DecoderError: DecoderError string
  | is_InterpreterError: InterpreterError string
  | is_Trap: Trap string

section \<open>Operand stack (stack.cpp)\<close>

text \<open>
  \<open>std::vector<TypedValue> stack_\<close>: the list in vector order, the top of the stack is
  the last element. A member function that throws leaves the vector as it was at the
  throw, so each operation returns its outcome together with the vector afterwards.
\<close>

type_synonym Stack = "TypedValue list"

definition checkNotEmpty :: "Stack \<Rightarrow> error + unit" where
  "checkNotEmpty st =
     (if st = [] then Inl (StackError ''Stack underflow'') else Inr ())"

definition checkType :: "ValueType \<Rightarrow> Stack \<Rightarrow> error + unit" where
  "checkType expected st =
     (if vtype (last st) \<noteq> expected
      then Inl (StackError (''Type mismatch: expected '' @ valueTypeToString expected @
                            '', got '' @ valueTypeToString (vtype (last st))))
      else Inr ())"

definition push :: "TypedValue \<Rightarrow> Stack \<Rightarrow> Stack" where
  "push v st = st @ [v]"

definition pushI32 :: "i32 \<Rightarrow> Stack \<Rightarrow> Stack" where
  "pushI32 v st = st @ [makeI32 v]"

definition pushI64 :: "i64 \<Rightarrow> Stack \<Rightarrow> Stack" where
  "pushI64 v st = st @ [makeI64 v]"

definition pushF32 :: "f32 \<Rightarrow> Stack \<Rightarrow> Stack" where
  "pushF32 v st = st @ [makeF32 v]"

definition pushF64 :: "f64 \<Rightarrow> Stack \<Rightarrow> Stack" where
  "pushF64 v st = st @ [makeF64 v]"

definition popI32 :: "Stack \<Rightarrow> (error + i32) \<times> Stack" where
  "popI32 st =
     (case checkNotEmpty st of
        Inl e \<Rightarrow> (Inl e, st)
      | Inr _ \<Rightarrow>
          (case checkType I32 st of
             Inl e \<Rightarrow> (Inl e, st)
           | Inr _ \<Rightarrow> (let val = last st in (Inr (ucast (payload val)), butlast st))))"

definition popI64 :: "Stack \<Rightarrow> (error + i64) \<times> Stack" where
  "popI64 st =
     (case checkNotEmpty st of
        Inl e \<Rightarrow> (Inl e, st)
      | Inr _ \<Rightarrow>
          (case checkType I64 st of
             Inl e \<Rightarrow> (Inl e, st)
           | Inr _ \<Rightarrow> (let val = last st in (Inr (payload val), butlast st))))"

definition popF32 :: "Stack \<Rightarrow> (error + f32) \<times> Stack" where
  "popF32 st =
     (case checkNotEmpty st of
        Inl e \<Rightarrow> (Inl e, st)
      | Inr _ \<Rightarrow>
          (case checkType F32 st of
             Inl e \<Rightarrow> (Inl e, st)
           | Inr _ \<Rightarrow> (let val = last st in (Inr (ucast (payload val)), butlast st))))"

definition popF64 :: "Stack \<Rightarrow> (error + f64) \<times> Stack" where
  "popF64 st =
     (case checkNotEmpty st of
        Inl e \<Rightarrow> (Inl e, st)
      | Inr _ \<Rightarrow>
          (case checkType F64 st of
             Inl e \<Rightarrow> (Inl e, st)
           | Inr _ \<Rightarrow> (let val = last st in (Inr (payload val), butlast st))))"

definition pop :: "Stack \<Rightarrow> (error + TypedValue) \<times> Stack" where
  "pop st =
     (case checkNotEmpty st of
        Inl e \<Rightarrow> (Inl e, st)
      | Inr _ \<Rightarrow> (let val = last st in (Inr val, butlast st)))"

definition peek :: "Stack \<Rightarrow> error + TypedValue" where
  "peek st = (case checkNotEmpty st of Inl e \<Rightarrow> Inl e | Inr _ \<Rightarrow> Inr (last st))"

section \<open>Typed pops\<close>

lemma typed_pop_cases:
  "popI32 st = (if st = [] then (Inl (StackError ''Stack underflow''), st)
                else case checkType I32 st of Inl e \<Rightarrow> (Inl e, st)
                     | Inr _ \<Rightarrow> (Inr (ucast (payload (last st))), butlast st))"
  "popI64 st = (if st = [] then (Inl (StackError ''Stack underflow''), st)
                else case checkType I64 st of Inl e \<Rightarrow> (Inl e, st)
                     | Inr _ \<Rightarrow> (Inr (payload (last st)), butlast st))"
  "popF32 st = (if st = [] then (Inl (StackError ''Stack underflow''), st)
                else case checkType F32 st of Inl e \<Rightarrow> (Inl e, st)
                     | Inr _ \<Rightarrow> (Inr (ucast (payload (last st))), butlast st))"
  "popF64 st = (if st = [] then (Inl (StackError ''Stack underflow''), st)
                else case checkType F64 st of Inl e \<Rightarrow> (Inl e, st)
                     | Inr _ \<Rightarrow> (Inr (payload (last st)), butlast st))"
  by (simp_all add: popI32_def popI64_def popF32_def popF64_def checkNotEmpty_def Let_def
                split: sum.splits)

text \<open>
  C10. A typed pop that raises (stack underflow on an empty stack, type mismatch when the
  top value's tag differs from the expected one) leaves the operand stack exactly as it
  was; it raises in exactly those two situations, and both checks come before the removal.
\<close>

theorem typed_pop_error_leaves_stack:
  "(fst (popI32 st) = Inl e \<longrightarrow> snd (popI32 st) = st \<and> is_StackError e) \<and>
   (fst (popI64 st) = Inl e \<longrightarrow> snd (popI64 st) = st \<and> is_StackError e) \<and>
   (fst (popF32 st) = Inl e \<longrightarrow> snd (popF32 st) = st \<and> is_StackError e) \<and>
   (fst (popF64 st) = Inl e \<longrightarrow> snd (popF64 st) = st \<and> is_StackError e) \<and>
   (isl (fst (popI32 st)) \<longleftrightarrow> st = [] \<or> vtype (last st) \<noteq> I32) \<and>
   (isl (fst (popI64 st)) \<longleftrightarrow> st = [] \<or> vtype (last st) \<noteq> I64) \<and>
   (isl (fst (popF32 st)) \<longleftrightarrow> st = [] \<or> vtype (last st) \<noteq> F32) \<and>
   (isl (fst (popF64 st)) \<longleftrightarrow> st = [] \<or> vtype (last st) \<noteq> F64)"
  by (auto simp: typed_pop_cases checkType_def split: sum.splits if_splits)

theorem typed_pop_error_leaves_stack_witness:
  "fst (popI32 [makeI64 5]) = Inl (StackError ''Type mismatch: expected i32, got i64'') \<and>
   snd (popI32 [makeI64 5]) = [makeI64 5] \<and>
   fst (popF64 []) = Inl (StackError ''Stack underflow'') \<and>
   snd (popF64 []) = []"
  using typed_pop_error_leaves_stack [of "[makeI64 5]" "StackError ''Type mismatch: expected i32, got i64''"]
        typed_pop_error_leaves_stack [of "[]" "StackError ''Stack underflow''"]
  by (simp add: typed_pop_cases checkType_def makeI64_def ValueType_defs)

section \<open>Linear memory (memory.h, memory.cpp)\<close>

record Limits =
  lim_min :: "32 word"
  lim_max :: "32 word"
  has_max :: bool

definition PAGE_SIZE :: "32 word" where "PAGE_SIZE = 65536"
definition MAX_PAGES :: "32 word" where "MAX_PAGES = 65536"

text \<open>
  \<open>std::vector<uint8_t> data_; Limits limits_; uint32_t current_pages_\<close>.
\<close>

record Memory =
  data :: "8 word list"
  limits :: Limits
  current_pages :: "32 word"

text \<open>\<open>std::vector::resize(n, v)\<close>: cut to \<open>n\<close> elements or fill up with \<open>v\<close>.\<close>

definition resize :: "'a list \<Rightarrow> nat \<Rightarrow> 'a \<Rightarrow> 'a list" where
  "resize xs n v = take n xs @ replicate (n - length xs) v"

text \<open>
  The constructor \<open>Memory::Memory(const Limits&)\<close>. The size passed to \<open>resize\<close> is
  \<open>current_pages_ * PAGE_SIZE\<close>, a product of two \<open>uint32_t\<close>, hence a 32-bit product.
\<close>

definition new_Memory :: "Limits \<Rightarrow> error + Memory" where
  "new_Memory l =
     (if lim_min l > MAX_PAGES then Inl (MemoryError ''Initial memory size exceeds maximum'')
      else if has_max l \<and> lim_max l > MAX_PAGES
        then Inl (MemoryError ''Maximum memory size exceeds limit'')
      else if has_max l \<and> lim_min l > lim_max l
        then Inl (MemoryError ''Initial size exceeds maximum size'')
      else Inr \<lparr>data = resize [] (unat (lim_min l * PAGE_SIZE)) 0,
                limits = l, current_pages = lim_min l\<rparr>)"

definition size_pages :: "Memory \<Rightarrow> 32 word" where
  "size_pages m = current_pages m"

definition sizeInBytes :: "Memory \<Rightarrow> 32 word" where
  "sizeInBytes m = current_pages m * PAGE_SIZE"

text \<open>
  \<open>int32_t Memory::grow(uint32_t delta)\<close>; the \<open>int32_t\<close> result is given as its 32-bit
  pattern, so \<open>-1\<close> is the word \<open>-1\<close>.
\<close>

definition grow :: "32 word \<Rightarrow> Memory \<Rightarrow> 32 word \<times> Memory" where
  "grow delta m =
     (if delta = 0 then (current_pages m, m)
      else
        let new_pages = current_pages m + delta in
        if new_pages < current_pages m then (- 1, m)
        else if new_pages > MAX_PAGES then (- 1, m)
        else if has_max (limits m) \<and> new_pages > lim_max (limits m) then (- 1, m)
        else
          let old_pages = current_pages m;
              m1 = m\<lparr>current_pages := new_pages\<rparr>;
              m2 = m1\<lparr>data := resize (data m1) (unat (current_pages m1 * PAGE_SIZE)) 0\<rparr>
          in (old_pages, m2))"

text \<open>
  \<open>Memory::initialize\<close>: \<open>offset + data.size()\<close> is computed in \<open>size_t\<close> (64 bits), so it
  does not wrap for a 32-bit offset and a vector length.
\<close>

definition initialize :: "32 word \<Rightarrow> 8 word list \<Rightarrow> Memory \<Rightarrow> error + Memory" where
  "initialize offset bytes m =
     (if unat offset + length bytes > length (data m)
      then Inl (MemoryError ''Data segment out of bounds'')
      else Inr (m\<lparr>data := take (unat offset) (data m) @ bytes @
                            drop (unat offset + length bytes) (data m)\<rparr>))"

text \<open>
  \<open>Memory::checkAddress(uint32_t address, size_t size)\<close>: the sum is a \<open>size_t\<close>, so the
  second test (\<open>address + size < address\<close>) never fires.
\<close>

definition checkAddress :: "32 word \<Rightarrow> nat \<Rightarrow> Memory \<Rightarrow> error + unit" where
  "checkAddress address sz m =
     (if unat address + sz > length (data m) \<or> unat address + sz < unat address
      then Inl (MemoryError ''Memory access out of bounds'')
      else Inr ())"

text \<open>
  \<open>load<T>\<close> and \<open>store<T>\<close> copy \<open>sizeof(T)\<close> bytes between the vector and the object
  representation of the value; the representation is little-endian.
\<close>

definition load :: "nat \<Rightarrow> 32 word \<Rightarrow> Memory \<Rightarrow> error + 8 word list" where
  "load sz address m =
     (case checkAddress address sz m of
        Inl e \<Rightarrow> Inl e
      | Inr _ \<Rightarrow> Inr (take sz (drop (unat address) (data m))))"

definition store :: "32 word \<Rightarrow> 8 word list \<Rightarrow> Memory \<Rightarrow> error + Memory" where
  "store address bytes m =
     (case checkAddress address (length bytes) m of
        Inl e \<Rightarrow> Inl e
      | Inr _ \<Rightarrow> Inr (m\<lparr>data := take (unat address) (data m) @ bytes @
                                  drop (unat address + length bytes) (data m)\<rparr>))"

definition le_bytes :: "nat \<Rightarrow> 'a::len word \<Rightarrow> 8 word list" where
  "le_bytes n v = map (\<lambda>i. ucast (drop_bit (8 * i) v)) [0..<n]"

definition from_le_bytes :: "8 word list \<Rightarrow> 'a::len word" where
  "from_le_bytes bs = foldr (\<lambda>b acc. ucast b OR push_bit 8 acc) bs 0"

definition loadU8 :: "32 word \<Rightarrow> Memory \<Rightarrow> error + 8 word" where
  "loadU8 address m = map_sum id from_le_bytes (load 1 address m)"

definition loadU32 :: "32 word \<Rightarrow> Memory \<Rightarrow> error + 32 word" where
  "loadU32 address m = map_sum id from_le_bytes (load 4 address m)"

definition storeU8 :: "32 word \<Rightarrow> 8 word \<Rightarrow> Memory \<Rightarrow> error + Memory" where
  "storeU8 address v m = store address (le_bytes 1 v) m"

definition storeU32 :: "32 word \<Rightarrow> 32 word \<Rightarrow> Memory \<Rightarrow> error + Memory" where
  "storeU32 address v m = store address (le_bytes 4 v) m"

definition storeU64 :: "32 word \<Rightarrow> 64 word \<Rightarrow> Memory \<Rightarrow> error + Memory" where
  "storeU64 address v m = store address (le_bytes 8 v) m"

text \<open>
  The memories that a sequence of successful operations can produce, starting from the
  constructor.
\<close>

inductive reachable :: "Memory \<Rightarrow> bool" where
  r_new: "new_Memory l = Inr m \<Longrightarrow> reachable m"
| r_grow: "reachable m \<Longrightarrow> grow delta m = (r, m') \<Longrightarrow> r \<noteq> - 1 \<Longrightarrow> reachable m'"
| r_initialize: "reachable m \<Longrightarrow> initialize offset bytes m = Inr m' \<Longrightarrow> reachable m'"
| r_store: "reachable m \<Longrightarrow> store address bytes m = Inr m' \<Longrightarrow> reachable m'"

subsection \<open>What the operations keep\<close>

lemma length_resize: "length (resize xs n v) = n"
  by (simp add: resize_def)

lemma length_le_bytes: "length (le_bytes n v) = n"
  by (simp add: le_bytes_def)

text \<open>
  The length of the vector is the 32-bit product of the page count and the page size, and
  the page count never exceeds \<open>MAX_PAGES\<close>.
\<close>

definition mem_inv :: "Memory \<Rightarrow> bool" where
  "mem_inv m \<longleftrightarrow> length (data m) = unat (current_pages m * PAGE_SIZE) \<and>
                current_pages m \<le> MAX_PAGES"

lemma new_Memory_inv: "new_Memory l = Inr m \<Longrightarrow> mem_inv m"
  by (auto simp: new_Memory_def mem_inv_def length_resize split: if_splits)

lemma grow_inv: "mem_inv m \<Longrightarrow> grow delta m = (r, m') \<Longrightarrow> mem_inv m'"
  by (auto simp: grow_def mem_inv_def length_resize Let_def split: if_splits)

lemma initialize_inv: "mem_inv m \<Longrightarrow> initialize offset bytes m = Inr m' \<Longrightarrow> mem_inv m'"
  by (auto simp: initialize_def mem_inv_def split: if_splits)

lemma store_inv: "mem_inv m \<Longrightarrow> store address bytes m = Inr m' \<Longrightarrow> mem_inv m'"
  by (auto simp: store_def checkAddress_def mem_inv_def split: if_splits sum.splits)

lemma reachable_inv: "reachable m \<Longrightarrow> mem_inv m"
  by (induction rule: reachable.induct)
     (auto intro: new_Memory_inv grow_inv initialize_inv store_inv)

lemma pages_times_page_size:
  "p < (65536 :: 32 word) \<Longrightarrow> unat (p * PAGE_SIZE) = unat p * 65536"
proof -
  assume "p < 65536"
  then have "unat p < 65536" by (simp add: word_less_nat_alt)
  then have "unat p * 65536 < 2 ^ 32" by simp
  then show ?thesis
    by (simp add: PAGE_SIZE_def unat_word_ariths)
qed

lemma reachable_len_below_limit:
  "reachable m \<Longrightarrow> current_pages m < 65536 \<Longrightarrow>
   length (data m) = unat (current_pages m) * 65536"
  using reachable_inv [of m] by (simp add: mem_inv_def pages_times_page_size)

subsection \<open>The length of the vector at the page limit\<close>

text \<open>
  C3. After every successful operation the byte length of the vector should equal
  \<open>current_pages \<times> 65536\<close>, up to and including 65536 pages. The constructor accepts
  \<open>min = 65536\<close> (the test is \<open>min > MAX_PAGES\<close>) and then resizes the vector to the
  32-bit product \<open>65536 * 65536 = 0\<close>: the memory reports 65536 pages and holds no byte.
  Below 65536 pages the equation holds (\<open>reachable_len_below_limit\<close>).
\<close>

theorem new_Memory_at_max_pages:
  "new_Memory \<lparr>lim_min = 65536, lim_max = 0, has_max = False\<rparr> =
     Inr \<lparr>data = [], limits = \<lparr>lim_min = 65536, lim_max = 0, has_max = False\<rparr>,
          current_pages = 65536\<rparr> \<and>
   unat (65536 :: 32 word) * 65536 = (4294967296 :: nat)"
  by (simp add: new_Memory_def MAX_PAGES_def PAGE_SIZE_def resize_def)

subsection \<open>Growing\<close>

lemma grow_zero: "grow 0 m = (current_pages m, m)"
  by (simp add: grow_def)

text \<open>
  Below the page limit \<open>grow\<close> does what its documentation says: on success it returns the
  previous page count, the page count becomes \<open>old + delta\<close>, the old bytes stay and the
  appended \<open>delta \<times> 65536\<close> bytes are zero.
\<close>

lemma grow_success_below_limit:
  assumes inv: "mem_inv m"
    and d: "delta \<noteq> 0"
    and fits: "unat (current_pages m) + unat delta < 65536"
    and mx: "has_max (limits m) \<longrightarrow> current_pages m + delta \<le> lim_max (limits m)"
  shows "grow delta m =
           (current_pages m,
            m\<lparr>current_pages := current_pages m + delta,
              data := data m @ replicate (unat delta * 65536) 0\<rparr>)"
proof -
  let ?n = "current_pages m + delta"
  have un: "unat ?n = unat (current_pages m) + unat delta"
    using fits by (simp add: unat_word_ariths)
  have n_lt: "?n < 65536"
    using fits un by (simp add: word_less_nat_alt)
  have c_lt: "current_pages m < 65536"
    using fits by (simp add: word_less_nat_alt)
  have no_wrap: "\<not> ?n < current_pages m"
    using un by (simp add: word_less_nat_alt)
  have le_max: "\<not> ?n > MAX_PAGES"
    using n_lt by (simp add: MAX_PAGES_def word_less_nat_alt)
  have len: "length (data m) = unat (current_pages m) * 65536"
    using inv c_lt by (simp add: mem_inv_def pages_times_page_size)
  have new_len: "unat (?n * PAGE_SIZE) = unat (current_pages m) * 65536 + unat delta * 65536"
    using pages_times_page_size [OF n_lt] un by (simp add: algebra_simps)
  have "resize (data m) (unat (?n * PAGE_SIZE)) 0 = data m @ replicate (unat delta * 65536) 0"
    by (simp add: resize_def new_len len)
  with d no_wrap le_max mx show ?thesis
    by (auto simp: grow_def Let_def not_less)
qed

text \<open>
  C7. \<open>grow\<close> should return the old page count with the new pages readable as zero, or
  \<open>-1\<close> with the memory unchanged. At \<open>old + delta = 65536\<close> the call succeeds (the test is
  \<open>new_pages > MAX_PAGES\<close>) and resizes the vector to the 32-bit product
  \<open>65536 * 65536 = 0\<close>: a one-page memory grown by 65535 pages returns 1, reports 65536
  pages, and holds no byte; neither an old byte nor a new one can be read.
\<close>

theorem grow_to_max_pages:
  "grow 65535 \<lparr>data = replicate 65536 0,
               limits = \<lparr>lim_min = 1, lim_max = 0, has_max = False\<rparr>,
               current_pages = 1\<rparr> =
     (1, \<lparr>data = [], limits = \<lparr>lim_min = 1, lim_max = 0, has_max = False\<rparr>,
          current_pages = 65536\<rparr>) \<and>
   new_Memory \<lparr>lim_min = 1, lim_max = 0, has_max = False\<rparr> =
     Inr \<lparr>data = replicate 65536 0,
          limits = \<lparr>lim_min = 1, lim_max = 0, has_max = False\<rparr>, current_pages = 1\<rparr> \<and>
   loadU8 0 \<lparr>data = [], limits = \<lparr>lim_min = 1, lim_max = 0, has_max = False\<rparr>,
             current_pages = 65536\<rparr> = Inl (MemoryError ''Memory access out of bounds'') \<and>
   loadU8 65536 \<lparr>data = [], limits = \<lparr>lim_min = 1, lim_max = 0, has_max = False\<rparr>,
             current_pages = 65536\<rparr> = Inl (MemoryError ''Memory access out of bounds'')"
  by (simp add: grow_def new_Memory_def MAX_PAGES_def PAGE_SIZE_def resize_def Let_def
                loadU8_def load_def checkAddress_def)

section \<open>Decoder: byte cursor and LEB128 (decoder.cpp)\<close>

text \<open>\<open>std::vector<uint8_t> buffer_; size_t position_\<close>.\<close>

record Decoder =
  buffer :: "8 word list"
  position :: nat

text \<open>
  \<open>Decoder::formatError\<close>: \<open>"At byte 0x" << hex, width 4, filled with 0 << position_ <<
  " (" << dec << position_ << "): " << message\<close>.
\<close>

function digits :: "nat \<Rightarrow> nat \<Rightarrow> string" where
  "digits base n =
     (if base < 2 \<or> n < base then [''0123456789abcdef'' ! n]
      else digits base (n div base) @ [''0123456789abcdef'' ! (n mod base)])"
  by pat_completeness auto
termination
  by (relation "measure (\<lambda>(base, n). n)") auto

declare digits.simps [simp del]

definition formatError :: "string \<Rightarrow> Decoder \<Rightarrow> string" where
  "formatError message d =
     ''At byte 0x'' @
     replicate (4 - length (digits 16 (position d))) CHR ''0'' @ digits 16 (position d) @
     '' ('' @ digits 10 (position d) @ ''): '' @ message"

definition ensureBytes :: "nat \<Rightarrow> Decoder \<Rightarrow> error + unit" where
  "ensureBytes count d =
     (if position d + count > length (buffer d)
      then Inl (DecoderError ''Unexpected end of file'')
      else Inr ())"

definition Decoder_readByte :: "Decoder \<Rightarrow> (error + 8 word) \<times> Decoder" where
  "Decoder_readByte d =
     (case ensureBytes 1 d of
        Inl e \<Rightarrow> (Inl e, d)
      | Inr _ \<Rightarrow> (Inr (buffer d ! position d), d\<lparr>position := position d + 1\<rparr>))"

lemma Decoder_readByte_Inr:
  "Decoder_readByte d = (Inr b, d') \<Longrightarrow>
   position d < length (buffer d) \<and> d' = d\<lparr>position := position d + 1\<rparr> \<and>
   b = buffer d ! position d"
  by (auto simp: Decoder_readByte_def ensureBytes_def split: if_splits)

lemma Decoder_readByte_Inl:
  "Decoder_readByte d = (Inl e, d') \<Longrightarrow> d' = d \<and> length (buffer d) \<le> position d"
  by (auto simp: Decoder_readByte_def ensureBytes_def split: if_splits)

text \<open>
  \<open>Decoder::readVarUint32\<close>. The loop \<open>while (true)\<close> with its locals \<open>result\<close> and
  \<open>shift\<close>; \<open>(byte & 0x7F) << shift\<close> is OR-ed into the \<open>uint32_t\<close> result, so only its
  low 32 bits count.
\<close>

function Decoder_readVarUint32_loop ::
  "32 word \<Rightarrow> nat \<Rightarrow> Decoder \<Rightarrow> (error + 32 word) \<times> Decoder" where
  "Decoder_readVarUint32_loop result shift d =
     (case Decoder_readByte d of
        (Inl e, d') \<Rightarrow> (Inl e, d')
      | (Inr byte, d') \<Rightarrow>
          (let result' = result OR push_bit shift (ucast (byte AND 0x7F)) in
           if byte AND 0x80 = 0 then (Inr result', d')
           else
             let shift' = shift + 7 in
             if shift' \<ge> 35
             then (Inl (DecoderError
                     (formatError ''Invalid LEB128 unsigned encoding (too many bytes)'' d')), d')
             else Decoder_readVarUint32_loop result' shift' d'))"
  by pat_completeness auto
termination
  by (relation "measure (\<lambda>(result, shift, d). length (buffer d) - position d)")
     (auto dest!: Decoder_readByte_Inr [OF sym])

declare Decoder_readVarUint32_loop.simps [simp del]

definition Decoder_readVarUint32 :: "Decoder \<Rightarrow> (error + 32 word) \<times> Decoder" where
  "Decoder_readVarUint32 d = Decoder_readVarUint32_loop 0 0 d"

function Decoder_readVarUint64_loop ::
  "64 word \<Rightarrow> nat \<Rightarrow> Decoder \<Rightarrow> (error + 64 word) \<times> Decoder" where
  "Decoder_readVarUint64_loop result shift d =
     (case Decoder_readByte d of
        (Inl e, d') \<Rightarrow> (Inl e, d')
      | (Inr byte, d') \<Rightarrow>
          (let result' = result OR push_bit shift (ucast (byte AND 0x7F)) in
           if byte AND 0x80 = 0 then (Inr result', d')
           else
             let shift' = shift + 7 in
             if shift' \<ge> 70
             then (Inl (DecoderError
                     (formatError ''Invalid LEB128 unsigned encoding (too many bytes)'' d')), d')
             else Decoder_readVarUint64_loop result' shift' d'))"
  by pat_completeness auto
termination
  by (relation "measure (\<lambda>(result, shift, d). length (buffer d) - position d)")
     (auto dest!: Decoder_readByte_Inr [OF sym])

declare Decoder_readVarUint64_loop.simps [simp del]

definition Decoder_readVarUint64 :: "Decoder \<Rightarrow> (error + 64 word) \<times> Decoder" where
  "Decoder_readVarUint64 d = Decoder_readVarUint64_loop 0 0 d"

text \<open>
  \<open>Decoder::readVarInt32\<close> and \<open>readVarInt64\<close>: a \<open>do ... while ((byte & 0x80) != 0)\<close>
  loop with no test on \<open>shift\<close>, then the sign extension. The loop hands its three locals
  \<open>result\<close>, \<open>shift\<close> and \<open>byte\<close> to the code after it. A shift by the width of the type or
  more is undefined in C++; here the shifted bits are dropped (\<open>push_bit\<close> on the word).
\<close>

function Decoder_readVarInt32_loop ::
  "32 word \<Rightarrow> nat \<Rightarrow> Decoder \<Rightarrow> (error + 32 word \<times> nat \<times> 8 word) \<times> Decoder" where
  "Decoder_readVarInt32_loop result shift d =
     (case Decoder_readByte d of
        (Inl e, d') \<Rightarrow> (Inl e, d')
      | (Inr byte, d') \<Rightarrow>
          (let result' = result OR push_bit shift (ucast (byte AND 0x7F));
               shift' = shift + 7
           in if byte AND 0x80 \<noteq> 0 then Decoder_readVarInt32_loop result' shift' d'
              else (Inr (result', shift', byte), d')))"
  by pat_completeness auto
termination
  by (relation "measure (\<lambda>(result, shift, d). length (buffer d) - position d)")
     (auto dest!: Decoder_readByte_Inr [OF sym])

declare Decoder_readVarInt32_loop.simps [simp del]

definition Decoder_readVarInt32 :: "Decoder \<Rightarrow> (error + 32 word) \<times> Decoder" where
  "Decoder_readVarInt32 d =
     (case Decoder_readVarInt32_loop 0 0 d of
        (Inl e, d') \<Rightarrow> (Inl e, d')
      | (Inr (result, shift, byte), d') \<Rightarrow>
          (Inr (if shift < 32 \<and> byte AND 0x40 \<noteq> 0 then result OR - (push_bit shift 1)
                else result), d'))"

function Decoder_readVarInt64_loop ::
  "64 word \<Rightarrow> nat \<Rightarrow> Decoder \<Rightarrow> (error + 64 word \<times> nat \<times> 8 word) \<times> Decoder" where
  "Decoder_readVarInt64_loop result shift d =
     (case Decoder_readByte d of
        (Inl e, d') \<Rightarrow> (Inl e, d')
      | (Inr byte, d') \<Rightarrow>
          (let result' = result OR push_bit shift (ucast (byte AND 0x7F));
               shift' = shift + 7
           in if byte AND 0x80 \<noteq> 0 then Decoder_readVarInt64_loop result' shift' d'
              else (Inr (result', shift', byte), d')))"
  by pat_completeness auto
termination
  by (relation "measure (\<lambda>(result, shift, d). length (buffer d) - position d)")
     (auto dest!: Decoder_readByte_Inr [OF sym])

declare Decoder_readVarInt64_loop.simps [simp del]

definition Decoder_readVarInt64 :: "Decoder \<Rightarrow> (error + 64 word) \<times> Decoder" where
  "Decoder_readVarInt64 d =
     (case Decoder_readVarInt64_loop 0 0 d of
        (Inl e, d') \<Rightarrow> (Inl e, d')
      | (Inr (result, shift, byte), d') \<Rightarrow>
          (Inr (if shift < 64 \<and> byte AND 0x40 \<noteq> 0 then result OR - (push_bit shift 1)
                else result), d'))"

subsection \<open>Length limits of the LEB128 readers\<close>

text \<open>
  The unsigned readers stop after five (ten) bytes: a successful read consumes between one
  and five (ten) bytes.
\<close>

lemma Decoder_readVarUint32_loop_consumed:
  "Decoder_readVarUint32_loop r sh d = (Inr v, d') \<Longrightarrow>
   buffer d' = buffer d \<and> position d < position d' \<and>
   (position d' = position d + 1 \<or> sh + 7 * (position d' - position d - 1) < 35)"
proof (induction r sh d rule: Decoder_readVarUint32_loop.induct)
  case (1 result shift d)
  show ?case
  proof (cases "Decoder_readByte d")
    case (Pair x d1)
    show ?thesis
    proof (cases x)
      case (Inl e)
      with Pair "1.prems" show ?thesis
        by (simp add: Decoder_readVarUint32_loop.simps [of result shift d])
    next
      case (Inr byte)
      note rb = Decoder_readByte_Inr [OF Pair [unfolded Inr]]
      show ?thesis
      proof (cases "byte AND 0x80 = 0")
        case True
        with Pair Inr "1.prems" rb show ?thesis
          by (auto simp: Decoder_readVarUint32_loop.simps [of result shift d] Let_def)
      next
        case False
        show ?thesis
        proof (cases "shift + 7 \<ge> 35")
          case True
          with False Pair Inr "1.prems" show ?thesis
            by (simp add: Decoder_readVarUint32_loop.simps [of result shift d] Let_def)
        next
          case ge: False
          let ?r = "result OR push_bit shift (ucast (byte AND 0x7F))"
          have rec: "Decoder_readVarUint32_loop ?r (shift + 7) d1 = (Inr v, d')"
            using False ge Pair Inr "1.prems"
            by (simp add: Decoder_readVarUint32_loop.simps [of result shift d] Let_def)
          have ih: "buffer d' = buffer d1 \<and> position d1 < position d' \<and>
             (position d' = position d1 + 1 \<or>
              shift + 7 + 7 * (position d' - position d1 - 1) < 35)"
            using "1.IH" [OF Pair [symmetric] Inr refl False refl ge rec] .
          with rb ge show ?thesis by auto
        qed
      qed
    qed
  qed
qed

lemma Decoder_readVarUint64_loop_consumed:
  "Decoder_readVarUint64_loop r sh d = (Inr v, d') \<Longrightarrow>
   buffer d' = buffer d \<and> position d < position d' \<and>
   (position d' = position d + 1 \<or> sh + 7 * (position d' - position d - 1) < 70)"
proof (induction r sh d rule: Decoder_readVarUint64_loop.induct)
  case (1 result shift d)
  show ?case
  proof (cases "Decoder_readByte d")
    case (Pair x d1)
    show ?thesis
    proof (cases x)
      case (Inl e)
      with Pair "1.prems" show ?thesis
        by (simp add: Decoder_readVarUint64_loop.simps [of result shift d])
    next
      case (Inr byte)
      note rb = Decoder_readByte_Inr [OF Pair [unfolded Inr]]
      show ?thesis
      proof (cases "byte AND 0x80 = 0")
        case True
        with Pair Inr "1.prems" rb show ?thesis
          by (auto simp: Decoder_readVarUint64_loop.simps [of result shift d] Let_def)
      next
        case False
        show ?thesis
        proof (cases "shift + 7 \<ge> 70")
          case True
          with False Pair Inr "1.prems" show ?thesis
            by (simp add: Decoder_readVarUint64_loop.simps [of result shift d] Let_def)
        next
          case ge: False
          let ?r = "result OR push_bit shift (ucast (byte AND 0x7F))"
          have rec: "Decoder_readVarUint64_loop ?r (shift + 7) d1 = (Inr v, d')"
            using False ge Pair Inr "1.prems"
            by (simp add: Decoder_readVarUint64_loop.simps [of result shift d] Let_def)
          have ih: "buffer d' = buffer d1 \<and> position d1 < position d' \<and>
             (position d' = position d1 + 1 \<or>
              shift + 7 + 7 * (position d' - position d1 - 1) < 70)"
            using "1.IH" [OF Pair [symmetric] Inr refl False refl ge rec] .
          with rb ge show ?thesis by auto
        qed
      qed
    qed
  qed
qed

lemma Decoder_readVarUint32_at_most_5:
  "Decoder_readVarUint32 d = (Inr v, d') \<Longrightarrow>
   buffer d' = buffer d \<and> position d < position d' \<and> position d' \<le> position d + 5"
  using Decoder_readVarUint32_loop_consumed [of 0 0 d v d']
  by (auto simp: Decoder_readVarUint32_def)

lemma Decoder_readVarUint64_at_most_10:
  "Decoder_readVarUint64 d = (Inr v, d') \<Longrightarrow>
   buffer d' = buffer d \<and> position d < position d' \<and> position d' \<le> position d + 10"
  using Decoder_readVarUint64_loop_consumed [of 0 0 d v d']
  by (auto simp: Decoder_readVarUint64_def)

text \<open>
  The signed readers have no such limit: \<open>n\<close> continuation bytes \<open>0x80\<close> followed by
  \<open>0x00\<close> are read as the value 0, whatever \<open>n\<close> is.
\<close>

lemma Decoder_readVarInt32_loop_zeros:
  "k \<le> n \<Longrightarrow>
   Decoder_readVarInt32_loop result shift \<lparr>buffer = replicate n 0x80 @ [0], position = k\<rparr> =
     (Inr (result, shift + 7 * (n - k + 1), 0),
      \<lparr>buffer = replicate n 0x80 @ [0], position = n + 1\<rparr>)"
proof (induction "n - k" arbitrary: k result shift)
  case 0
  then have "k = n" by simp
  then show ?case
    by (simp add: Decoder_readVarInt32_loop.simps [of result shift] Decoder_readByte_def
                  ensureBytes_def nth_append)
next
  case (Suc m)
  then have lt: "k < n" and m: "m = n - Suc k" and le: "Suc k \<le> n" by simp_all
  have step:
    "Decoder_readVarInt32_loop result shift \<lparr>buffer = replicate n 0x80 @ [0], position = k\<rparr> =
     Decoder_readVarInt32_loop result (shift + 7)
       \<lparr>buffer = replicate n 0x80 @ [0], position = Suc k\<rparr>"
    using lt
    by (simp add: Decoder_readVarInt32_loop.simps [of result shift] Decoder_readByte_def
                  ensureBytes_def nth_append)
  show ?case
    unfolding step using Suc.hyps(1) [OF m le, of result "shift + 7"] lt
    by (simp add: algebra_simps Suc_diff_Suc)
qed

lemma Decoder_readVarInt64_loop_zeros:
  "k \<le> n \<Longrightarrow>
   Decoder_readVarInt64_loop result shift \<lparr>buffer = replicate n 0x80 @ [0], position = k\<rparr> =
     (Inr (result, shift + 7 * (n - k + 1), 0),
      \<lparr>buffer = replicate n 0x80 @ [0], position = n + 1\<rparr>)"
proof (induction "n - k" arbitrary: k result shift)
  case 0
  then have "k = n" by simp
  then show ?case
    by (simp add: Decoder_readVarInt64_loop.simps [of result shift] Decoder_readByte_def
                  ensureBytes_def nth_append)
next
  case (Suc m)
  then have lt: "k < n" and m: "m = n - Suc k" and le: "Suc k \<le> n" by simp_all
  have step:
    "Decoder_readVarInt64_loop result shift \<lparr>buffer = replicate n 0x80 @ [0], position = k\<rparr> =
     Decoder_readVarInt64_loop result (shift + 7)
       \<lparr>buffer = replicate n 0x80 @ [0], position = Suc k\<rparr>"
    using lt
    by (simp add: Decoder_readVarInt64_loop.simps [of result shift] Decoder_readByte_def
                  ensureBytes_def nth_append)
  show ?case
    unfolding step using Suc.hyps(1) [OF m le, of result "shift + 7"] lt
    by (simp add: algebra_simps Suc_diff_Suc)
qed

lemma Decoder_readVarInt32_any_length:
  "Decoder_readVarInt32 \<lparr>buffer = replicate n 0x80 @ [0], position = 0\<rparr> =
     (Inr 0, \<lparr>buffer = replicate n 0x80 @ [0], position = n + 1\<rparr>)"
  by (simp add: Decoder_readVarInt32_def Decoder_readVarInt32_loop_zeros)

lemma Decoder_readVarInt64_any_length:
  "Decoder_readVarInt64 \<lparr>buffer = replicate n 0x80 @ [0], position = 0\<rparr> =
     (Inr 0, \<lparr>buffer = replicate n 0x80 @ [0], position = n + 1\<rparr>)"
  by (simp add: Decoder_readVarInt64_def Decoder_readVarInt64_loop_zeros)

text \<open>
  \<open>Decoder::readVarInt32\<close> and \<open>readVarInt64\<close> have no test on \<open>shift\<close>: the six bytes
  \<open>80 80 80 80 80 00\<close> are read as 0 by \<open>readVarInt32\<close> and the eleven bytes
  \<open>80 (ten times) 00\<close> as 0 by \<open>readVarInt64\<close>, where \<open>readVarUint32\<close> raises a
  \<open>DecoderError\<close> on the same six bytes. (A canonical one-byte \<open>7F\<close> is sign-extended from
  bit 6 to \<open>-1\<close>.) Neither signed reader is called by the decoder.
\<close>

lemma Decoder_readVarInt_no_length_test:
  "Decoder_readVarInt32 \<lparr>buffer = [0x80, 0x80, 0x80, 0x80, 0x80, 0x00], position = 0\<rparr> =
     (Inr 0, \<lparr>buffer = [0x80, 0x80, 0x80, 0x80, 0x80, 0x00], position = 6\<rparr>) \<and>
   Decoder_readVarInt64
     \<lparr>buffer = [0x80, 0x80, 0x80, 0x80, 0x80, 0x80, 0x80, 0x80, 0x80, 0x80, 0x00],
      position = 0\<rparr> =
     (Inr 0, \<lparr>buffer = [0x80, 0x80, 0x80, 0x80, 0x80, 0x80, 0x80, 0x80, 0x80, 0x80, 0x00],
              position = 11\<rparr>) \<and>
   Decoder_readVarUint32 \<lparr>buffer = [0x80, 0x80, 0x80, 0x80, 0x80, 0x00], position = 0\<rparr> =
     (Inl (DecoderError
        ''At byte 0x0005 (5): Invalid LEB128 unsigned encoding (too many bytes)''),
      \<lparr>buffer = [0x80, 0x80, 0x80, 0x80, 0x80, 0x00], position = 5\<rparr>) \<and>
   Decoder_readVarInt32 \<lparr>buffer = [0x7F], position = 0\<rparr> =
     (Inr (- 1), \<lparr>buffer = [0x7F], position = 1\<rparr>)"
  by (simp add: Decoder_readVarInt32_def Decoder_readVarInt32_loop.simps
                Decoder_readVarInt64_def Decoder_readVarInt64_loop.simps
                Decoder_readVarUint32_def Decoder_readVarUint32_loop.simps
                Decoder_readByte_def ensureBytes_def formatError_def digits.simps
                numeral_3_eq_3)

section \<open>Module (module.h, module.cpp)\<close>

record FuncType =
  params :: "ValueType list"
  results :: "ValueType list"

record Function =
  type_index :: "32 word"
  function_locals :: "ValueType list"
  body :: "8 word list"

record Global =
  global_type :: ValueType
  is_mutable :: bool
  init_expr :: "8 word list"

record Table =
  element_type :: ValueType
  table_limits :: Limits

text \<open>\<open>enum class ExternalKind : uint8_t\<close>, cast from a byte by the decoder.\<close>

type_synonym ExternalKind = "8 word"

definition FUNCTION :: ExternalKind where "FUNCTION = 0x00"
definition TABLE :: ExternalKind where "TABLE = 0x01"
definition MEMORY :: ExternalKind where "MEMORY = 0x02"
definition GLOBAL :: ExternalKind where "GLOBAL = 0x03"

record Export =
  export_name :: string
  export_kind :: ExternalKind
  export_index :: "32 word"

text \<open>
  Of an \<open>Import\<close> the interpreter reads the two names and the kind; the kind-specific
  descriptors are kept as the decoder fills them.
\<close>

record Import =
  import_module_name :: string
  import_field_name :: string
  import_kind :: ExternalKind
  import_type_index :: "32 word"
  import_memory :: Limits
  import_table :: Table
  import_global :: Global

record DataSegment =
  memory_index :: "32 word"
  data_offset_expr :: "8 word list"
  segment_data :: "8 word list"

record ElementSegment =
  table_index :: "32 word"
  offset_expr :: "8 word list"
  func_indices :: "32 word list"

record Module =
  types :: "FuncType list"
  module_functions :: "Function list"
  function_types :: "32 word list"
  memories :: "Limits list"
  module_globals :: "Global list"
  tables :: "Table list"
  module_exports :: "Export list"
  module_imports :: "Import list"
  data_segments :: "DataSegment list"
  element_segments :: "ElementSegment list"
  start_function_index :: "32 word"
  has_start_function :: bool

text \<open>\<open>Module::getImportedFunctionCount\<close>: a \<open>uint32_t\<close> counter over the imports.\<close>

fun count_function_imports :: "Import list \<Rightarrow> 32 word \<Rightarrow> 32 word" where
  "count_function_imports [] count = count"
| "count_function_imports (import # rest) count =
     count_function_imports rest (if import_kind import = FUNCTION then count + 1 else count)"

definition getImportedFunctionCount :: "Module \<Rightarrow> 32 word" where
  "getImportedFunctionCount m = count_function_imports (module_imports m) 0"

text \<open>\<open>Module::getFunctionType\<close>: \<open>nullptr\<close> is \<open>None\<close>.\<close>

definition getFunctionType :: "Module \<Rightarrow> 32 word \<Rightarrow> FuncType option" where
  "getFunctionType m func_index =
     (let import_count = getImportedFunctionCount m in
      if func_index < import_count then None
      else
        let local_index = func_index - import_count in
        if unat local_index \<ge> length (function_types m) then None
        else
          let type_index = function_types m ! unat local_index in
          if unat type_index \<ge> length (types m) then None
          else Some (types m ! unat type_index))"

definition getTotalFunctionCount :: "Module \<Rightarrow> 32 word" where
  "getTotalFunctionCount m =
     getImportedFunctionCount m + word_of_nat (length (module_functions m))"

section \<open>Call stack (stack.h, stack.cpp)\<close>

record CallFrame =
  function_index :: "32 word"
  return_pc :: nat
  locals_base :: nat
  stack_base :: nat

definition MAX_DEPTH :: nat where "MAX_DEPTH = 1024"

definition checkDepthLimit :: "CallFrame list \<Rightarrow> error + unit" where
  "checkDepthLimit frames =
     (if length frames \<ge> MAX_DEPTH
      then Inl (StackError ''Call stack overflow: maximum depth exceeded'')
      else Inr ())"

definition CallStack_push :: "CallFrame \<Rightarrow> CallFrame list \<Rightarrow> (error + unit) \<times> CallFrame list" where
  "CallStack_push frame frames =
     (case checkDepthLimit frames of
        Inl e \<Rightarrow> (Inl e, frames)
      | Inr _ \<Rightarrow> (Inr (), frames @ [frame]))"

section \<open>Interpreter state (interpreter.h)\<close>

record Label =
  target_pc :: nat
  stack_height :: nat
  is_loop :: bool
  arity :: nat

text \<open>
  The members of \<open>class Interpreter\<close>. \<open>code_\<close> points at the bytes of a function body
  (or of an init expression) owned by the module, \<open>code_size_\<close> is its length. The module
  is the one moved in by \<open>instantiate\<close>; \<open>memory_\<close> is \<open>None\<close> when the module declares no
  memory.
\<close>

record Interp =
  module :: Module
  stack :: Stack
  call_stack :: "CallFrame list"
  memory :: "Memory option"
  globals :: "TypedValue list"
  locals :: "TypedValue list"
  code :: "8 word list"
  code_size :: nat
  pc :: nat
  labels :: "Label list"

text \<open>
  The outcome of a member function: it returns a value, or throws, in both cases with
  the interpreter state it leaves behind. \<open>OutOfFuel\<close> stands for a run that the given
  fuel does not see the end of, and \<open>Unmodelled\<close> for an instruction outside the embedded
  fragment (floating-point arithmetic and host output); nothing is stated about either.
\<close>

datatype 'a outcome =
    is_Normal: Normal 'a Interp
  | is_Raised: Raised error Interp
  | OutOfFuel
  | Unmodelled

definition bind :: "'a outcome \<Rightarrow> ('a \<Rightarrow> Interp \<Rightarrow> 'b outcome) \<Rightarrow> 'b outcome" where
  "bind m f =
     (case m of
        Normal a s \<Rightarrow> f a s
      | Raised e s \<Rightarrow> Raised e s
      | OutOfFuel \<Rightarrow> OutOfFuel
      | Unmodelled \<Rightarrow> Unmodelled)"

lemma bind_simps [simp]:
  "bind (Normal a s) f = f a s"
  "bind (Raised e s) f = Raised e s"
  "bind OutOfFuel f = OutOfFuel"
  "bind Unmodelled f = Unmodelled"
  by (simp_all add: bind_def)

text \<open>An operation of \<open>stack_\<close>, run on the interpreter's operand stack.\<close>

definition on_stack :: "(Stack \<Rightarrow> (error + 'a) \<times> Stack) \<Rightarrow> Interp \<Rightarrow> 'a outcome" where
  "on_stack f s =
     (case f (stack s) of
        (Inl e, st) \<Rightarrow> Raised e (s\<lparr>stack := st\<rparr>)
      | (Inr a, st) \<Rightarrow> Normal a (s\<lparr>stack := st\<rparr>))"

definition stack_push :: "TypedValue \<Rightarrow> Interp \<Rightarrow> unit outcome" where
  "stack_push v s = Normal () (s\<lparr>stack := push v (stack s)\<rparr>)"

section \<open>Opcodes\<close>

text \<open>
  Modelled from the spec: \<open>instructions.h\<close> (the enumeration \<open>Opcode\<close> and \<open>MemArg\<close>) is
  not among the sources. The spec names the instructions of the WebAssembly MVP binary
  format; an opcode is the byte that format assigns to it, and \<open>interpreter.cpp\<close> uses
  the same bytes as literals in \<open>findMatchingEnd\<close> and \<open>skipInstructionOperands\<close>.
\<close>

type_synonym Opcode = "8 word"

definition UNREACHABLE :: Opcode where "UNREACHABLE = 0x00"
definition NOP :: Opcode where "NOP = 0x01"
definition BLOCK :: Opcode where "BLOCK = 0x02"
definition LOOP :: Opcode where "LOOP = 0x03"
definition IF :: Opcode where "IF = 0x04"
definition ELSE :: Opcode where "ELSE = 0x05"
definition END :: Opcode where "END = 0x0B"
definition BR :: Opcode where "BR = 0x0C"
definition BR_IF :: Opcode where "BR_IF = 0x0D"
definition BR_TABLE :: Opcode where "BR_TABLE = 0x0E"
definition RETURN :: Opcode where "RETURN = 0x0F"
definition CALL :: Opcode where "CALL = 0x10"
definition CALL_INDIRECT :: Opcode where "CALL_INDIRECT = 0x11"
definition DROP :: Opcode where "DROP = 0x1A"
definition SELECT :: Opcode where "SELECT = 0x1B"
definition LOCAL_GET :: Opcode where "LOCAL_GET = 0x20"
definition LOCAL_SET :: Opcode where "LOCAL_SET = 0x21"
definition LOCAL_TEE :: Opcode where "LOCAL_TEE = 0x22"
definition GLOBAL_GET :: Opcode where "GLOBAL_GET = 0x23"
definition GLOBAL_SET :: Opcode where "GLOBAL_SET = 0x24"
definition I32_LOAD :: Opcode where "I32_LOAD = 0x28"
definition I32_STORE :: Opcode where "I32_STORE = 0x36"
definition I64_STORE32 :: Opcode where "I64_STORE32 = 0x3E"
definition MEMORY_SIZE :: Opcode where "MEMORY_SIZE = 0x3F"
definition MEMORY_GROW :: Opcode where "MEMORY_GROW = 0x40"
definition I32_CONST :: Opcode where "I32_CONST = 0x41"
definition I64_CONST :: Opcode where "I64_CONST = 0x42"
definition F32_CONST :: Opcode where "F32_CONST = 0x43"
definition F64_CONST :: Opcode where "F64_CONST = 0x44"
definition I32_EQZ :: Opcode where "I32_EQZ = 0x45"
definition I32_EQ :: Opcode where "I32_EQ = 0x46"
definition I32_NE :: Opcode where "I32_NE = 0x47"
definition I32_LT_S :: Opcode where "I32_LT_S = 0x48"
definition I32_LT_U :: Opcode where "I32_LT_U = 0x49"
definition I32_GT_S :: Opcode where "I32_GT_S = 0x4A"
definition I32_GT_U :: Opcode where "I32_GT_U = 0x4B"
definition I32_LE_S :: Opcode where "I32_LE_S = 0x4C"
definition I32_LE_U :: Opcode where "I32_LE_U = 0x4D"
definition I32_GE_S :: Opcode where "I32_GE_S = 0x4E"
definition I32_GE_U :: Opcode where "I32_GE_U = 0x4F"
definition I32_ADD :: Opcode where "I32_ADD = 0x6A"
definition I32_SUB :: Opcode where "I32_SUB = 0x6B"
definition I32_MUL :: Opcode where "I32_MUL = 0x6C"
definition I32_DIV_S :: Opcode where "I32_DIV_S = 0x6D"
definition I32_DIV_U :: Opcode where "I32_DIV_U = 0x6E"
definition I32_REM_S :: Opcode where "I32_REM_S = 0x6F"
definition I32_REM_U :: Opcode where "I32_REM_U = 0x70"
definition I32_AND :: Opcode where "I32_AND = 0x71"
definition I32_OR :: Opcode where "I32_OR = 0x72"
definition I32_XOR :: Opcode where "I32_XOR = 0x73"
definition I32_WRAP_I64 :: Opcode where "I32_WRAP_I64 = 0xA7"
definition I32_TRUNC_F32_S :: Opcode where "I32_TRUNC_F32_S = 0xA8"
definition I32_TRUNC_F32_U :: Opcode where "I32_TRUNC_F32_U = 0xA9"
definition I32_TRUNC_F64_S :: Opcode where "I32_TRUNC_F64_S = 0xAA"
definition I32_TRUNC_F64_U :: Opcode where "I32_TRUNC_F64_U = 0xAB"
definition I64_EXTEND_I32_S :: Opcode where "I64_EXTEND_I32_S = 0xAC"
definition I64_EXTEND_I32_U :: Opcode where "I64_EXTEND_I32_U = 0xAD"
definition I64_TRUNC_F32_S :: Opcode where "I64_TRUNC_F32_S = 0xAE"
definition I64_TRUNC_F32_U :: Opcode where "I64_TRUNC_F32_U = 0xAF"
definition I64_TRUNC_F64_S :: Opcode where "I64_TRUNC_F64_S = 0xB0"
definition I64_TRUNC_F64_U :: Opcode where "I64_TRUNC_F64_U = 0xB1"
definition I32_REINTERPRET_F32 :: Opcode where "I32_REINTERPRET_F32 = 0xBC"
definition I64_REINTERPRET_F64 :: Opcode where "I64_REINTERPRET_F64 = 0xBD"
definition F32_REINTERPRET_I32 :: Opcode where "F32_REINTERPRET_I32 = 0xBE"
definition F64_REINTERPRET_I64 :: Opcode where "F64_REINTERPRET_I64 = 0xBF"

lemmas Opcode_defs =
  UNREACHABLE_def NOP_def BLOCK_def LOOP_def IF_def ELSE_def END_def BR_def BR_IF_def
  BR_TABLE_def RETURN_def CALL_def CALL_INDIRECT_def DROP_def SELECT_def LOCAL_GET_def
  LOCAL_SET_def LOCAL_TEE_def GLOBAL_GET_def GLOBAL_SET_def I32_LOAD_def I32_STORE_def
  I64_STORE32_def MEMORY_SIZE_def MEMORY_GROW_def I32_CONST_def I64_CONST_def F32_CONST_def
  F64_CONST_def I32_EQZ_def I32_EQ_def I32_NE_def I32_LT_S_def I32_LT_U_def I32_GT_S_def
  I32_GT_U_def I32_LE_S_def I32_LE_U_def I32_GE_S_def I32_GE_U_def I32_ADD_def I32_SUB_def
  I32_MUL_def I32_DIV_S_def I32_DIV_U_def I32_REM_S_def I32_REM_U_def I32_AND_def I32_OR_def
  I32_XOR_def I32_WRAP_I64_def I32_TRUNC_F32_S_def I32_TRUNC_F32_U_def I32_TRUNC_F64_S_def
  I32_TRUNC_F64_U_def I64_EXTEND_I32_S_def I64_EXTEND_I32_U_def I64_TRUNC_F32_S_def
  I64_TRUNC_F32_U_def I64_TRUNC_F64_S_def I64_TRUNC_F64_U_def I32_REINTERPRET_F32_def
  I64_REINTERPRET_F64_def F32_REINTERPRET_I32_def F64_REINTERPRET_I64_def

section \<open>Reading immediates from bytecode (interpreter.cpp)\<close>

definition Interpreter_readByte :: "Interp \<Rightarrow> 8 word outcome" where
  "Interpreter_readByte s =
     (if pc s \<ge> code_size s then Raised (InterpreterError ''Unexpected end of bytecode'') s
      else Normal (code s ! pc s) (s\<lparr>pc := pc s + 1\<rparr>))"

lemma Interpreter_readByte_Normal:
  "Interpreter_readByte s = Normal b s' \<Longrightarrow>
   pc s < code_size s \<and> s' = s\<lparr>pc := pc s + 1\<rparr> \<and> b = code s ! pc s"
  by (auto simp: Interpreter_readByte_def split: if_splits)

text \<open>
  \<open>Interpreter::readVarUint32\<close>: the loop of the decoder's reader without the test on
  \<open>shift\<close>. As there, bits shifted beyond the 32-bit result are dropped.
\<close>

function Interpreter_readVarUint32_loop :: "32 word \<Rightarrow> nat \<Rightarrow> Interp \<Rightarrow> 32 word outcome" where
  "Interpreter_readVarUint32_loop result shift s =
     (case Interpreter_readByte s of
        Normal byte s' \<Rightarrow>
          (let result' = result OR push_bit shift (ucast (byte AND 0x7F)) in
           if byte AND 0x80 = 0 then Normal result' s'
           else Interpreter_readVarUint32_loop result' (shift + 7) s')
      | Raised e s' \<Rightarrow> Raised e s'
      | OutOfFuel \<Rightarrow> OutOfFuel
      | Unmodelled \<Rightarrow> Unmodelled)"
  by pat_completeness auto
termination
  by (relation "measure (\<lambda>(result, shift, s). code_size s - pc s)")
     (auto dest!: Interpreter_readByte_Normal)

declare Interpreter_readVarUint32_loop.simps [simp del]

definition Interpreter_readVarUint32 :: "Interp \<Rightarrow> 32 word outcome" where
  "Interpreter_readVarUint32 s = Interpreter_readVarUint32_loop 0 0 s"

function Interpreter_readVarInt32_loop ::
  "32 word \<Rightarrow> nat \<Rightarrow> Interp \<Rightarrow> (32 word \<times> nat \<times> 8 word) outcome" where
  "Interpreter_readVarInt32_loop result shift s =
     (case Interpreter_readByte s of
        Normal byte s' \<Rightarrow>
          (let result' = result OR push_bit shift (ucast (byte AND 0x7F));
               shift' = shift + 7
           in if byte AND 0x80 \<noteq> 0 then Interpreter_readVarInt32_loop result' shift' s'
              else Normal (result', shift', byte) s')
      | Raised e s' \<Rightarrow> Raised e s'
      | OutOfFuel \<Rightarrow> OutOfFuel
      | Unmodelled \<Rightarrow> Unmodelled)"
  by pat_completeness auto
termination
  by (relation "measure (\<lambda>(result, shift, s). code_size s - pc s)")
     (auto dest!: Interpreter_readByte_Normal)

declare Interpreter_readVarInt32_loop.simps [simp del]

definition Interpreter_readVarInt32 :: "Interp \<Rightarrow> 32 word outcome" where
  "Interpreter_readVarInt32 s =
     bind (Interpreter_readVarInt32_loop 0 0 s)
       (\<lambda>(result, shift, byte) s'.
          Normal (if shift < 32 \<and> byte AND 0x40 \<noteq> 0 then result OR - (push_bit shift 1)
                  else result) s')"

function Interpreter_readVarInt64_loop ::
  "64 word \<Rightarrow> nat \<Rightarrow> Interp \<Rightarrow> (64 word \<times> nat \<times> 8 word) outcome" where
  "Interpreter_readVarInt64_loop result shift s =
     (case Interpreter_readByte s of
        Normal byte s' \<Rightarrow>
          (let result' = result OR push_bit shift (ucast (byte AND 0x7F));
               shift' = shift + 7
           in if byte AND 0x80 \<noteq> 0 then Interpreter_readVarInt64_loop result' shift' s'
              else Normal (result', shift', byte) s')
      | Raised e s' \<Rightarrow> Raised e s'
      | OutOfFuel \<Rightarrow> OutOfFuel
      | Unmodelled \<Rightarrow> Unmodelled)"
  by pat_completeness auto
termination
  by (relation "measure (\<lambda>(result, shift, s). code_size s - pc s)")
     (auto dest!: Interpreter_readByte_Normal)

declare Interpreter_readVarInt64_loop.simps [simp del]

definition Interpreter_readVarInt64 :: "Interp \<Rightarrow> 64 word outcome" where
  "Interpreter_readVarInt64 s =
     bind (Interpreter_readVarInt64_loop 0 0 s)
       (\<lambda>(result, shift, byte) s'.
          Normal (if shift < 64 \<and> byte AND 0x40 \<noteq> 0 then result OR - (push_bit shift 1)
                  else result) s')"

text \<open>\<open>readF32\<close>, \<open>readF64\<close>: four (eight) bytes copied into the value, little-endian.\<close>

definition Interpreter_readF32 :: "Interp \<Rightarrow> f32 outcome" where
  "Interpreter_readF32 s =
     (if pc s + 4 > code_size s then Raised (InterpreterError ''Unexpected end of bytecode'') s
      else Normal (from_le_bytes (take 4 (drop (pc s) (code s)))) (s\<lparr>pc := pc s + 4\<rparr>))"

definition Interpreter_readF64 :: "Interp \<Rightarrow> f64 outcome" where
  "Interpreter_readF64 s =
     (if pc s + 8 > code_size s then Raised (InterpreterError ''Unexpected end of bytecode'') s
      else Normal (from_le_bytes (take 8 (drop (pc s) (code s)))) (s\<lparr>pc := pc s + 8\<rparr>))"

section \<open>Variable access (interpreter.cpp)\<close>

definition setLocal :: "32 word \<Rightarrow> TypedValue \<Rightarrow> Interp \<Rightarrow> unit outcome" where
  "setLocal index v s =
     (if unat index \<ge> length (locals s)
      then Raised (InterpreterError ''Local index out of bounds'') s
      else Normal () (s\<lparr>locals := (locals s)[unat index := v]\<rparr>))"

definition getLocal :: "32 word \<Rightarrow> Interp \<Rightarrow> TypedValue outcome" where
  "getLocal index s =
     (if unat index \<ge> length (locals s)
      then Raised (InterpreterError ''Local index out of bounds'') s
      else Normal (locals s ! unat index) s)"

text \<open>
  \<open>Interpreter::setGlobal\<close>. \<open>module_->globals[index]\<close> is read without a test of its own:
  \<open>initializeGlobals\<close> gives \<open>globals_\<close> one entry per global of the module, so the index is
  in range of both vectors.
\<close>

definition setGlobal :: "32 word \<Rightarrow> TypedValue \<Rightarrow> Interp \<Rightarrow> unit outcome" where
  "setGlobal index v s =
     (if unat index \<ge> length (globals s)
      then Raised (InterpreterError ''Global index out of bounds'') s
      else if \<not> is_mutable (module_globals (module s) ! unat index)
      then Raised (InterpreterError ''Attempting to modify immutable global'') s
      else Normal () (s\<lparr>globals := (globals s)[unat index := v]\<rparr>))"

definition getGlobal :: "32 word \<Rightarrow> Interp \<Rightarrow> TypedValue outcome" where
  "getGlobal index s =
     (if unat index \<ge> length (globals s)
      then Raised (InterpreterError ''Global index out of bounds'') s
      else Normal (globals s ! unat index) s)"

text \<open>
  \<open>Interpreter::executeVariable\<close>. In \<open>setLocal(index, stack_.pop())\<close> the pop is evaluated
  first, as the argument of the call.
\<close>

definition executeVariable :: "Opcode \<Rightarrow> Interp \<Rightarrow> unit outcome" where
  "executeVariable opcode s =
     bind (Interpreter_readVarUint32 s) (\<lambda>index s.
       if opcode = LOCAL_GET then bind (getLocal index s) stack_push
       else if opcode = LOCAL_SET then bind (on_stack pop s) (setLocal index)
       else if opcode = LOCAL_TEE then
         (case peek (stack s) of
            Inl e \<Rightarrow> Raised e s
          | Inr val \<Rightarrow> setLocal index val s)
       else if opcode = GLOBAL_GET then bind (getGlobal index s) stack_push
       else if opcode = GLOBAL_SET then bind (on_stack pop s) (setGlobal index)
       else Raised (InterpreterError ''Variable instruction not implemented'') s)"

definition executeParametric :: "Opcode \<Rightarrow> Interp \<Rightarrow> unit outcome" where
  "executeParametric opcode s =
     (if opcode = DROP then bind (on_stack pop s) (\<lambda>_ s. Normal () s)
      else if opcode = SELECT then
        bind (on_stack popI32 s) (\<lambda>c s.
        bind (on_stack pop s) (\<lambda>val2 s.
        bind (on_stack pop s) (\<lambda>val1 s.
          stack_push (if c \<noteq> 0 then val1 else val2) s)))
      else Raised (InterpreterError ''Parametric instruction not implemented'') s)"

section \<open>Labels and branches (interpreter.cpp)\<close>

definition pushLabel :: "nat \<Rightarrow> nat \<Rightarrow> bool \<Rightarrow> nat \<Rightarrow> Interp \<Rightarrow> Interp" where
  "pushLabel tpc height loop ar s =
     s\<lparr>labels := labels s @
          [\<lparr>target_pc = tpc, stack_height = height, is_loop = loop, arity = ar\<rparr>]\<rparr>"

definition popLabel :: "Interp \<Rightarrow> Interp" where
  "popLabel s = (if labels s \<noteq> [] then s\<lparr>labels := butlast (labels s)\<rparr> else s)"

text \<open>
  The loop \<open>while (stack_.size() > target_height) stack_.pop();\<close> of \<open>branch\<close>. The pop
  cannot throw: the stack is not empty when it is reached.
\<close>

function unwind_stack :: "Stack \<Rightarrow> nat \<Rightarrow> Stack" where
  "unwind_stack st target_height =
     (if length st > target_height then unwind_stack (butlast st) target_height else st)"
  by pat_completeness auto
termination
  by (relation "measure (\<lambda>(st, target_height). length st)") auto

declare unwind_stack.simps [simp del]

text \<open>
  \<open>Interpreter::branch\<close>. \<open>labels_.erase(labels_.begin() + i, labels_.end())\<close> keeps the
  first \<open>i\<close> labels.
\<close>

definition branch :: "32 word \<Rightarrow> Interp \<Rightarrow> unit outcome" where
  "branch depth s =
     (if unat depth \<ge> length (labels s)
      then Raised (InterpreterError ''Branch depth out of range'') s
      else
        let label_index = length (labels s) - 1 - unat depth;
            target_label = labels s ! label_index;
            s1 = s\<lparr>pc := target_pc target_label\<rparr>;
            target_height = stack_height target_label + arity target_label;
            s2 = s1\<lparr>stack := unwind_stack (stack s1) target_height\<rparr>
        in if \<not> is_loop target_label
           then Normal () (s2\<lparr>labels := take label_index (labels s2)\<rparr>)
           else Normal () (s2\<lparr>labels := take (label_index + 1) (labels s2)\<rparr>))"

lemma unwind_stack_take: "unwind_stack st h = take h st"
proof (induction st h rule: unwind_stack.induct)
  case (1 st h)
  show ?case
  proof (cases "length st > h")
    case True
    then have "take h (butlast st) = take h st"
      by (simp add: take_butlast)
    with True "1.IH" show ?thesis
      by (simp add: unwind_stack.simps [of st h])
  next
    case False
    then show ?thesis
      by (simp add: unwind_stack.simps [of st h])
  qed
qed

text \<open>
  What a taken branch does: the program counter is the label's target, the labels are cut
  as described, and the operand stack keeps its \<^emph>\<open>lowest\<close> \<open>stack_height + arity\<close> entries
  (it is left alone when it is shorter than that).
\<close>

lemma branch_effect:
  assumes "unat depth < length (labels s)"
  shows "branch depth s =
    (let l = labels s ! (length (labels s) - 1 - unat depth) in
     Normal ()
       (s\<lparr>pc := target_pc l,
          stack := take (stack_height l + arity l) (stack s),
          labels := take (length (labels s) - 1 - unat depth + (if is_loop l then 1 else 0))
                      (labels s)\<rparr>))"
proof -
  have "Suc (length (labels s) - Suc (unat depth)) = length (labels s) - unat depth"
    using assms by simp
  with assms show ?thesis
    by (simp add: branch_def Let_def unwind_stack_take)
qed

text \<open>A state to run single operations on: no module contents, no memory.\<close>

definition empty_Module :: Module where
  "empty_Module =
     \<lparr>types = [], module_functions = [], function_types = [], memories = [],
      module_globals = [], tables = [], module_exports = [], module_imports = [],
      data_segments = [], element_segments = [], start_function_index = 0,
      has_start_function = False\<rparr>"

definition init_Interp :: "Module \<Rightarrow> Interp" where
  "init_Interp m =
     \<lparr>module = m, stack = [], call_stack = [], memory = None, globals = [], locals = [],
      code = [], code_size = 0, pc = 0, labels = []\<rparr>"

text \<open>
  C1. A taken branch should keep the top \<open>arity\<close> operand-stack values and cut the stack
  to \<open>stack_height + arity\<close>. In \<open>block (result i32) i32.const 1 i32.const 2 br 0 end\<close>
  the branch is reached with the label \<open>{target_pc = 9, stack_height = 0, arity = 1}\<close> and
  the stack \<open>[1, 2]\<close> (2 on top). \<open>branch\<close> pops from the top until one value is left: the
  stack becomes \<open>[1]\<close>, the top value 2 is lost. Program counter and labels are as claimed.
\<close>

theorem branch_keeps_bottom_values:
  "branch 0
     ((init_Interp empty_Module)
        \<lparr>stack := [makeI32 1, makeI32 2], pc := 8,
         labels := [\<lparr>target_pc = 9, stack_height = 0, is_loop = False, arity = 1\<rparr>]\<rparr>) =
   Normal ()
     ((init_Interp empty_Module)
        \<lparr>stack := [makeI32 1], pc := 9, labels := []\<rparr>)"
  by (simp add: branch_def Let_def unwind_stack_take init_Interp_def)

section \<open>Writing an immutable global\<close>

lemma Interpreter_readVarUint32_loop_state:
  "Interpreter_readVarUint32_loop r sh s = Normal v s' \<Longrightarrow> \<exists>p. s' = s\<lparr>pc := p\<rparr>"
proof (induction r sh s rule: Interpreter_readVarUint32_loop.induct)
  case (1 result shift s)
  show ?case
  proof (cases "Interpreter_readByte s")
    case (Normal byte s1)
    note rb = Interpreter_readByte_Normal [OF Normal]
    show ?thesis
    proof (cases "byte AND 0x80 = 0")
      case True
      with Normal "1.prems" rb show ?thesis
        by (auto simp: Interpreter_readVarUint32_loop.simps [of result shift s] Let_def)
    next
      case False
      let ?r = "result OR push_bit shift (ucast (byte AND 0x7F))"
      have "Interpreter_readVarUint32_loop ?r (shift + 7) s1 = Normal v s'"
        using False Normal "1.prems"
        by (simp add: Interpreter_readVarUint32_loop.simps [of result shift s] Let_def)
      from "1.IH" [OF Normal refl False this] obtain p where "s' = s1\<lparr>pc := p\<rparr>" ..
      with rb show ?thesis by auto
    qed
  qed (use "1.prems" in \<open>simp_all add: Interpreter_readVarUint32_loop.simps [of result shift s]\<close>)
qed

lemma Interpreter_readVarUint32_state:
  "Interpreter_readVarUint32 s = Normal v s' \<Longrightarrow> \<exists>p. s' = s\<lparr>pc := p\<rparr>"
  unfolding Interpreter_readVarUint32_def by (rule Interpreter_readVarUint32_loop_state)

lemma setGlobal_immutable:
  "unat index < length (globals s) \<Longrightarrow>
   \<not> is_mutable (module_globals (module s) ! unat index) \<Longrightarrow>
   setGlobal index v s = Raised (InterpreterError ''Attempting to modify immutable global'') s"
  by (simp add: setGlobal_def)

text \<open>
  C6, as the code has it. \<open>global.set i\<close> on a global declared non-mutable (\<open>i\<close> in range, an
  operand on the stack) raises an \<open>InterpreterError\<close>, which is not a \<open>Trap\<close>; the operand
  has been popped and the vector of global values is unchanged.
\<close>

theorem global_set_immutable_raises_InterpreterError:
  assumes rd: "Interpreter_readVarUint32 s = Normal index s1"
    and rng: "unat index < length (globals s)"
    and imm: "\<not> is_mutable (module_globals (module s) ! unat index)"
    and opd: "stack s \<noteq> []"
  shows "executeVariable GLOBAL_SET s =
           Raised (InterpreterError ''Attempting to modify immutable global'')
             (s1\<lparr>stack := butlast (stack s)\<rparr>) \<and>
         globals (s1\<lparr>stack := butlast (stack s)\<rparr>) = globals s \<and>
         \<not> is_Trap (InterpreterError ''Attempting to modify immutable global'')"
proof -
  from Interpreter_readVarUint32_state [OF rd] obtain p where s1: "s1 = s\<lparr>pc := p\<rparr>" ..
  have popped: "on_stack pop s1 = Normal (last (stack s)) (s1\<lparr>stack := butlast (stack s)\<rparr>)"
    using opd by (simp add: on_stack_def pop_def checkNotEmpty_def s1)
  have "setGlobal index (last (stack s)) (s1\<lparr>stack := butlast (stack s)\<rparr>) =
          Raised (InterpreterError ''Attempting to modify immutable global'')
            (s1\<lparr>stack := butlast (stack s)\<rparr>)"
    using rng imm by (simp add: setGlobal_def s1)
  with rd popped show ?thesis
    by (simp add: executeVariable_def Opcode_defs s1)
qed

definition immutable_global_example :: Interp where
  "immutable_global_example =
     (init_Interp
        (empty_Module\<lparr>module_globals :=
           [\<lparr>global_type = I32, is_mutable = False, init_expr = [0x41, 0x07, 0x0B]\<rparr>]\<rparr>))
       \<lparr>stack := [makeI32 9], globals := [makeI32 7], code := [0x24, 0x00, 0x0B],
        code_size := 3, pc := 1\<rparr>"

lemma immutable_global_example_read:
  "Interpreter_readVarUint32 immutable_global_example =
     Normal 0 (immutable_global_example\<lparr>pc := 2\<rparr>)"
  by (simp add: Interpreter_readVarUint32_def Interpreter_readVarUint32_loop.simps
                Interpreter_readByte_def immutable_global_example_def init_Interp_def)

theorem global_set_immutable_raises_InterpreterError_witness:
  "executeVariable GLOBAL_SET immutable_global_example =
     Raised (InterpreterError ''Attempting to modify immutable global'')
       (immutable_global_example\<lparr>pc := 2, stack := []\<rparr>) \<and>
   globals (immutable_global_example\<lparr>pc := 2, stack := []\<rparr>) = [makeI32 7]"
  using global_set_immutable_raises_InterpreterError
          [OF immutable_global_example_read, simplified]
  by (simp add: immutable_global_example_def init_Interp_def empty_Module_def)

lemma immutable_global_example_run:
  "executeVariable GLOBAL_SET immutable_global_example =
     Raised (InterpreterError ''Attempting to modify immutable global'')
       (immutable_global_example\<lparr>pc := 2, stack := []\<rparr>)"
proof -
  have popped:
    "on_stack pop (immutable_global_example\<lparr>pc := 2\<rparr>) =
       Normal (makeI32 9) (immutable_global_example\<lparr>pc := 2, stack := []\<rparr>)"
    by (simp add: on_stack_def pop_def checkNotEmpty_def immutable_global_example_def
                  init_Interp_def)
  have refused:
    "setGlobal 0 (makeI32 9) (immutable_global_example\<lparr>pc := 2, stack := []\<rparr>) =
       Raised (InterpreterError ''Attempting to modify immutable global'')
         (immutable_global_example\<lparr>pc := 2, stack := []\<rparr>)"
    by (simp add: setGlobal_def immutable_global_example_def init_Interp_def empty_Module_def)
  show ?thesis
    by (simp add: executeVariable_def Opcode_defs immutable_global_example_read popped refused)
qed

text \<open>
  The claim as stated, that the error is a \<open>Trap\<close>, fails on this state: the outcome is an
  \<open>InterpreterError\<close>.
\<close>

theorem global_set_immutable_not_Trap:
  "executeVariable GLOBAL_SET immutable_global_example =
     Raised (InterpreterError ''Attempting to modify immutable global'')
       (immutable_global_example\<lparr>pc := 2, stack := []\<rparr>) \<and>
   \<not> is_Trap (InterpreterError ''Attempting to modify immutable global'')"
  by (simp add: immutable_global_example_run)

section \<open>Floating-point values and their conversion to integers\<close>

text \<open>
  A \<open>float\<close> or \<open>double\<close> is held as its bit pattern. What the conversions need of it is
  its IEEE-754 class and, when it is finite, the rational number it denotes: comparisons
  with a constant, \<open>std::trunc\<close> and the conversion of an integral value in range are exact
  operations. Both zeros denote the number 0.
\<close>

datatype fval = NaN | Inf bool | Fin rat

text \<open>The scale \<open>x \<times> 2\<^sup>e\<close> for an integer exponent.\<close>

definition scale2 :: "rat \<Rightarrow> int \<Rightarrow> rat" where
  "scale2 x e = (if e \<ge> 0 then x * 2 ^ nat e else x / 2 ^ nat (- e))"

text \<open>
  binary32: sign bit 31, exponent bits 30..23 (bias 127), fraction bits 22..0.
  \<open>Inf True\<close> is minus infinity.
\<close>

definition fval_of_f32 :: "f32 \<Rightarrow> fval" where
  "fval_of_f32 w =
     (let sign = bit w 31;
          e = unat (drop_bit 23 w AND 0xFF);
          m = unat (w AND 0x7FFFFF)
      in if e = 255 then (if m = 0 then Inf sign else NaN)
         else
           let mag = (if e = 0 then scale2 (of_nat m) (- 149)
                      else scale2 (of_nat (2 ^ 23 + m)) (int e - 150))
           in Fin (if sign then - mag else mag))"

text \<open>binary64: sign bit 63, exponent bits 62..52 (bias 1023), fraction bits 51..0.\<close>

definition fval_of_f64 :: "f64 \<Rightarrow> fval" where
  "fval_of_f64 w =
     (let sign = bit w 63;
          e = unat (drop_bit 52 w AND 0x7FF);
          m = unat (w AND 0xFFFFFFFFFFFFF)
      in if e = 2047 then (if m = 0 then Inf sign else NaN)
         else
           let mag = (if e = 0 then scale2 (of_nat m) (- 1074)
                      else scale2 (of_nat (2 ^ 52 + m)) (int e - 1075))
           in Fin (if sign then - mag else mag))"

text \<open>\<open>std::isnan\<close>, \<open>std::isinf\<close>, and the comparisons \<open>a < c\<close>, \<open>a >= c\<close>, \<open>a <= c\<close> with a
  finite constant \<open>c\<close>; a comparison with a NaN is false.\<close>

fun isnan :: "fval \<Rightarrow> bool" where
  "isnan NaN = True"
| "isnan _ = False"

fun isinf :: "fval \<Rightarrow> bool" where
  "isinf (Inf _) = True"
| "isinf _ = False"

fun f_lt :: "fval \<Rightarrow> rat \<Rightarrow> bool" where
  "f_lt NaN c = False"
| "f_lt (Inf neg) c = neg"
| "f_lt (Fin q) c = (q < c)"

fun f_ge :: "fval \<Rightarrow> rat \<Rightarrow> bool" where
  "f_ge NaN c = False"
| "f_ge (Inf neg) c = (\<not> neg)"
| "f_ge (Fin q) c = (q \<ge> c)"

fun f_le :: "fval \<Rightarrow> rat \<Rightarrow> bool" where
  "f_le NaN c = False"
| "f_le (Inf neg) c = neg"
| "f_le (Fin q) c = (q \<le> c)"

text \<open>Rounding a rational towards zero.\<close>

definition trunc_rat :: "rat \<Rightarrow> int" where
  "trunc_rat q = (if q < 0 then \<lceil>q\<rceil> else \<lfloor>q\<rfloor>)"

text \<open>\<open>std::trunc\<close>: the result is again a float, with an integral value when finite.\<close>

fun f_trunc :: "fval \<Rightarrow> fval" where
  "f_trunc NaN = NaN"
| "f_trunc (Inf neg) = Inf neg"
| "f_trunc (Fin q) = Fin (of_int (trunc_rat q))"

text \<open>
  \<open>static_cast<int32_t>(x)\<close>, \<open>static_cast<uint32_t>(x)\<close>, \<open>static_cast<int64_t>(x)\<close> and
  \<open>static_cast<uint64_t>(x)\<close> of a floating-point \<open>x\<close>: the truncated value when the
  destination type can hold it. Otherwise C++ leaves the behaviour undefined; here the
  value is then reduced modulo \<open>2\<^sup>w\<close> (and taken as 0 for a NaN or an infinity). No theorem
  below rests on that choice: where one speaks of such a conversion, it only says that
  no exception is thrown.
\<close>

fun float_to_word :: "fval \<Rightarrow> 'a::len word" where
  "float_to_word (Fin q) = word_of_int (trunc_rat q)"
| "float_to_word _ = 0"

definition INT32_MAX :: i32 where "INT32_MAX = 0x7FFFFFFF"
definition INT32_MIN :: i32 where "INT32_MIN = 0x80000000"
definition INT64_MAX :: i64 where "INT64_MAX = 0x7FFFFFFFFFFFFFFF"
definition INT64_MIN :: i64 where "INT64_MIN = 0x8000000000000000"

text \<open>
  The body shared by the eight saturating cases:
  \<open>if (isnan(a)) 0; else if (a >= hi) max; else if (a <= lo) min; else cast(trunc(a))\<close>.
\<close>

definition saturate :: "fval \<Rightarrow> rat \<Rightarrow> 'a::len word \<Rightarrow> rat \<Rightarrow> 'a word \<Rightarrow> 'a word" where
  "saturate a hi max_v lo min_v =
     (if isnan a then 0
      else if f_ge a hi then max_v
      else if f_le a lo then min_v
      else float_to_word (f_trunc a))"

section \<open>Conversion instructions (interpreter.cpp, \<open>executeConversion\<close>)\<close>

text \<open>\<open>opcodeToString\<close> (instructions.cpp): the name table, \<open>"unknown"\<close> for any other byte.\<close>

definition opcode_names :: "(Opcode \<times> string) list" where
  "opcode_names =
     [(0x00, ''unreachable''), (0x01, ''nop''), (0x02, ''block''), (0x03, ''loop''),
      (0x04, ''if''), (0x05, ''else''), (0x0B, ''end''), (0x0C, ''br''), (0x0D, ''br_if''),
      (0x0E, ''br_table''), (0x0F, ''return''), (0x10, ''call''), (0x11, ''call_indirect''),
      (0x1A, ''drop''), (0x1B, ''select''),
      (0x20, ''local.get''), (0x21, ''local.set''), (0x22, ''local.tee''),
      (0x23, ''global.get''), (0x24, ''global.set''),
      (0x28, ''i32.load''), (0x29, ''i64.load''), (0x2A, ''f32.load''), (0x2B, ''f64.load''),
      (0x36, ''i32.store''), (0x37, ''i64.store''), (0x38, ''f32.store''),
      (0x39, ''f64.store''), (0x3F, ''memory.size''), (0x40, ''memory.grow''),
      (0x41, ''i32.const''), (0x42, ''i64.const''), (0x43, ''f32.const''),
      (0x44, ''f64.const''),
      (0x6A, ''i32.add''), (0x6B, ''i32.sub''), (0x6C, ''i32.mul''), (0x6D, ''i32.div_s''),
      (0x6E, ''i32.div_u''), (0x46, ''i32.eq''), (0x47, ''i32.ne''), (0x48, ''i32.lt_s''),
      (0x49, ''i32.lt_u''), (0x4A, ''i32.gt_s''), (0x4B, ''i32.gt_u''),
      (0x7C, ''i64.add''), (0x7D, ''i64.sub''), (0x7E, ''i64.mul''), (0x51, ''i64.eq''),
      (0x92, ''f32.add''), (0x93, ''f32.sub''), (0x94, ''f32.mul''), (0x95, ''f32.div''),
      (0xA0, ''f64.add''), (0xA1, ''f64.sub''), (0xA2, ''f64.mul''), (0xA3, ''f64.div'')]"

definition opcodeToString :: "Opcode \<Rightarrow> string" where
  "opcodeToString opcode =
     (case map_of opcode_names opcode of Some name \<Rightarrow> name | None \<Rightarrow> ''unknown'')"

definition stack_pushI32 :: "i32 \<Rightarrow> Interp \<Rightarrow> unit outcome" where
  "stack_pushI32 v s = Normal () (s\<lparr>stack := pushI32 v (stack s)\<rparr>)"

definition stack_pushI64 :: "i64 \<Rightarrow> Interp \<Rightarrow> unit outcome" where
  "stack_pushI64 v s = Normal () (s\<lparr>stack := pushI64 v (stack s)\<rparr>)"

definition stack_pushF32 :: "f32 \<Rightarrow> Interp \<Rightarrow> unit outcome" where
  "stack_pushF32 v s = Normal () (s\<lparr>stack := pushF32 v (stack s)\<rparr>)"

definition stack_pushF64 :: "f64 \<Rightarrow> Interp \<Rightarrow> unit outcome" where
  "stack_pushF64 v s = Normal () (s\<lparr>stack := pushF64 v (stack s)\<rparr>)"

text \<open>
  The inner \<open>switch (sub_opcode)\<close> of the \<open>0xFC\<close> case. The constants are the values of
  the literals in their type: \<open>-2147483649.0f\<close> is the \<open>float\<close> \<open>-2\<^sup>3\<^sup>1\<close>, and
  \<open>-9223372036854775809.0f\<close> and \<open>-9223372036854775809.0\<close> are \<open>-2\<^sup>6\<^sup>3\<close>, the nearest
  values of 24 and 53 significant bits; the other literals are exact. \<open>pushI32(-1)\<close> and
  \<open>pushI64(-1)\<close> push the all-ones word.
\<close>

definition executeSaturating :: "8 word \<Rightarrow> Interp \<Rightarrow> unit outcome" where
  "executeSaturating sub_opcode s =
     (if sub_opcode = 0x00 then
        bind (on_stack popF32 s) (\<lambda>a s.
          stack_pushI32
            (saturate (fval_of_f32 a) 2147483648 INT32_MAX (- 2147483648) INT32_MIN) s)
      else if sub_opcode = 0x01 then
        bind (on_stack popF32 s) (\<lambda>a s.
          stack_pushI32 (saturate (fval_of_f32 a) 4294967296 (- 1) (- 1) 0) s)
      else if sub_opcode = 0x02 then
        bind (on_stack popF64 s) (\<lambda>a s.
          stack_pushI32
            (saturate (fval_of_f64 a) 2147483648 INT32_MAX (- 2147483649) INT32_MIN) s)
      else if sub_opcode = 0x03 then
        bind (on_stack popF64 s) (\<lambda>a s.
          stack_pushI32 (saturate (fval_of_f64 a) 4294967296 (- 1) (- 1) 0) s)
      else if sub_opcode = 0x04 then
        bind (on_stack popF32 s) (\<lambda>a s.
          stack_pushI64
            (saturate (fval_of_f32 a) 9223372036854775808 INT64_MAX
               (- 9223372036854775808) INT64_MIN) s)
      else if sub_opcode = 0x05 then
        bind (on_stack popF32 s) (\<lambda>a s.
          stack_pushI64 (saturate (fval_of_f32 a) 18446744073709551616 (- 1) (- 1) 0) s)
      else if sub_opcode = 0x06 then
        bind (on_stack popF64 s) (\<lambda>a s.
          stack_pushI64
            (saturate (fval_of_f64 a) 9223372036854775808 INT64_MAX
               (- 9223372036854775808) INT64_MIN) s)
      else if sub_opcode = 0x07 then
        bind (on_stack popF64 s) (\<lambda>a s.
          stack_pushI64 (saturate (fval_of_f64 a) 18446744073709551616 (- 1) (- 1) 0) s)
      else Raised (InterpreterError
             (''Unknown 0xFC sub-opcode: '' @ digits 10 (unat sub_opcode))) s)"

text \<open>
  \<open>Interpreter::executeConversion\<close>. The integer-to-float conversions, \<open>f32.demote_f64\<close> and
  \<open>f64.promote_f32\<close> (opcodes \<open>0xB2\<close> to \<open>0xBB\<close>) round to a floating-point format and are
  outside the embedded fragment.
\<close>

definition executeConversion :: "Opcode \<Rightarrow> Interp \<Rightarrow> unit outcome" where
  "executeConversion opcode s =
     (if opcode = I32_TRUNC_F32_S then
        bind (on_stack popF32 s) (\<lambda>a s.
          let x = fval_of_f32 a in
          if isnan x \<or> isinf x then Raised (Trap ''Invalid conversion: f32 to i32'') s
          else stack_pushI32 (float_to_word (f_trunc x)) s)
      else if opcode = I32_TRUNC_F32_U then
        bind (on_stack popF32 s) (\<lambda>a s.
          let x = fval_of_f32 a in
          if isnan x \<or> isinf x \<or> f_lt x 0 then Raised (Trap ''Invalid conversion: f32 to u32'') s
          else stack_pushI32 (float_to_word (f_trunc x)) s)
      else if opcode = I32_TRUNC_F64_S then
        bind (on_stack popF64 s) (\<lambda>a s.
          let x = fval_of_f64 a in
          if isnan x \<or> isinf x then Raised (Trap ''Invalid conversion: f64 to i32'') s
          else stack_pushI32 (float_to_word (f_trunc x)) s)
      else if opcode = I32_TRUNC_F64_U then
        bind (on_stack popF64 s) (\<lambda>a s.
          let x = fval_of_f64 a in
          if isnan x \<or> isinf x \<or> f_lt x 0 then Raised (Trap ''Invalid conversion: f64 to u32'') s
          else stack_pushI32 (float_to_word (f_trunc x)) s)
      else if opcode = I64_TRUNC_F32_S then
        bind (on_stack popF32 s) (\<lambda>a s.
          let x = fval_of_f32 a in
          if isnan x \<or> isinf x then Raised (Trap ''Invalid conversion: f32 to i64'') s
          else stack_pushI64 (float_to_word (f_trunc x)) s)
      else if opcode = I64_TRUNC_F32_U then
        bind (on_stack popF32 s) (\<lambda>a s.
          let x = fval_of_f32 a in
          if isnan x \<or> isinf x \<or> f_lt x 0 then Raised (Trap ''Invalid conversion: f32 to u64'') s
          else stack_pushI64 (float_to_word (f_trunc x)) s)
      else if opcode = I64_TRUNC_F64_S then
        bind (on_stack popF64 s) (\<lambda>a s.
          let x = fval_of_f64 a in
          if isnan x \<or> isinf x then Raised (Trap ''Invalid conversion: f64 to i64'') s
          else stack_pushI64 (float_to_word (f_trunc x)) s)
      else if opcode = I64_TRUNC_F64_U then
        bind (on_stack popF64 s) (\<lambda>a s.
          let x = fval_of_f64 a in
          if isnan x \<or> isinf x \<or> f_lt x 0 then Raised (Trap ''Invalid conversion: f64 to u64'') s
          else stack_pushI64 (float_to_word (f_trunc x)) s)
      else if opcode = I32_REINTERPRET_F32 then
        bind (on_stack popF32 s) (\<lambda>a s. stack_pushI32 a s)
      else if opcode = I64_REINTERPRET_F64 then
        bind (on_stack popF64 s) (\<lambda>a s. stack_pushI64 a s)
      else if opcode = F32_REINTERPRET_I32 then
        bind (on_stack popI32 s) (\<lambda>a s. stack_pushF32 a s)
      else if opcode = F64_REINTERPRET_I64 then
        bind (on_stack popI64 s) (\<lambda>a s. stack_pushF64 a s)
      else if opcode = I64_EXTEND_I32_S then
        bind (on_stack popI32 s) (\<lambda>a s. stack_pushI64 (scast a) s)
      else if opcode = I64_EXTEND_I32_U then
        bind (on_stack popI32 s) (\<lambda>a s. stack_pushI64 (ucast a) s)
      else if opcode = I32_WRAP_I64 then
        bind (on_stack popI64 s) (\<lambda>a s. stack_pushI32 (ucast (a AND 0xFFFFFFFF)) s)
      else if opcode = 0xFC then
        bind (Interpreter_readByte s) executeSaturating
      else if 0xB2 \<le> opcode \<and> opcode \<le> 0xBB then Unmodelled
      else Raised (InterpreterError
             (''Conversion instruction not implemented: '' @ opcodeToString opcode)) s)"

subsection \<open>Saturating conversions\<close>

text \<open>
  The mapping as the specification words it, for a destination range \<open>lo..hi\<close>: NaN goes
  to 0, a value below the range to \<open>lo\<close>, a value above it to \<open>hi\<close>, any other value is
  truncated towards zero.
\<close>

definition trunc_sat_spec :: "int \<Rightarrow> int \<Rightarrow> fval \<Rightarrow> int" where
  "trunc_sat_spec lo hi x =
     (case x of
        NaN \<Rightarrow> 0
      | Inf neg \<Rightarrow> (if neg then lo else hi)
      | Fin q \<Rightarrow> (if q < of_int lo then lo else if q > of_int hi then hi else trunc_rat q))"


text \<open>
  Sub-opcodes 0, 1, 4, 5 take an \<open>f32\<close> operand, the others an \<open>f64\<close>; 0 and 2 produce a
  signed \<open>i32\<close>, 1 and 3 an unsigned one, 4 and 6 a signed \<open>i64\<close>, 5 and 7 an unsigned one.
\<close>

definition sat_operand_type :: "8 word \<Rightarrow> ValueType" where
  "sat_operand_type sub = (if sub \<in> {0, 1, 4, 5} then F32 else F64)"

definition sat_result :: "8 word \<Rightarrow> 64 word \<Rightarrow> TypedValue" where
  "sat_result sub p =
     (let x = (if sub \<in> {0, 1, 4, 5} then fval_of_f32 (ucast p) else fval_of_f64 p) in
      if sub \<in> {0, 2} then makeI32 (word_of_int (trunc_sat_spec (- 2147483648) 2147483647 x))
      else if sub \<in> {1, 3} then makeI32 (word_of_int (trunc_sat_spec 0 4294967295 x))
      else if sub \<in> {4, 6}
        then makeI64 (word_of_int
               (trunc_sat_spec (- 9223372036854775808) 9223372036854775807 x))
      else makeI64 (word_of_int (trunc_sat_spec 0 18446744073709551615 x)))"

lemma trunc_rat_of_int [simp]: "trunc_rat (of_int z) = z"
  by (simp add: trunc_rat_def)

lemma trunc_rat_below: "lo \<le> 0 \<Longrightarrow> of_int lo - 1 < q \<Longrightarrow> q < of_int lo \<Longrightarrow> trunc_rat q = lo"
proof -
  assume a: "lo \<le> 0" "of_int lo - 1 < q" "q < of_int lo"
  then have "q < 0" using of_int_le_0_iff [of lo, where ?'a = rat] by linarith
  moreover have "\<lceil>q\<rceil> = lo" using a by (simp add: ceiling_eq_iff)
  ultimately show ?thesis by (simp add: trunc_rat_def)
qed

lemma trunc_rat_above: "0 \<le> hi \<Longrightarrow> of_int hi < q \<Longrightarrow> q < of_int hi + 1 \<Longrightarrow> trunc_rat q = hi"
proof -
  assume a: "0 \<le> hi" "of_int hi < q" "q < of_int hi + 1"
  then have "\<not> q < 0" using of_int_0_le_iff [of hi, where ?'a = rat] by linarith
  moreover have "\<lfloor>q\<rfloor> = hi" using a by (simp add: floor_eq_iff)
  ultimately show ?thesis by (simp add: trunc_rat_def)
qed

lemma saturate_refines:
  assumes lo: "lo \<le> 0" and hi: "0 \<le> hi"
    and hc: "hi_c = of_int hi + 1"
    and lc1: "of_int lo - 1 \<le> lo_c" and lc2: "lo_c \<le> of_int lo"
  shows "saturate x hi_c (word_of_int hi) lo_c (word_of_int lo) =
         word_of_int (trunc_sat_spec lo hi x)"
proof (cases x)
  case NaN
  then show ?thesis by (simp add: saturate_def trunc_sat_spec_def)
next
  case (Inf neg)
  then show ?thesis by (simp add: saturate_def trunc_sat_spec_def)
next
  case (Fin q)
  have lohi: "(of_int lo :: rat) \<le> of_int hi" using lo hi by simp
  consider "q \<ge> hi_c" | "q < hi_c" "q \<le> lo_c" | "q < hi_c" "lo_c < q" by linarith
  then show ?thesis
  proof cases
    case 1
    with hc lohi have "q > of_int hi" "\<not> q < of_int lo" by linarith+
    with 1 Fin show ?thesis by (simp add: saturate_def trunc_sat_spec_def)
  next
    case 2
    with hc lc2 lohi have nge: "\<not> q \<ge> hi_c" and qle: "q \<le> of_int lo" by linarith+
    show ?thesis
    proof (cases "q < of_int lo")
      case True
      with 2 nge Fin show ?thesis by (simp add: saturate_def trunc_sat_spec_def)
    next
      case False
      with qle have "q = of_int lo" by simp
      with 2 nge Fin lohi show ?thesis by (simp add: saturate_def trunc_sat_spec_def)
    qed
  next
    case 3
    then have code: "saturate x hi_c (word_of_int hi) lo_c (word_of_int lo) =
        (word_of_int (trunc_rat q) :: 'a word)"
      using Fin by (simp add: saturate_def)
    have "trunc_sat_spec lo hi x = trunc_rat q"
    proof (cases "q < of_int lo")
      case True
      with 3 lc1 have "of_int lo - 1 < q" by linarith
      from trunc_rat_below [OF lo this True] True Fin show ?thesis
        by (simp add: trunc_sat_spec_def)
    next
      case nlt: False
      show ?thesis
      proof (cases "q > of_int hi")
        case True
        from 3 hc have "q < of_int hi + 1" by simp
        from trunc_rat_above [OF hi True this] True nlt Fin show ?thesis
          by (simp add: trunc_sat_spec_def)
      next
        case False
        with nlt Fin show ?thesis by (simp add: trunc_sat_spec_def)
      qed
    qed
    with code show ?thesis by simp
  qed
qed




lemma sat_i32_s_f32:
  "saturate x 2147483648 INT32_MAX (- 2147483648) INT32_MIN =
   word_of_int (trunc_sat_spec (- 2147483648) 2147483647 x)"
proof -
  have "(- 2147483648 :: 32 word) = 2147483648" by simp
  with saturate_refines [of "- 2147483648" 2147483647 2147483648 "- 2147483648" x, where ?'a = 32]
  show ?thesis by (simp add: INT32_MAX_def INT32_MIN_def)
qed

lemma sat_i32_s_f64:
  "saturate x 2147483648 INT32_MAX (- 2147483649) INT32_MIN =
   word_of_int (trunc_sat_spec (- 2147483648) 2147483647 x)"
proof -
  have "(- 2147483648 :: 32 word) = 2147483648" by simp
  with saturate_refines [of "- 2147483648" 2147483647 2147483648 "- 2147483649" x, where ?'a = 32]
  show ?thesis by (simp add: INT32_MAX_def INT32_MIN_def)
qed

lemma sat_i32_u:
  "saturate x 4294967296 (- 1) (- 1) (0 :: 32 word) =
   word_of_int (trunc_sat_spec 0 4294967295 x)"
proof -
  have "(4294967295 :: 32 word) = - 1" by simp
  with saturate_refines [of 0 4294967295 4294967296 "- 1" x, where ?'a = 32]
  show ?thesis by simp
qed

lemma sat_i64_s:
  "saturate x 9223372036854775808 INT64_MAX (- 9223372036854775808) INT64_MIN =
   word_of_int (trunc_sat_spec (- 9223372036854775808) 9223372036854775807 x)"
proof -
  have "(- 9223372036854775808 :: 64 word) = 9223372036854775808" by simp
  with saturate_refines [of "- 9223372036854775808" 9223372036854775807 9223372036854775808
                            "- 9223372036854775808" x, where ?'a = 64]
  show ?thesis by (simp add: INT64_MAX_def INT64_MIN_def)
qed

lemma sat_i64_u:
  "saturate x 18446744073709551616 (- 1) (- 1) (0 :: 64 word) =
   word_of_int (trunc_sat_spec 0 18446744073709551615 x)"
proof -
  have "(18446744073709551615 :: 64 word) = - 1" by simp
  with saturate_refines [of 0 18446744073709551615 18446744073709551616 "- 1" x, where ?'a = 64]
  show ?thesis by simp
qed


lemma pop_typed_top:
  "vtype v = F32 \<Longrightarrow>
   on_stack popF32 (s\<lparr>stack := st @ [v]\<rparr>) = Normal (ucast (payload v)) (s\<lparr>stack := st\<rparr>)"
  "vtype v = F64 \<Longrightarrow>
   on_stack popF64 (s\<lparr>stack := st @ [v]\<rparr>) = Normal (payload v) (s\<lparr>stack := st\<rparr>)"
  "vtype v = I32 \<Longrightarrow>
   on_stack popI32 (s\<lparr>stack := st @ [v]\<rparr>) = Normal (ucast (payload v)) (s\<lparr>stack := st\<rparr>)"
  "vtype v = I64 \<Longrightarrow>
   on_stack popI64 (s\<lparr>stack := st @ [v]\<rparr>) = Normal (payload v) (s\<lparr>stack := st\<rparr>)"
  by (simp_all add: on_stack_def typed_pop_cases checkType_def)

text \<open>
  C8. With the sub-opcode \<open>sub\<close> in \<open>0..7\<close> next in the bytecode and an operand of the
  instruction's floating-point type on top of the stack, the \<open>0xFC\<close> instruction returns
  normally for every bit pattern of the operand (no trap, no other error) and replaces
  the operand by the integer of the specified mapping: 0 for a NaN, the minimum (0 for the
  unsigned variants) below the range, the maximum above it, the truncation otherwise.
\<close>

theorem saturating_conversion_total:
  assumes pc: "pc s < code_size s"
    and sub: "code s ! pc s = sub"
    and rng: "sub \<in> {0, 1, 2, 3, 4, 5, 6, 7}"
    and st: "stack s = st @ [v]"
    and ty: "vtype v = sat_operand_type sub"
  shows "executeConversion 0xFC s =
           Normal () (s\<lparr>pc := pc s + 1, stack := st @ [sat_result sub (payload v)]\<rparr>)"
proof -
  have rd: "Interpreter_readByte s = Normal sub (s\<lparr>pc := pc s + 1\<rparr>)"
    using pc sub by (simp add: Interpreter_readByte_def)
  have s': "s\<lparr>pc := pc s + 1\<rparr> = (s\<lparr>pc := pc s + 1\<rparr>)\<lparr>stack := st @ [v]\<rparr>"
    using st by simp
  have conv: "executeConversion 0xFC s =
                executeSaturating sub ((s\<lparr>pc := pc s + 1\<rparr>)\<lparr>stack := st @ [v]\<rparr>)"
    using rd s' by (simp add: executeConversion_def Opcode_defs)
  from rng ty show ?thesis
    unfolding conv
    by (elim insertE emptyE)
       (simp_all add: executeSaturating_def sat_operand_type_def pop_typed_top
          stack_pushI32_def stack_pushI64_def pushI32_def pushI64_def sat_result_def
          sat_i32_s_f32 sat_i32_s_f64 sat_i32_u sat_i64_s sat_i64_u)
qed

lemma fval_of_3e9f: "fval_of_f32 0x4F32D05E = Fin 3000000000"
  by (simp add: fval_of_f32_def scale2_def)

lemma fval_of_nan: "fval_of_f32 0x7FC00000 = NaN"
  by (simp add: fval_of_f32_def scale2_def)

text \<open>
  \<open>i32.trunc_sat_f32_s\<close> on the float 3000000000 (bits \<open>4F32D05E\<close>), above the range,
  gives \<open>INT32_MAX\<close>.
\<close>

theorem saturating_conversion_total_witness:
  "executeConversion 0xFC
     ((init_Interp empty_Module)
        \<lparr>stack := [makeF32 0x4F32D05E], code := [0xFC, 0x00, 0x0B], code_size := 3,
         pc := 1\<rparr>) =
   Normal ()
     ((init_Interp empty_Module)
        \<lparr>stack := [makeI32 0x7FFFFFFF], code := [0xFC, 0x00, 0x0B], code_size := 3,
         pc := 2\<rparr>)"
  using saturating_conversion_total
          [of "(init_Interp empty_Module)
                 \<lparr>stack := [makeF32 0x4F32D05E], code := [0xFC, 0x00, 0x0B], code_size := 3,
                  pc := 1\<rparr>" 0 "[]" "makeF32 0x4F32D05E"]
  by (simp add: init_Interp_def sat_operand_type_def sat_result_def makeF32_def
                fval_of_3e9f trunc_sat_spec_def)

subsection \<open>Trapping conversions\<close>

text \<open>
  The eight \<open>trunc\<close> cases test the operand for NaN and infinity (and, in the unsigned
  cases, for \<open>a < 0\<close>) and then convert; there is no test of the range.
\<close>

definition trunc_opcodes :: "Opcode set" where
  "trunc_opcodes =
     {I32_TRUNC_F32_S, I32_TRUNC_F32_U, I32_TRUNC_F64_S, I32_TRUNC_F64_U,
      I64_TRUNC_F32_S, I64_TRUNC_F32_U, I64_TRUNC_F64_S, I64_TRUNC_F64_U}"

definition trunc_operand_type :: "Opcode \<Rightarrow> ValueType" where
  "trunc_operand_type opcode =
     (if opcode \<in> {I32_TRUNC_F32_S, I32_TRUNC_F32_U, I64_TRUNC_F32_S, I64_TRUNC_F32_U}
      then F32 else F64)"

definition trunc_operand :: "Opcode \<Rightarrow> 64 word \<Rightarrow> fval" where
  "trunc_operand opcode p =
     (if opcode \<in> {I32_TRUNC_F32_S, I32_TRUNC_F32_U, I64_TRUNC_F32_S, I64_TRUNC_F32_U}
      then fval_of_f32 (ucast p) else fval_of_f64 p)"

definition trunc_unsigned :: "Opcode \<Rightarrow> bool" where
  "trunc_unsigned opcode \<longleftrightarrow>
     opcode \<in> {I32_TRUNC_F32_U, I32_TRUNC_F64_U, I64_TRUNC_F32_U, I64_TRUNC_F64_U}"

lemma trunc_traps:
  assumes op: "opcode \<in> trunc_opcodes"
    and ty: "vtype v = trunc_operand_type opcode"
    and bad: "isnan (trunc_operand opcode (payload v)) \<or>
              isinf (trunc_operand opcode (payload v)) \<or>
              trunc_unsigned opcode \<and> f_lt (trunc_operand opcode (payload v)) 0"
  shows "\<exists>msg. executeConversion opcode (s\<lparr>stack := st @ [v]\<rparr>) =
                 Raised (Trap msg) (s\<lparr>stack := st\<rparr>)"
  using op ty bad unfolding trunc_opcodes_def
  by (elim insertE emptyE)
     (simp_all add: executeConversion_def trunc_operand_type_def trunc_operand_def
        trunc_unsigned_def Opcode_defs pop_typed_top Let_def)

lemma trunc_returns:
  assumes op: "opcode \<in> trunc_opcodes"
    and ty: "vtype v = trunc_operand_type opcode"
    and good: "\<not> isnan (trunc_operand opcode (payload v))"
              "\<not> isinf (trunc_operand opcode (payload v))"
              "trunc_unsigned opcode \<longrightarrow> \<not> f_lt (trunc_operand opcode (payload v)) 0"
  shows "is_Normal (executeConversion opcode (s\<lparr>stack := st @ [v]\<rparr>))"
  using op ty good unfolding trunc_opcodes_def
  by (elim insertE emptyE)
     (simp_all add: executeConversion_def trunc_operand_type_def trunc_operand_def
        trunc_unsigned_def Opcode_defs pop_typed_top Let_def stack_pushI32_def
        stack_pushI64_def)

lemma fval_of_2p32f: "fval_of_f32 0x4F800000 = Fin 4294967296"
  by (simp add: fval_of_f32_def scale2_def)

lemma fval_of_1e19: "fval_of_f64 0x43E158E460913D00 = Fin 10000000000000000000"
  by (simp add: fval_of_f64_def scale2_def)

text \<open>
  C4. The trapping conversions should trap on every finite value whose truncation is
  outside the destination range. \<open>i32.trunc_f32_s\<close> on the float 3000000000 (bits
  \<open>4F32D05E\<close>, above \<open>INT32_MAX\<close>), \<open>i32.trunc_f32_u\<close> on the float \<open>2\<^sup>3\<^sup>2\<close> (bits
  \<open>4F800000\<close>) and \<open>i64.trunc_f64_s\<close> on the double \<open>10\<^sup>1\<^sup>9\<close> (bits \<open>43E158E460913D00\<close>,
  above \<open>INT64_MAX\<close>) return normally: the operand is neither NaN nor infinite, and no
  other test is made before the conversion. A NaN operand does trap.
\<close>

theorem trunc_out_of_range_returns:
  "is_Normal (executeConversion I32_TRUNC_F32_S
     ((init_Interp empty_Module)\<lparr>stack := [makeF32 0x4F32D05E]\<rparr>)) \<and>
   is_Normal (executeConversion I32_TRUNC_F32_U
     ((init_Interp empty_Module)\<lparr>stack := [makeF32 0x4F800000]\<rparr>)) \<and>
   is_Normal (executeConversion I64_TRUNC_F64_S
     ((init_Interp empty_Module)\<lparr>stack := [makeF64 0x43E158E460913D00]\<rparr>)) \<and>
   fval_of_f32 0x4F32D05E = Fin 3000000000 \<and>
   fval_of_f32 0x4F800000 = Fin 4294967296 \<and>
   fval_of_f64 0x43E158E460913D00 = Fin 10000000000000000000 \<and>
   executeConversion I32_TRUNC_F32_S
     ((init_Interp empty_Module)\<lparr>stack := [makeF32 0x7FC00000]\<rparr>) =
     Raised (Trap ''Invalid conversion: f32 to i32'') (init_Interp empty_Module)"
  by (simp add: executeConversion_def Opcode_defs on_stack_def typed_pop_cases checkType_def
                makeF32_def makeF64_def ValueType_defs init_Interp_def fval_of_3e9f
                fval_of_2p32f fval_of_1e19 fval_of_nan Let_def stack_pushI32_def
                stack_pushI64_def)

section \<open>Scanning bytecode for the matching \<open>end\<close> (interpreter.cpp)\<close>

text \<open>
  The scans read \<open>code_\<close> and \<open>code_size_\<close> only and move a local \<open>pc\<close>.
  \<open>while (pc < code_size_ && (code_[pc] & 0x80)) pc++; if (pc < code_size_) pc++;\<close>
  skips one LEB128 immediate.
\<close>

function skip_leb_loop :: "Interp \<Rightarrow> nat \<Rightarrow> nat" where
  "skip_leb_loop s p =
     (if p < code_size s \<and> code s ! p AND 0x80 \<noteq> 0 then skip_leb_loop s (p + 1) else p)"
  by pat_completeness auto
termination
  by (relation "measure (\<lambda>(s, p). code_size s - p)") auto

declare skip_leb_loop.simps [simp del]

definition skip_leb :: "Interp \<Rightarrow> nat \<Rightarrow> nat" where
  "skip_leb s p = (let p' = skip_leb_loop s p in if p' < code_size s then p' + 1 else p')"

lemma skip_leb_loop_ge: "p \<le> skip_leb_loop s p"
proof (induction s p rule: skip_leb_loop.induct)
  case (1 s p)
  then show ?case
    by (subst skip_leb_loop.simps) auto
qed

lemma skip_leb_ge: "p \<le> skip_leb s p"
  using skip_leb_loop_ge [of p s] by (simp add: skip_leb_def Let_def)

lemma skip_leb_gt: "p < code_size s \<Longrightarrow> p < skip_leb s p"
  using skip_leb_loop_ge [of p s] by (auto simp: skip_leb_def Let_def)

text \<open>
  The count of \<open>br_table\<close>, decoded while it is skipped, and the loop
  \<open>for (uint32_t i = 0; i <= count && pc < code_size_; i++)\<close> over its \<open>count + 1\<close>
  labels; \<open>i\<close> is a \<open>uint32_t\<close> and wraps.
\<close>

function br_table_count_loop :: "Interp \<Rightarrow> 32 word \<Rightarrow> nat \<Rightarrow> nat \<Rightarrow> 32 word \<times> nat \<times> nat" where
  "br_table_count_loop s count shift p =
     (if p < code_size s \<and> code s ! p AND 0x80 \<noteq> 0
      then br_table_count_loop s (count OR push_bit shift (ucast (code s ! p AND 0x7F)))
             (shift + 7) (p + 1)
      else (count, shift, p))"
  by pat_completeness auto
termination
  by (relation "measure (\<lambda>(s, count, shift, p). code_size s - p)") auto

declare br_table_count_loop.simps [simp del]

function skip_labels :: "Interp \<Rightarrow> 32 word \<Rightarrow> 32 word \<Rightarrow> nat \<Rightarrow> nat" where
  "skip_labels s count i p =
     (if i \<le> count \<and> p < code_size s then skip_labels s count (i + 1) (skip_leb s p) else p)"
  by pat_completeness auto
termination
  by (relation "measure (\<lambda>(s, count, i, p). code_size s - p)")
     (auto dest: skip_leb_gt intro: diff_less_mono2)

declare skip_labels.simps [simp del]

lemma br_table_count_loop_ge: "br_table_count_loop s c sh p = (c', sh', p') \<Longrightarrow> p \<le> p'"
proof (induction s c sh p rule: br_table_count_loop.induct)
  case (1 s count shift p)
  show ?case
  proof (cases "p < code_size s \<and> code s ! p AND 0x80 \<noteq> 0")
    case True
    with "1.prems" have "br_table_count_loop s
        (count OR push_bit shift (ucast (code s ! p AND 0x7F))) (shift + 7) (p + 1) =
        (c', sh', p')"
      by (simp add: br_table_count_loop.simps [of s count shift p])
    from "1.IH" [OF True this] show ?thesis by simp
  next
    case False
    with "1.prems" show ?thesis
      by (simp add: br_table_count_loop.simps [of s count shift p])
  qed
qed

lemma skip_labels_ge: "p \<le> skip_labels s count i p"
proof (induction s count i p rule: skip_labels.induct)
  case (1 s count i p)
  show ?case
  proof (cases "i \<le> count \<and> p < code_size s")
    case True
    from "1.IH" [OF True] skip_leb_ge [of p s] True show ?thesis
      by (simp add: skip_labels.simps [of s count i p])
  next
    case False
    then show ?thesis
      by (subst skip_labels.simps) auto
  qed
qed

text \<open>\<open>Interpreter::skipInstructionOperands(opcode, pc)\<close>: the new value of \<open>pc\<close>.\<close>

definition skipInstructionOperands :: "Interp \<Rightarrow> 8 word \<Rightarrow> nat \<Rightarrow> nat" where
  "skipInstructionOperands s opcode p =
     (if opcode = 0x0C \<or> opcode = 0x0D \<or> opcode = 0x10 \<or> opcode = 0x20 \<or> opcode = 0x21 \<or>
         opcode = 0x22 \<or> opcode = 0x23 \<or> opcode = 0x24
      then skip_leb s p
      else if opcode = 0x0E then
        (case br_table_count_loop s 0 0 p of
           (count, shift, p1) \<Rightarrow>
             if p1 < code_size s
             then skip_labels s (count OR push_bit shift (ucast (code s ! p1 AND 0x7F))) 0
                    (p1 + 1)
             else skip_labels s count 0 p1)
      else if opcode = 0x41 \<or> opcode = 0x42 then skip_leb s p
      else if opcode = 0x43 then p + 4
      else if opcode = 0x44 then p + 8
      else if (opcode \<ge> 0x28 \<and> opcode \<le> 0x3E) \<or> opcode = 0x3F \<or> opcode = 0x40 then
        (let p1 = (if p < code_size s then skip_leb s p else p)
         in if p1 < code_size s then skip_leb s p1 else p1)
      else p)"

lemma skipInstructionOperands_ge: "p \<le> skipInstructionOperands s opcode p"
proof -
  have leb: "\<And>q. q \<le> skip_leb s q" by (rule skip_leb_ge)
  have mem: "p \<le> (let p1 = (if p < code_size s then skip_leb s p else p)
                   in if p1 < code_size s then skip_leb s p1 else p1)"
    using leb [of p] leb [of "skip_leb s p"] by (auto simp: Let_def intro: order_trans)
  have tab: "p \<le> (case br_table_count_loop s 0 0 p of
           (count, shift, p1) \<Rightarrow>
             if p1 < code_size s
             then skip_labels s (count OR push_bit shift (ucast (code s ! p1 AND 0x7F))) 0
                    (p1 + 1)
             else skip_labels s count 0 p1)"
  proof (cases "br_table_count_loop s 0 0 p")
    case (fields count shift p1)
    from br_table_count_loop_ge [OF fields] have "p \<le> p1" .
    moreover have "p1 \<le> skip_labels s count 0 p1" by (rule skip_labels_ge)
    moreover have "p1 + 1 \<le> skip_labels s
        (count OR push_bit shift (ucast (code s ! p1 AND 0x7F))) 0 (p1 + 1)"
      by (rule skip_labels_ge)
    ultimately show ?thesis using fields by auto
  qed
  show ?thesis
    unfolding skipInstructionOperands_def using leb [of p] mem tab by auto
qed

text \<open>
  \<open>Interpreter::findMatchingEnd\<close>: the loop over the local \<open>pc\<close> and \<open>depth\<close>; the result
  is the position after the matching \<open>end\<close>.
\<close>

function findMatchingEnd_loop :: "Interp \<Rightarrow> nat \<Rightarrow> int \<Rightarrow> error + nat" where
  "findMatchingEnd_loop s p depth =
     (if p < code_size s then
        (let opcode = code s ! p; p1 = p + 1 in
         if opcode = 0x02 \<or> opcode = 0x03 \<or> opcode = 0x04 then
           findMatchingEnd_loop s (if p1 < code_size s then p1 + 1 else p1) (depth + 1)
         else if opcode = 0x0B then
           (if depth - 1 = 0 then Inr p1 else findMatchingEnd_loop s p1 (depth - 1))
         else findMatchingEnd_loop s (skipInstructionOperands s opcode p1) depth)
      else Inl (InterpreterError ''No matching END found for block/loop''))"
  by pat_completeness auto
termination
proof (relation "measure (\<lambda>(s, p, depth). code_size s - p)", goal_cases)
  case (4 s p depth opcode p1)
  with skipInstructionOperands_ge [of "p + 1" s "code s ! p"] show ?case by auto
qed auto

declare findMatchingEnd_loop.simps [simp del]

definition findMatchingEnd :: "nat \<Rightarrow> Interp \<Rightarrow> error + nat" where
  "findMatchingEnd start_pc s = findMatchingEnd_loop s start_pc 1"

text \<open>
  \<open>Interpreter::findMatchingElseAndEnd\<close>: the result is the position after the matching
  \<open>end\<close> together with \<open>else_pc\<close> (0 when there is no \<open>else\<close>).
\<close>

function findMatchingElseAndEnd_loop ::
  "Interp \<Rightarrow> nat \<Rightarrow> int \<Rightarrow> nat \<Rightarrow> error + nat \<times> nat" where
  "findMatchingElseAndEnd_loop s p depth else_pc =
     (if p < code_size s then
        (let opcode = code s ! p; p1 = p + 1 in
         if opcode = 0x02 \<or> opcode = 0x03 \<or> opcode = 0x04 then
           findMatchingElseAndEnd_loop s (if p1 < code_size s then p1 + 1 else p1) (depth + 1)
             else_pc
         else if opcode = 0x05 \<and> depth = 1 then
           findMatchingElseAndEnd_loop s p1 depth p1
         else if opcode = 0x0B then
           (if depth - 1 = 0 then Inr (p1, else_pc)
            else findMatchingElseAndEnd_loop s p1 (depth - 1) else_pc)
         else findMatchingElseAndEnd_loop s (skipInstructionOperands s opcode p1) depth else_pc)
      else Inl (InterpreterError ''No matching END found for if''))"
  by pat_completeness auto
termination
proof (relation "measure (\<lambda>(s, p, depth, else_pc). code_size s - p)", goal_cases)
  case (5 s p depth else_pc opcode p1)
  with skipInstructionOperands_ge [of "p + 1" s "code s ! p"] show ?case by auto
qed auto

declare findMatchingElseAndEnd_loop.simps [simp del]

definition findMatchingElseAndEnd :: "nat \<Rightarrow> Interp \<Rightarrow> error + nat \<times> nat" where
  "findMatchingElseAndEnd start_pc s = findMatchingElseAndEnd_loop s start_pc 1 0"

section \<open>Instructions (interpreter.cpp)\<close>

subsection \<open>Constants and integer arithmetic\<close>

definition executeNumericConst :: "Opcode \<Rightarrow> Interp \<Rightarrow> unit outcome" where
  "executeNumericConst opcode s =
     (if opcode = I32_CONST then bind (Interpreter_readVarInt32 s) stack_pushI32
      else if opcode = I64_CONST then bind (Interpreter_readVarInt64 s) stack_pushI64
      else if opcode = F32_CONST then bind (Interpreter_readF32 s) stack_pushF32
      else if opcode = F64_CONST then bind (Interpreter_readF64 s) stack_pushF64
      else Raised (InterpreterError ''Numeric const instruction not implemented'') s)"

text \<open>C++ integer division truncates towards zero; \<open>%\<close> is its remainder.\<close>

definition tdiv :: "int \<Rightarrow> int \<Rightarrow> int" where
  "tdiv a b = sgn a * sgn b * (\<bar>a\<bar> div \<bar>b\<bar>)"

definition trem :: "int \<Rightarrow> int \<Rightarrow> int" where
  "trem a b = a - b * tdiv a b"

text \<open>
  \<open>Interpreter::executeNumeric\<close>, the \<open>i32\<close> arithmetic, bitwise and comparison cases. In
  each, \<open>b\<close> is popped before \<open>a\<close>. The shifts, rotations and bit counts, the \<open>i64\<close>
  cases and the floating-point cases are outside the embedded fragment.
\<close>

definition executeNumeric :: "Opcode \<Rightarrow> Interp \<Rightarrow> unit outcome" where
  "executeNumeric opcode s =
     (if opcode = I32_ADD then
        bind (on_stack popI32 s) (\<lambda>b s.
        bind (on_stack popI32 s) (\<lambda>a s. stack_pushI32 (a + b) s))
      else if opcode = I32_SUB then
        bind (on_stack popI32 s) (\<lambda>b s.
        bind (on_stack popI32 s) (\<lambda>a s. stack_pushI32 (a - b) s))
      else if opcode = I32_MUL then
        bind (on_stack popI32 s) (\<lambda>b s.
        bind (on_stack popI32 s) (\<lambda>a s. stack_pushI32 (a * b) s))
      else if opcode = I32_AND then
        bind (on_stack popI32 s) (\<lambda>b s.
        bind (on_stack popI32 s) (\<lambda>a s. stack_pushI32 (a AND b) s))
      else if opcode = I32_OR then
        bind (on_stack popI32 s) (\<lambda>b s.
        bind (on_stack popI32 s) (\<lambda>a s. stack_pushI32 (a OR b) s))
      else if opcode = I32_XOR then
        bind (on_stack popI32 s) (\<lambda>b s.
        bind (on_stack popI32 s) (\<lambda>a s. stack_pushI32 (a XOR b) s))
      else if opcode = I32_EQ then
        bind (on_stack popI32 s) (\<lambda>b s.
        bind (on_stack popI32 s) (\<lambda>a s. stack_pushI32 (if a = b then 1 else 0) s))
      else if opcode = I32_NE then
        bind (on_stack popI32 s) (\<lambda>b s.
        bind (on_stack popI32 s) (\<lambda>a s. stack_pushI32 (if a \<noteq> b then 1 else 0) s))
      else if opcode = I32_LT_S then
        bind (on_stack popI32 s) (\<lambda>b s.
        bind (on_stack popI32 s) (\<lambda>a s. stack_pushI32 (if sint a < sint b then 1 else 0) s))
      else if opcode = I32_LT_U then
        bind (on_stack popI32 s) (\<lambda>b s.
        bind (on_stack popI32 s) (\<lambda>a s. stack_pushI32 (if a < b then 1 else 0) s))
      else if opcode = I32_GT_S then
        bind (on_stack popI32 s) (\<lambda>b s.
        bind (on_stack popI32 s) (\<lambda>a s. stack_pushI32 (if sint a > sint b then 1 else 0) s))
      else if opcode = I32_GT_U then
        bind (on_stack popI32 s) (\<lambda>b s.
        bind (on_stack popI32 s) (\<lambda>a s. stack_pushI32 (if a > b then 1 else 0) s))
      else if opcode = I32_LE_S then
        bind (on_stack popI32 s) (\<lambda>b s.
        bind (on_stack popI32 s) (\<lambda>a s. stack_pushI32 (if sint a \<le> sint b then 1 else 0) s))
      else if opcode = I32_LE_U then
        bind (on_stack popI32 s) (\<lambda>b s.
        bind (on_stack popI32 s) (\<lambda>a s. stack_pushI32 (if a \<le> b then 1 else 0) s))
      else if opcode = I32_GE_S then
        bind (on_stack popI32 s) (\<lambda>b s.
        bind (on_stack popI32 s) (\<lambda>a s. stack_pushI32 (if sint a \<ge> sint b then 1 else 0) s))
      else if opcode = I32_GE_U then
        bind (on_stack popI32 s) (\<lambda>b s.
        bind (on_stack popI32 s) (\<lambda>a s. stack_pushI32 (if a \<ge> b then 1 else 0) s))
      else if opcode = I32_DIV_S then
        bind (on_stack popI32 s) (\<lambda>b s.
        bind (on_stack popI32 s) (\<lambda>a s.
          if b = 0 then Raised (Trap ''integer divide by zero'') s
          else if a = INT32_MIN \<and> b = - 1 then Raised (Trap ''integer overflow'') s
          else stack_pushI32 (word_of_int (tdiv (sint a) (sint b))) s))
      else if opcode = I32_DIV_U then
        bind (on_stack popI32 s) (\<lambda>b s.
        bind (on_stack popI32 s) (\<lambda>a s.
          if b = 0 then Raised (Trap ''integer divide by zero'') s
          else stack_pushI32 (a div b) s))
      else if opcode = I32_REM_S then
        bind (on_stack popI32 s) (\<lambda>b s.
        bind (on_stack popI32 s) (\<lambda>a s.
          if b = 0 then Raised (Trap ''integer divide by zero'') s
          else stack_pushI32 (word_of_int (trem (sint a) (sint b))) s))
      else if opcode = I32_REM_U then
        bind (on_stack popI32 s) (\<lambda>b s.
        bind (on_stack popI32 s) (\<lambda>a s.
          if b = 0 then Raised (Trap ''integer divide by zero'') s
          else stack_pushI32 (a mod b) s))
      else if opcode = I32_EQZ then
        bind (on_stack popI32 s) (\<lambda>a s. stack_pushI32 (if a = 0 then 1 else 0) s)
      else Unmodelled)"

subsection \<open>Memory instructions\<close>

definition effectiveAddress :: "32 word \<Rightarrow> 32 word \<Rightarrow> error + 32 word" where
  "effectiveAddress base offset =
     (let addr = (ucast base :: 64 word) + ucast offset in
      if addr > 0xFFFFFFFF then Inl (Trap ''Memory address overflow'') else Inr (ucast addr))"

definition loadI32 :: "32 word \<Rightarrow> Memory \<Rightarrow> error + 32 word" where
  "loadI32 address m = map_sum id from_le_bytes (load 4 address m)"

definition storeI32 :: "32 word \<Rightarrow> 32 word \<Rightarrow> Memory \<Rightarrow> error + Memory" where
  "storeI32 address v m = store address (le_bytes 4 v) m"

text \<open>
  \<open>Interpreter::executeMemory\<close>: \<open>memory.size\<close>, \<open>memory.grow\<close>, \<open>i32.load\<close> and
  \<open>i32.store\<close>; the \<open>memarg\<close> is read before the operands are popped. The other loads and
  stores are outside the embedded fragment.
\<close>

definition executeMemory :: "Opcode \<Rightarrow> Interp \<Rightarrow> unit outcome" where
  "executeMemory opcode s =
     (case memory s of
        None \<Rightarrow> Raised (InterpreterError ''No memory instantiated'') s
      | Some _ \<Rightarrow>
        if opcode = MEMORY_SIZE then
          bind (Interpreter_readByte s) (\<lambda>_ s.
            stack_pushI32 (size_pages (the (memory s))) s)
        else if opcode = MEMORY_GROW then
          bind (Interpreter_readByte s) (\<lambda>_ s.
          bind (on_stack popI32 s) (\<lambda>delta s.
            case grow delta (the (memory s)) of
              (result, m') \<Rightarrow> stack_pushI32 result (s\<lparr>memory := Some m'\<rparr>)))
        else
          bind (Interpreter_readVarUint32 s) (\<lambda>align s.
          bind (Interpreter_readVarUint32 s) (\<lambda>offset s.
            if opcode = I32_LOAD then
              bind (on_stack popI32 s) (\<lambda>base s.
                case effectiveAddress base offset of
                  Inl e \<Rightarrow> Raised e s
                | Inr addr \<Rightarrow>
                    (case loadI32 addr (the (memory s)) of
                       Inl e \<Rightarrow> Raised e s
                     | Inr v \<Rightarrow> stack_pushI32 v s))
            else if opcode = I32_STORE then
              bind (on_stack popI32 s) (\<lambda>v s.
              bind (on_stack popI32 s) (\<lambda>base s.
                case effectiveAddress base offset of
                  Inl e \<Rightarrow> Raised e s
                | Inr addr \<Rightarrow>
                    (case storeI32 addr v (the (memory s)) of
                       Inl e \<Rightarrow> Raised e s
                     | Inr m' \<Rightarrow> Normal () (s\<lparr>memory := Some m'\<rparr>))))
            else Unmodelled)))"

subsection \<open>Control flow\<close>

text \<open>
  The element-segment search of \<open>call_indirect\<close>: the offset of a segment is decoded
  from its \<open>i32.const\<close> expression by the loop
  \<open>while (pos < elem.offset_expr.size() - 1)\<close>, the first segment of table 0 that holds the
  index wins.
\<close>

function elem_offset_loop :: "8 word list \<Rightarrow> nat \<Rightarrow> 32 word \<Rightarrow> nat \<Rightarrow> 32 word" where
  "elem_offset_loop expr pos v shift =
     (if pos < length expr - 1 then
        (let byte = expr ! pos;
             v' = v OR push_bit shift (ucast (byte AND 0x7F))
         in if byte AND 0x80 = 0 then v' else elem_offset_loop expr (pos + 1) v' (shift + 7))
      else v)"
  by pat_completeness auto
termination
  by (relation "measure (\<lambda>(expr, pos, v, shift). length expr - pos)") auto

declare elem_offset_loop.simps [simp del]

fun find_element :: "ElementSegment list \<Rightarrow> 32 word \<Rightarrow> 32 word option" where
  "find_element [] elem_index = None"
| "find_element (elem # rest) elem_index =
     (if table_index elem = 0 then
        (let offset = (if offset_expr elem \<noteq> [] \<and> offset_expr elem ! 0 = 0x41
                       then elem_offset_loop (offset_expr elem) 1 0 0 else 0);
             actual_index = elem_index - offset
         in if unat actual_index < length (func_indices elem)
            then Some (func_indices elem ! unat actual_index)
            else find_element rest elem_index)
      else find_element rest elem_index)"

text \<open>
  The signature test of \<open>call_indirect\<close>: the two loops report the first differing
  parameter, then the first differing result, of lists of equal lengths.
\<close>

definition check_signature :: "Module \<Rightarrow> 32 word \<Rightarrow> 32 word \<Rightarrow> error + unit" where
  "check_signature m func_index type_idx =
     (case getFunctionType m func_index of
        None \<Rightarrow> Inl (Trap ''Type mismatch in call_indirect'')
      | Some func_type \<Rightarrow>
          if unat type_idx \<ge> length (types m) then Inl (Trap ''Type mismatch in call_indirect'')
          else
            let expected_type = types m ! unat type_idx in
            if length (params func_type) \<noteq> length (params expected_type) \<or>
               length (results func_type) \<noteq> length (results expected_type)
            then Inl (Trap ''Indirect call signature mismatch'')
            else if params func_type \<noteq> params expected_type
            then Inl (Trap ''Indirect call parameter type mismatch'')
            else if results func_type \<noteq> results expected_type
            then Inl (Trap ''Indirect call result type mismatch'')
            else Inr ())"

text \<open>
  The block that \<open>call\<close> and \<open>call_indirect\<close> share: save \<open>pc_\<close>, \<open>code_\<close>,
  \<open>code_size_\<close>, \<open>locals_\<close> and \<open>labels_\<close> in locals of the case, run \<open>execute(func_index)\<close>,
  and assign the saved values back. \<open>exec\<close> is the function \<open>execute\<close>; when it throws,
  the assignments are not reached.
\<close>

definition call_saving_frame ::
  "(32 word \<Rightarrow> Interp \<Rightarrow> unit outcome) \<Rightarrow> 32 word \<Rightarrow> Interp \<Rightarrow> unit outcome" where
  "call_saving_frame exec func_index s =
     (let return_pc = pc s;
          return_code = code s;
          return_code_size = code_size s;
          return_locals = locals s;
          return_labels = labels s
      in bind (exec func_index s) (\<lambda>_ s.
           Normal () (s\<lparr>pc := return_pc, code := return_code, code_size := return_code_size,
                        locals := return_locals, labels := return_labels\<rparr>)))"

text \<open>The loop of \<open>br_table\<close> that reads its \<open>label_count\<close> targets.\<close>

primrec read_targets :: "nat \<Rightarrow> 32 word list \<Rightarrow> Interp \<Rightarrow> 32 word list outcome" where
  "read_targets 0 acc s = Normal acc s"
| "read_targets (Suc n) acc s =
     bind (Interpreter_readVarUint32 s) (\<lambda>t s. read_targets n (acc @ [t]) s)"

text \<open>
  \<open>Interpreter::executeControlFlow\<close>. The opcode has been fetched, \<open>pc_\<close> is at its
  immediates.
\<close>

definition executeControlFlow ::
  "(32 word \<Rightarrow> Interp \<Rightarrow> unit outcome) \<Rightarrow> Opcode \<Rightarrow> Interp \<Rightarrow> unit outcome" where
  "executeControlFlow exec opcode s =
     (if opcode = NOP then Normal () s
      else if opcode = UNREACHABLE then Raised (Trap ''Unreachable instruction executed'') s
      else if opcode = BLOCK then
        bind (Interpreter_readByte s) (\<lambda>block_type s.
          let ar = (if block_type = 0x40 then 0 else 1);
              height = length (stack s)
          in case findMatchingEnd (pc s) s of
               Inl e \<Rightarrow> Raised e s
             | Inr end_pc \<Rightarrow> Normal () (pushLabel end_pc height False ar s))
      else if opcode = LOOP then
        bind (Interpreter_readByte s) (\<lambda>loop_type s.
          Normal () (pushLabel (pc s) (length (stack s)) True 0 s))
      else if opcode = IF then
        bind (Interpreter_readByte s) (\<lambda>result_type s.
          let ar = (if result_type = 0x40 then 0 else 1) in
          bind (on_stack popI32 s) (\<lambda>condition s.
            let height = length (stack s) in
            case findMatchingElseAndEnd (pc s) s of
              Inl e \<Rightarrow> Raised e s
            | Inr (end_pc, else_pc) \<Rightarrow>
                (let s1 = pushLabel end_pc height False ar s in
                 if condition = 0 then
                   (if else_pc > 0 then Normal () (s1\<lparr>pc := else_pc\<rparr>)
                    else Normal () (popLabel (s1\<lparr>pc := end_pc\<rparr>)))
                 else Normal () s1)))
      else if opcode = ELSE then
        (if labels s = [] then Raised (InterpreterError ''ELSE without matching IF'') s
         else Normal () (popLabel (s\<lparr>pc := target_pc (last (labels s))\<rparr>)))
      else if opcode = END then
        Normal () (if labels s \<noteq> [] then popLabel s else s)
      else if opcode = BR then
        bind (Interpreter_readVarUint32 s) branch
      else if opcode = BR_IF then
        bind (Interpreter_readVarUint32 s) (\<lambda>depth s.
        bind (on_stack popI32 s) (\<lambda>condition s.
          if condition \<noteq> 0 then branch depth s else Normal () s))
      else if opcode = BR_TABLE then
        bind (Interpreter_readVarUint32 s) (\<lambda>label_count s.
        bind (read_targets (unat label_count) [] s) (\<lambda>targets s.
        bind (Interpreter_readVarUint32 s) (\<lambda>default_label s.
        bind (on_stack popI32 s) (\<lambda>index s.
          let selected_depth =
                (if sint index < 0 \<or> index \<ge> label_count then default_label
                 else targets ! unat index)
          in branch selected_depth s))))
      else if opcode = RETURN then
        Normal () (s\<lparr>pc := code_size s, labels := []\<rparr>)
      else if opcode = CALL then
        bind (Interpreter_readVarUint32 s) (call_saving_frame exec)
      else if opcode = CALL_INDIRECT then
        bind (Interpreter_readVarUint32 s) (\<lambda>type_idx s.
        bind (Interpreter_readByte s) (\<lambda>reserved s.
          if reserved \<noteq> 0x00
          then Raised (InterpreterError ''Invalid table index in call_indirect'') s
          else
            bind (on_stack popI32 s) (\<lambda>elem_index s.
              if sint elem_index < 0 then Raised (Trap ''Undefined element in call_indirect'') s
              else
                case find_element (element_segments (module s)) elem_index of
                  None \<Rightarrow> Raised (Trap ''Undefined element in call_indirect'') s
                | Some func_index \<Rightarrow>
                    (case check_signature (module s) func_index type_idx of
                       Inl e \<Rightarrow> Raised e s
                     | Inr _ \<Rightarrow> call_saving_frame exec func_index s))))
      else Raised (InterpreterError
             (''Control flow instruction not implemented: '' @ opcodeToString opcode)) s)"

subsection \<open>Dispatch\<close>

definition isControlFlowInstruction :: "Opcode \<Rightarrow> bool" where
  "isControlFlowInstruction opcode \<longleftrightarrow> opcode \<ge> UNREACHABLE \<and> opcode \<le> CALL_INDIRECT"

definition isMemoryInstruction :: "Opcode \<Rightarrow> bool" where
  "isMemoryInstruction opcode \<longleftrightarrow>
     (opcode \<ge> I32_LOAD \<and> opcode \<le> I64_STORE32) \<or> opcode = MEMORY_SIZE \<or> opcode = MEMORY_GROW"

definition isNumericInstruction :: "Opcode \<Rightarrow> bool" where
  "isNumericInstruction opcode \<longleftrightarrow>
     (opcode \<ge> I32_CONST \<and> opcode \<le> F64_CONST) \<or>
     (opcode \<ge> I32_EQZ \<and> opcode \<le> F64_REINTERPRET_I64)"

text \<open>\<open>Interpreter::executeInstruction\<close>: fetch the opcode and dispatch on its category.\<close>

definition executeInstruction ::
  "(32 word \<Rightarrow> Interp \<Rightarrow> unit outcome) \<Rightarrow> Interp \<Rightarrow> unit outcome" where
  "executeInstruction exec s =
     (if pc s \<ge> code_size s then Raised (InterpreterError ''Program counter out of bounds'') s
      else
        let opcode = code s ! pc s;
            s = s\<lparr>pc := pc s + 1\<rparr>
        in if isControlFlowInstruction opcode then executeControlFlow exec opcode s
           else if opcode = DROP \<or> opcode = SELECT then executeParametric opcode s
           else if opcode \<ge> LOCAL_GET \<and> opcode \<le> GLOBAL_SET then executeVariable opcode s
           else if isMemoryInstruction opcode then executeMemory opcode s
           else if opcode \<ge> I32_CONST \<and> opcode \<le> F64_CONST then executeNumericConst opcode s
           else if opcode \<ge> I32_WRAP_I64 \<and> opcode \<le> F64_REINTERPRET_I64
             then executeConversion opcode s
           else if opcode = 0xFC then executeConversion opcode s
           else if isNumericInstruction opcode then executeNumeric opcode s
           else Raised (InterpreterError
                  (''Unknown or unimplemented opcode: '' @ digits 10 (unat opcode))) s)"

subsection \<open>Running a function\<close>

text \<open>
  The loop \<open>while (pc_ < code_size_) executeInstruction();\<close> of \<open>execute\<close>. It need not
  end; \<open>fuel\<close> bounds the number of instructions it is followed for.
\<close>

primrec run :: "(32 word \<Rightarrow> Interp \<Rightarrow> unit outcome) \<Rightarrow> nat \<Rightarrow> Interp \<Rightarrow> unit outcome" where
  "run exec 0 s = (if pc s < code_size s then OutOfFuel else Normal () s)"
| "run exec (Suc fuel) s =
     (if pc s < code_size s then bind (executeInstruction exec s) (\<lambda>_ s. run exec fuel s)
      else Normal () s)"

text \<open>
  \<open>for (size_t i = param_count; i > 0; i--) locals_[i - 1] = stack_.pop();\<close>
\<close>

primrec pop_params :: "nat \<Rightarrow> Interp \<Rightarrow> unit outcome" where
  "pop_params 0 s = Normal () s"
| "pop_params (Suc i) s =
     bind (on_stack pop s) (\<lambda>v s. pop_params i (s\<lparr>locals := (locals s)[i := v]\<rparr>))"

text \<open>
  \<open>Interpreter::execute\<close>, with \<open>exec\<close> for the calls of \<open>execute\<close> that the instructions
  of the body make. \<open>locals_.resize\<close> fills with \<open>TypedValue()\<close>, an \<open>i32\<close> with payload 0; a
  declared local gets its declared type and payload 0. The host function \<open>fd_write\<close> writes
  to the standard streams and is outside the embedded fragment.
\<close>

definition execute_function ::
  "(32 word \<Rightarrow> Interp \<Rightarrow> unit outcome) \<Rightarrow> nat \<Rightarrow> 32 word \<Rightarrow> Interp \<Rightarrow> unit outcome" where
  "execute_function exec fuel func_index s =
     (let m = module s;
          import_count = getImportedFunctionCount m
      in if func_index < import_count then
           (if unat func_index < length (module_imports m) \<and>
               import_kind (module_imports m ! unat func_index) = FUNCTION \<and>
               import_module_name (module_imports m ! unat func_index) =
                 ''wasi_snapshot_preview1'' \<and>
               import_field_name (module_imports m ! unat func_index) = ''fd_write''
            then Unmodelled
            else Raised (InterpreterError ''Cannot execute imported function'') s)
         else
           let local_index = func_index - import_count in
           if unat local_index \<ge> length (module_functions m)
           then Raised (InterpreterError ''Invalid function index'') s
           else
             let func = module_functions m ! unat local_index in
             case getFunctionType m func_index of
               None \<Rightarrow> Raised (InterpreterError ''Invalid function type'') s
             | Some func_type \<Rightarrow>
                 (let param_count = length (params func_type);
                      local_count = length (function_locals func);
                      s = s\<lparr>locals := replicate (param_count + local_count)
                                         \<lparr>vtype = I32, payload = 0\<rparr>\<rparr>
                  in bind (pop_params param_count s) (\<lambda>_ s.
                       let s = s\<lparr>locals := take param_count (locals s) @
                                    map (\<lambda>t. \<lparr>vtype = t, payload = 0\<rparr>) (function_locals func)\<rparr>;
                           s = s\<lparr>code := body func, code_size := length (body func), pc := 0,
                                 labels := []\<rparr>
                       in run exec fuel s)))"

text \<open>
  \<open>execute\<close> calls itself through the instructions \<open>call\<close> and \<open>call_indirect\<close>. The fuel
  bounds the depth of that nesting as well as the instructions of each activation: an
  activation of fuel \<open>n + 1\<close> runs at most \<open>n\<close> instructions and nests activations of
  fuel \<open>n\<close>.
\<close>

primrec execute :: "nat \<Rightarrow> 32 word \<Rightarrow> Interp \<Rightarrow> unit outcome" where
  "execute 0 = (\<lambda>func_index s. OutOfFuel)"
| "execute (Suc n) = execute_function (execute n) n"

section \<open>Decoder: parsing a module (decoder.cpp)\<close>

text \<open>
  A member function of the decoder moves the cursor and returns a value or throws. The
  module under construction is a local of \<open>parseBytes\<close> which is dropped when an exception
  leaves it, so an error carries no module.
\<close>

type_synonym 'a reader = "Decoder \<Rightarrow> (error + 'a) \<times> Decoder"

definition dreturn :: "'a \<Rightarrow> 'a reader" where
  "dreturn a d = (Inr a, d)"

definition dthrow :: "error \<Rightarrow> 'a reader" where
  "dthrow e d = (Inl e, d)"

definition dbind :: "'a reader \<Rightarrow> ('a \<Rightarrow> 'b reader) \<Rightarrow> 'b reader" where
  "dbind f g d = (case f d of (Inl e, d') \<Rightarrow> (Inl e, d') | (Inr a, d') \<Rightarrow> g a d')"

text \<open>
  The loops \<open>for (uint32_t i = 0; i < count; i++) v.push_back(read())\<close>: \<open>n\<close> elements are
  read and appended in order.
\<close>

primrec read_vec :: "nat \<Rightarrow> 'a reader \<Rightarrow> 'a list \<Rightarrow> 'a list reader" where
  "read_vec 0 f acc d = (Inr acc, d)"
| "read_vec (Suc n) f acc d =
     (case f d of
        (Inl e, d') \<Rightarrow> (Inl e, d')
      | (Inr a, d') \<Rightarrow> read_vec n f (acc @ [a]) d')"

definition readU32 :: "32 word reader" where
  "readU32 d =
     (case ensureBytes 4 d of
        Inl e \<Rightarrow> (Inl e, d)
      | Inr _ \<Rightarrow> (Inr (from_le_bytes (take 4 (drop (position d) (buffer d)))),
                  d\<lparr>position := position d + 4\<rparr>))"

definition readBytes :: "nat \<Rightarrow> 8 word list reader" where
  "readBytes count d =
     (case ensureBytes count d of
        Inl e \<Rightarrow> (Inl e, d)
      | Inr _ \<Rightarrow> (Inr (take count (drop (position d) (buffer d))),
                  d\<lparr>position := position d + count\<rparr>))"

text \<open>\<open>readName\<close>: the bytes are the characters of the \<open>std::string\<close>.\<close>

definition readName :: "string reader" where
  "readName =
     dbind Decoder_readVarUint32 (\<lambda>len d.
       case ensureBytes (unat len) d of
         Inl e \<Rightarrow> (Inl e, d)
       | Inr _ \<Rightarrow> (Inr (map (\<lambda>b. char_of (unat b))
                           (take (unat len) (drop (position d) (buffer d)))),
                   d\<lparr>position := position d + unat len\<rparr>))"

definition readValueType :: "ValueType reader" where
  "readValueType = Decoder_readByte"

definition readFuncType :: "FuncType reader" where
  "readFuncType =
     dbind Decoder_readByte (\<lambda>form.
       if form \<noteq> 0x60
       then (\<lambda>d. dthrow (DecoderError (formatError
               (''Invalid function type form: expected 0x60, got 0x'' @ digits 10 (unat form))
               d)) d)
       else
         dbind Decoder_readVarUint32 (\<lambda>param_count.
         dbind (read_vec (unat param_count) readValueType []) (\<lambda>ps.
         dbind Decoder_readVarUint32 (\<lambda>result_count.
         dbind (read_vec (unat result_count) readValueType []) (\<lambda>rs.
           dreturn \<lparr>params = ps, results = rs\<rparr>)))))"

definition readLimits :: "Limits reader" where
  "readLimits =
     dbind Decoder_readByte (\<lambda>flags.
     dbind Decoder_readVarUint32 (\<lambda>mn.
       if flags AND 0x01 \<noteq> 0
       then dbind Decoder_readVarUint32 (\<lambda>mx.
              dreturn \<lparr>lim_min = mn, lim_max = mx, has_max = True\<rparr>)
       else dreturn \<lparr>lim_min = mn, lim_max = 0, has_max = False\<rparr>))"

text \<open>
  \<open>readInitExpression\<close>: bytes are copied up to and including the first \<open>0x0B\<close>; no
  immediate is decoded.
\<close>

function readInitExpression_loop :: "8 word list \<Rightarrow> 8 word list reader" where
  "readInitExpression_loop expr d =
     (case Decoder_readByte d of
        (Inl e, d') \<Rightarrow> (Inl e, d')
      | (Inr byte, d') \<Rightarrow>
          (let expr' = expr @ [byte] in
           if byte = 0x0B then (Inr expr', d')
           else if length expr' > 1024
           then (Inl (DecoderError
                        (formatError ''Init expression too large (> 1024 bytes)'' d')), d')
           else readInitExpression_loop expr' d'))"
  by pat_completeness auto
termination
  by (relation "measure (\<lambda>(expr, d). length (buffer d) - position d)")
     (auto dest!: Decoder_readByte_Inr [OF sym])

declare readInitExpression_loop.simps [simp del]

definition readInitExpression :: "8 word list reader" where
  "readInitExpression = readInitExpression_loop []"

subsection \<open>Sections\<close>

text \<open>
  \<open>parseTypeSection\<close>: an error of \<open>readFuncType\<close> is caught and thrown again with the
  entry index; \<open>e.what()\<close> is the message behind the prefix \<open>"Decoder error: "\<close>.
\<close>

primrec read_types :: "nat \<Rightarrow> nat \<Rightarrow> FuncType list \<Rightarrow> FuncType list reader" where
  "read_types 0 i acc d = (Inr acc, d)"
| "read_types (Suc n) i acc d =
     (case readFuncType d of
        (Inl (DecoderError msg), d') \<Rightarrow>
          (Inl (DecoderError (formatError
             (''In type section, entry '' @ digits 10 i @ '': '' @ ''Decoder error: '' @ msg)
             d')), d')
      | (Inl e, d') \<Rightarrow> (Inl e, d')
      | (Inr a, d') \<Rightarrow> read_types n (i + 1) (acc @ [a]) d')"

definition parseTypeSection :: "Module \<Rightarrow> Module reader" where
  "parseTypeSection m =
     dbind Decoder_readVarUint32 (\<lambda>count.
     dbind (read_types (unat count) 0 (types m)) (\<lambda>ts.
       dreturn (m\<lparr>types := ts\<rparr>)))"

definition parseFunctionSection :: "Module \<Rightarrow> Module reader" where
  "parseFunctionSection m =
     dbind Decoder_readVarUint32 (\<lambda>count.
     dbind (read_vec (unat count) Decoder_readVarUint32 (function_types m)) (\<lambda>fs.
       dreturn (m\<lparr>function_types := fs\<rparr>)))"

definition parseTableSection :: "Module \<Rightarrow> Module reader" where
  "parseTableSection m =
     dbind Decoder_readVarUint32 (\<lambda>count.
     dbind (read_vec (unat count)
              (dbind readValueType (\<lambda>elem_type.
               dbind readLimits (\<lambda>l.
                 dreturn \<lparr>element_type = elem_type, table_limits = l\<rparr>)))
              (tables m)) (\<lambda>ts.
       dreturn (m\<lparr>tables := ts\<rparr>)))"

definition parseMemorySection :: "Module \<Rightarrow> Module reader" where
  "parseMemorySection m =
     dbind Decoder_readVarUint32 (\<lambda>count.
     dbind (read_vec (unat count) readLimits (memories m)) (\<lambda>ms.
       dreturn (m\<lparr>memories := ms\<rparr>)))"

definition parseGlobalSection :: "Module \<Rightarrow> Module reader" where
  "parseGlobalSection m =
     dbind Decoder_readVarUint32 (\<lambda>count.
     dbind (read_vec (unat count)
              (dbind readValueType (\<lambda>t.
               dbind Decoder_readByte (\<lambda>mut.
               dbind readInitExpression (\<lambda>expr.
                 dreturn \<lparr>global_type = t, is_mutable = (mut \<noteq> 0), init_expr = expr\<rparr>))))
              (module_globals m)) (\<lambda>gs.
       dreturn (m\<lparr>module_globals := gs\<rparr>)))"

definition parseExportSection :: "Module \<Rightarrow> Module reader" where
  "parseExportSection m =
     dbind Decoder_readVarUint32 (\<lambda>count.
     dbind (read_vec (unat count)
              (dbind readName (\<lambda>name.
               dbind Decoder_readByte (\<lambda>kind.
               dbind Decoder_readVarUint32 (\<lambda>index.
                 dreturn \<lparr>export_name = name, export_kind = kind, export_index = index\<rparr>))))
              (module_exports m)) (\<lambda>es.
       dreturn (m\<lparr>module_exports := es\<rparr>)))"

definition parseStartSection :: "Module \<Rightarrow> Module reader" where
  "parseStartSection m =
     dbind Decoder_readVarUint32 (\<lambda>index.
       dreturn (m\<lparr>start_function_index := index, has_start_function := True\<rparr>))"

definition parseElementSection :: "Module \<Rightarrow> Module reader" where
  "parseElementSection m =
     dbind Decoder_readVarUint32 (\<lambda>count.
     dbind (read_vec (unat count)
              (dbind Decoder_readVarUint32 (\<lambda>tidx.
               dbind readInitExpression (\<lambda>expr.
               dbind Decoder_readVarUint32 (\<lambda>elem_count.
               dbind (read_vec (unat elem_count) Decoder_readVarUint32 []) (\<lambda>fis.
                 dreturn \<lparr>table_index = tidx, offset_expr = expr, func_indices = fis\<rparr>)))))
              (element_segments m)) (\<lambda>segs.
       dreturn (m\<lparr>element_segments := segs\<rparr>)))"

text \<open>
  \<open>parseCodeSection\<close>. The run-length pairs of the locals are expanded. \<open>body_bytes\<close> is
  the \<open>size_t\<close> difference \<open>body_size - (position_ - body_start)\<close>; when the locals took
  more than \<open>body_size\<close> bytes it wraps around, the sum in \<open>ensureBytes\<close> then wraps as
  well and the C++ read that follows is undefined: here the read fails at the end of the
  buffer.
\<close>

primrec read_bodies :: "nat \<Rightarrow> nat \<Rightarrow> 32 word list \<Rightarrow> Function list \<Rightarrow> Function list reader" where
  "read_bodies 0 i ftypes acc d = (Inr acc, d)"
| "read_bodies (Suc n) i ftypes acc d =
     (case
        dbind Decoder_readVarUint32 (\<lambda>body_size d1.
          let body_start = position d1 in
          dbind Decoder_readVarUint32 (\<lambda>local_decl_count.
          dbind (read_vec (unat local_decl_count)
                   (dbind Decoder_readVarUint32 (\<lambda>local_count.
                    dbind readValueType (\<lambda>t.
                      dreturn (replicate (unat local_count) t))))
                   []) (\<lambda>runs d2.
            let body_bytes =
                  nat ((int (unat body_size) - (int (position d2) - int body_start))
                        mod 2 ^ 64)
            in dbind (readBytes body_bytes) (\<lambda>bs.
                 dreturn \<lparr>type_index = ftypes ! i, function_locals = concat runs,
                          body = bs\<rparr>) d2)) d1) d
      of
        (Inl e, d') \<Rightarrow> (Inl e, d')
      | (Inr func, d') \<Rightarrow> read_bodies n (i + 1) ftypes (acc @ [func]) d')"

definition parseCodeSection :: "Module \<Rightarrow> Module reader" where
  "parseCodeSection m =
     dbind Decoder_readVarUint32 (\<lambda>count d.
       if unat count \<noteq> length (function_types m)
       then (Inl (DecoderError (formatError
               (''Code section count ('' @ digits 10 (unat count) @
                '') does not match function section count ('' @
                digits 10 (length (function_types m)) @ '')'') d)), d)
       else
         dbind (read_bodies (unat count) 0 (function_types m) (module_functions m)) (\<lambda>fs.
           dreturn (m\<lparr>module_functions := fs\<rparr>)) d)"

definition parseDataSection :: "Module \<Rightarrow> Module reader" where
  "parseDataSection m =
     dbind Decoder_readVarUint32 (\<lambda>count.
     dbind (read_vec (unat count)
              (dbind Decoder_readVarUint32 (\<lambda>midx.
               dbind readInitExpression (\<lambda>expr.
               dbind Decoder_readVarUint32 (\<lambda>data_size.
               dbind (readBytes (unat data_size)) (\<lambda>bs.
                 dreturn \<lparr>memory_index = midx, data_offset_expr = expr,
                          segment_data = bs\<rparr>)))))
              (data_segments m)) (\<lambda>segs.
       dreturn (m\<lparr>data_segments := segs\<rparr>)))"

text \<open>
  \<open>parseImportSection\<close>: an \<open>Import\<close> starts from its default constructor and gets the
  descriptor of its kind; any other kind byte reads nothing more.
\<close>

definition default_Limits :: Limits where
  "default_Limits = \<lparr>lim_min = 0, lim_max = 0, has_max = False\<rparr>"

definition default_Import :: Import where
  "default_Import =
     \<lparr>import_module_name = [], import_field_name = [], import_kind = FUNCTION,
      import_type_index = 0, import_memory = default_Limits,
      import_table = \<lparr>element_type = I32, table_limits = default_Limits\<rparr>,
      import_global = \<lparr>global_type = I32, is_mutable = False, init_expr = []\<rparr>\<rparr>"

definition readImport :: "Import reader" where
  "readImport =
     dbind readName (\<lambda>mname.
     dbind readName (\<lambda>fname.
     dbind Decoder_readByte (\<lambda>kind.
       let import = default_Import
             \<lparr>import_module_name := mname, import_field_name := fname, import_kind := kind\<rparr>
       in if kind = FUNCTION then
            dbind Decoder_readVarUint32 (\<lambda>tidx.
              dreturn (import\<lparr>import_type_index := tidx\<rparr>))
          else if kind = TABLE then
            dbind readValueType (\<lambda>t.
            dbind readLimits (\<lambda>l.
              dreturn (import\<lparr>import_table := \<lparr>element_type = t, table_limits = l\<rparr>\<rparr>)))
          else if kind = MEMORY then
            dbind readLimits (\<lambda>l. dreturn (import\<lparr>import_memory := l\<rparr>))
          else if kind = GLOBAL then
            dbind readValueType (\<lambda>t.
            dbind Decoder_readByte (\<lambda>mut.
              dreturn (import\<lparr>import_global :=
                         \<lparr>global_type = t, is_mutable = (mut \<noteq> 0), init_expr = []\<rparr>\<rparr>)))
          else dreturn import)))"

definition parseImportSection :: "Module \<Rightarrow> Module reader" where
  "parseImportSection m =
     dbind Decoder_readVarUint32 (\<lambda>count.
     dbind (read_vec (unat count) readImport (module_imports m)) (\<lambda>is.
       dreturn (m\<lparr>module_imports := is\<rparr>)))"

definition parseSection :: "Module \<Rightarrow> 8 word \<Rightarrow> 32 word \<Rightarrow> Module reader" where
  "parseSection m section_id section_size =
     (if section_id = 1 then parseTypeSection m
      else if section_id = 2 then parseImportSection m
      else if section_id = 3 then parseFunctionSection m
      else if section_id = 4 then parseTableSection m
      else if section_id = 5 then parseMemorySection m
      else if section_id = 6 then parseGlobalSection m
      else if section_id = 7 then parseExportSection m
      else if section_id = 8 then parseStartSection m
      else if section_id = 9 then parseElementSection m
      else if section_id = 10 then parseCodeSection m
      else if section_id = 11 then parseDataSection m
      else if section_id = 0 then dreturn m
      else dthrow (DecoderError (''Unknown section ID: '' @ digits 10 (unat section_id))))"

subsection \<open>The readers leave the buffer alone\<close>

definition keeps_buffer :: "'a reader \<Rightarrow> bool" where
  "keeps_buffer f \<longleftrightarrow> (\<forall>d a d'. f d = (Inr a, d') \<longrightarrow> buffer d' = buffer d)"

lemma keeps_bufferD: "keeps_buffer f \<Longrightarrow> f d = (Inr a, d') \<Longrightarrow> buffer d' = buffer d"
  by (auto simp: keeps_buffer_def)

lemma keeps_dreturn: "keeps_buffer (dreturn a)"
  by (simp add: keeps_buffer_def dreturn_def)

lemma keeps_dthrow: "keeps_buffer (dthrow e)"
  by (simp add: keeps_buffer_def dthrow_def)

lemma keeps_dbind:
  "keeps_buffer f \<Longrightarrow> (\<And>a. keeps_buffer (g a)) \<Longrightarrow> keeps_buffer (dbind f g)"
  unfolding keeps_buffer_def dbind_def
  by (auto split: prod.splits sum.splits)

lemma keeps_if:
  "(c \<Longrightarrow> keeps_buffer f) \<Longrightarrow> (\<not> c \<Longrightarrow> keeps_buffer g) \<Longrightarrow>
   keeps_buffer (if c then f else g)"
  by simp

lemma keeps_readByte: "keeps_buffer Decoder_readByte"
  by (auto simp: keeps_buffer_def dest!: Decoder_readByte_Inr)

lemma keeps_readVarUint32: "keeps_buffer Decoder_readVarUint32"
  by (auto simp: keeps_buffer_def dest!: Decoder_readVarUint32_at_most_5)

lemma keeps_read_vec: "keeps_buffer f \<Longrightarrow> keeps_buffer (read_vec n f acc)"
proof (induction n arbitrary: acc)
  case 0
  then show ?case by (simp add: keeps_buffer_def)
next
  case (Suc n)
  show ?case
    unfolding keeps_buffer_def
  proof (intro allI impI)
    fix d a d'
    assume r: "read_vec (Suc n) f acc d = (Inr a, d')"
    then obtain x d1 where f: "f d = (Inr x, d1)"
      and rest: "read_vec n f (acc @ [x]) d1 = (Inr a, d')"
      by (auto split: prod.splits sum.splits)
    from keeps_bufferD [OF Suc.prems f] keeps_bufferD [OF Suc.IH [OF Suc.prems] rest]
    show "buffer d' = buffer d" by simp
  qed
qed

lemma keeps_readU32: "keeps_buffer readU32"
  by (auto simp: keeps_buffer_def readU32_def split: sum.splits)

lemma keeps_readBytes: "keeps_buffer (readBytes n)"
  by (auto simp: keeps_buffer_def readBytes_def split: sum.splits)

lemma keeps_readValueType: "keeps_buffer readValueType"
  by (simp add: readValueType_def keeps_readByte)

lemmas keeps_basic =
  keeps_dreturn keeps_dthrow keeps_dbind keeps_if keeps_readByte keeps_readVarUint32
  keeps_read_vec keeps_readU32 keeps_readBytes keeps_readValueType

lemma keeps_readName: "keeps_buffer readName"
  unfolding readName_def
  by (rule keeps_dbind [OF keeps_readVarUint32])
     (auto simp: keeps_buffer_def split: sum.splits)

lemma keeps_readFuncType: "keeps_buffer readFuncType"
  unfolding readFuncType_def
  by (intro keeps_basic) (simp add: keeps_buffer_def dthrow_def)

lemma keeps_readLimits: "keeps_buffer readLimits"
  unfolding readLimits_def by (intro keeps_basic)

lemma keeps_readInitExpression_loop: "keeps_buffer (readInitExpression_loop expr)"
  unfolding keeps_buffer_def
proof (intro allI impI)
  fix d a d'
  show "readInitExpression_loop expr d = (Inr a, d') \<Longrightarrow> buffer d' = buffer d"
  proof (induction expr d rule: readInitExpression_loop.induct)
    case (1 expr d)
    from "1.prems" obtain byte d1 where rb: "Decoder_readByte d = (Inr byte, d1)"
      by (subst (asm) readInitExpression_loop.simps) (auto split: prod.splits sum.splits)
    note b = Decoder_readByte_Inr [OF rb]
    show ?case
    proof (cases "byte = 0x0B")
      case True
      with "1.prems" rb b show ?thesis
        by (subst (asm) readInitExpression_loop.simps) (auto simp: Let_def)
    next
      case False
      with "1.prems" rb have small: "\<not> length (expr @ [byte]) > 1024"
        and rest: "readInitExpression_loop (expr @ [byte]) d1 = (Inr a, d')"
        by (subst (asm) readInitExpression_loop.simps, auto simp: Let_def split: if_splits)+
      from "1.IH" [OF rb [symmetric] refl refl False small rest] b show ?thesis by simp
    qed
  qed
qed

lemma keeps_readInitExpression: "keeps_buffer readInitExpression"
  by (simp add: readInitExpression_def keeps_readInitExpression_loop)

lemma keeps_read_types: "keeps_buffer (read_types n i acc)"
proof (induction n arbitrary: i acc)
  case 0
  then show ?case by (simp add: keeps_buffer_def)
next
  case (Suc n)
  show ?case
    unfolding keeps_buffer_def
  proof (intro allI impI)
    fix d a d'
    assume r: "read_types (Suc n) i acc d = (Inr a, d')"
    then obtain x d1 where f: "readFuncType d = (Inr x, d1)"
      and rest: "read_types n (i + 1) (acc @ [x]) d1 = (Inr a, d')"
      by (auto split: prod.splits sum.splits error.splits)
    from keeps_bufferD [OF keeps_readFuncType f] keeps_bufferD [OF Suc.IH rest]
    show "buffer d' = buffer d" by simp
  qed
qed

lemma keeps_body:
  "keeps_buffer
     (dbind Decoder_readVarUint32 (\<lambda>body_size d1.
        let body_start = position d1 in
        dbind Decoder_readVarUint32 (\<lambda>local_decl_count.
        dbind (read_vec (unat local_decl_count)
                 (dbind Decoder_readVarUint32 (\<lambda>local_count.
                  dbind readValueType (\<lambda>t.
                    dreturn (replicate (unat local_count) t))))
                 []) (\<lambda>runs d2.
          let body_bytes =
                nat ((int (unat body_size) - (int (position d2) - int body_start))
                      mod 2 ^ 64)
          in dbind (readBytes body_bytes) (\<lambda>bs.
               dreturn \<lparr>type_index = ftypes ! i, function_locals = concat runs,
                        body = bs\<rparr>) d2)) d1))"
proof -
  have inner: "\<And>(body_size :: 32 word) body_start runs.
    keeps_buffer (\<lambda>d2.
          let body_bytes =
                nat ((int (unat body_size) - (int (position d2) - int body_start))
                      mod 2 ^ 64)
          in dbind (readBytes body_bytes) (\<lambda>bs.
               dreturn \<lparr>type_index = ftypes ! i, function_locals = concat runs,
                        body = bs\<rparr>) d2)"
    unfolding keeps_buffer_def Let_def
  proof (intro allI impI)
    fix body_size :: "32 word" and body_start :: nat and runs :: "8 word list list"
      and d a d'
    assume h: "dbind
            (readBytes
              (nat ((int (unat body_size) - (int (position d) - int body_start)) mod
                    2 ^ 64)))
            (\<lambda>bs. dreturn
                   \<lparr>type_index = ftypes ! i, function_locals = concat runs, body = bs\<rparr>)
            d = (Inr a, d')"
    show "buffer d' = buffer d"
      by (rule keeps_bufferD [OF keeps_dbind [OF keeps_readBytes keeps_dreturn] h])
  qed
  have outer: "\<And>body_size :: 32 word. keeps_buffer (\<lambda>d1.
        let body_start = position d1 in
        dbind Decoder_readVarUint32 (\<lambda>local_decl_count.
        dbind (read_vec (unat local_decl_count)
                 (dbind Decoder_readVarUint32 (\<lambda>local_count.
                  dbind readValueType (\<lambda>t.
                    dreturn (replicate (unat local_count) t))))
                 []) (\<lambda>runs d2.
          let body_bytes =
                nat ((int (unat body_size) - (int (position d2) - int body_start))
                      mod 2 ^ 64)
          in dbind (readBytes body_bytes) (\<lambda>bs.
               dreturn \<lparr>type_index = ftypes ! i, function_locals = concat runs,
                        body = bs\<rparr>) d2)) d1)"
  proof -
    fix body_size :: "32 word"
    have k: "\<And>body_start. keeps_buffer
        (dbind Decoder_readVarUint32 (\<lambda>local_decl_count.
        dbind (read_vec (unat local_decl_count)
                 (dbind Decoder_readVarUint32 (\<lambda>local_count.
                  dbind readValueType (\<lambda>t.
                    dreturn (replicate (unat local_count) t))))
                 []) (\<lambda>runs d2.
          let body_bytes =
                nat ((int (unat body_size) - (int (position d2) - int body_start))
                      mod 2 ^ 64)
          in dbind (readBytes body_bytes) (\<lambda>bs.
               dreturn \<lparr>type_index = ftypes ! i, function_locals = concat runs,
                        body = bs\<rparr>) d2)))"
      by (intro keeps_basic inner)
    show "keeps_buffer (\<lambda>d1.
        let body_start = position d1 in
        dbind Decoder_readVarUint32 (\<lambda>local_decl_count.
        dbind (read_vec (unat local_decl_count)
                 (dbind Decoder_readVarUint32 (\<lambda>local_count.
                  dbind readValueType (\<lambda>t.
                    dreturn (replicate (unat local_count) t))))
                 []) (\<lambda>runs d2.
          let body_bytes =
                nat ((int (unat body_size) - (int (position d2) - int body_start))
                      mod 2 ^ 64)
          in dbind (readBytes body_bytes) (\<lambda>bs.
               dreturn \<lparr>type_index = ftypes ! i, function_locals = concat runs,
                        body = bs\<rparr>) d2)) d1)"
      unfolding keeps_buffer_def
    proof (intro allI impI)
      fix d a d'
      assume h: "(let body_start = position d in
        dbind Decoder_readVarUint32 (\<lambda>local_decl_count.
        dbind (read_vec (unat local_decl_count)
                 (dbind Decoder_readVarUint32 (\<lambda>local_count.
                  dbind readValueType (\<lambda>t.
                    dreturn (replicate (unat local_count) t))))
                 []) (\<lambda>runs d2.
          let body_bytes =
                nat ((int (unat body_size) - (int (position d2) - int body_start))
                      mod 2 ^ 64)
          in dbind (readBytes body_bytes) (\<lambda>bs.
               dreturn \<lparr>type_index = ftypes ! i, function_locals = concat runs,
                        body = bs\<rparr>) d2)) d) = (Inr a, d')"
      show "buffer d' = buffer d"
        by (rule keeps_bufferD [OF k [of "position d"]]) (use h in \<open>simp add: Let_def\<close>)
    qed
  qed
  show ?thesis
    by (intro keeps_dbind keeps_readVarUint32 outer)
qed

lemma keeps_read_bodies: "keeps_buffer (read_bodies n i ftypes acc)"
proof (induction n arbitrary: i acc)
  case 0
  then show ?case by (simp add: keeps_buffer_def)
next
  case (Suc n)
  show ?case
    unfolding keeps_buffer_def
  proof (intro allI impI)
    fix d a d'
    assume r: "read_bodies (Suc n) i ftypes acc d = (Inr a, d')"
    then obtain x d1 where f: "dbind Decoder_readVarUint32 (\<lambda>body_size d1.
        let body_start = position d1 in
        dbind Decoder_readVarUint32 (\<lambda>local_decl_count.
        dbind (read_vec (unat local_decl_count)
                 (dbind Decoder_readVarUint32 (\<lambda>local_count.
                  dbind readValueType (\<lambda>t.
                    dreturn (replicate (unat local_count) t))))
                 []) (\<lambda>runs d2.
          let body_bytes =
                nat ((int (unat body_size) - (int (position d2) - int body_start))
                      mod 2 ^ 64)
          in dbind (readBytes body_bytes) (\<lambda>bs.
               dreturn \<lparr>type_index = ftypes ! i, function_locals = concat runs,
                        body = bs\<rparr>) d2)) d1) d = (Inr x, d1)"
      and rest: "read_bodies n (i + 1) ftypes (acc @ [x]) d1 = (Inr a, d')"
      by (auto split: prod.splits sum.splits)
    from keeps_bufferD [OF keeps_body f] keeps_bufferD [OF Suc.IH rest]
    show "buffer d' = buffer d" by simp
  qed
qed

lemma keeps_readImport: "keeps_buffer readImport"
  unfolding readImport_def Let_def
  by (intro keeps_basic keeps_readName keeps_readLimits)

lemma keeps_parseCodeSection: "keeps_buffer (parseCodeSection m)"
proof -
  have "\<And>count. keeps_buffer (\<lambda>d.
       if unat count \<noteq> length (function_types m)
       then (Inl (DecoderError (formatError
               (''Code section count ('' @ digits 10 (unat count) @
                '') does not match function section count ('' @
                digits 10 (length (function_types m)) @ '')'') d)), d)
       else
         dbind (read_bodies (unat count) 0 (function_types m) (module_functions m)) (\<lambda>fs.
           dreturn (m\<lparr>module_functions := fs\<rparr>)) d)"
    unfolding keeps_buffer_def
    using keeps_bufferD [OF keeps_dbind [OF keeps_read_bodies keeps_dreturn]]
    by (auto split: if_splits)
  then show ?thesis
    unfolding parseCodeSection_def by (intro keeps_dbind keeps_readVarUint32)
qed

lemma keeps_parseSection: "keeps_buffer (parseSection m section_id section_size)"
  unfolding parseSection_def parseTypeSection_def parseImportSection_def
    parseFunctionSection_def parseTableSection_def parseMemorySection_def
    parseGlobalSection_def parseExportSection_def parseStartSection_def
    parseElementSection_def parseDataSection_def
  by (intro keeps_basic keeps_readName keeps_readLimits keeps_readInitExpression
        keeps_read_types keeps_readImport keeps_parseCodeSection)

subsection \<open>The module\<close>

text \<open>
  \<open>parseModule\<close>: the loop \<open>while (hasMoreData())\<close>. After a section the cursor is moved
  forward to the end announced by \<open>section_size\<close> when the parser stopped before it.
\<close>

function parseModule_loop :: "Module \<Rightarrow> Module reader" where
  "parseModule_loop m d =
     (if position d < length (buffer d) then
        (case Decoder_readByte d of
           (Inl e, d1) \<Rightarrow> (Inl e, d1)
         | (Inr section_id, d1) \<Rightarrow>
             (case Decoder_readVarUint32 d1 of
                (Inl e, d2) \<Rightarrow> (Inl e, d2)
              | (Inr section_size, d2) \<Rightarrow>
                  (case parseSection m section_id section_size d2 of
                     (Inl e, d3) \<Rightarrow> (Inl e, d3)
                   | (Inr m', d3) \<Rightarrow>
                       parseModule_loop m'
                         (if position d3 < position d2 + unat section_size
                          then d3\<lparr>position := position d2 + unat section_size\<rparr>
                          else d3))))
      else (Inr m, d))"
  by pat_completeness auto
termination
proof (relation "measure (\<lambda>(m, d). length (buffer d) - position d)", goal_cases)
  case 1
  show ?case by simp
next
  case (2 m d x d1 section_id y d2 section_size z d3 m')
  from Decoder_readByte_Inr [of d section_id d1] 2
  have d1: "position d1 = position d + 1" "buffer d1 = buffer d" by auto
  from Decoder_readVarUint32_at_most_5 [of d1 section_size d2] 2
  have d2: "position d1 < position d2" "buffer d2 = buffer d1" by auto
  from keeps_bufferD [OF keeps_parseSection, of m section_id section_size d2 m' d3] 2
  have d3: "buffer d3 = buffer d2" by auto
  from 2 have "position d < length (buffer d)" by simp
  with d1 d2 d3 show ?case by auto
qed

declare parseModule_loop.simps [simp del]

definition parseModule :: "Module \<Rightarrow> Module reader" where
  "parseModule m = parseModule_loop (m\<lparr>has_start_function := False\<rparr>)"

definition WASM_MAGIC :: "32 word" where "WASM_MAGIC = 0x6D736100"
definition WASM_VERSION :: "32 word" where "WASM_VERSION = 1"

definition verifyMagicAndVersion :: "unit reader" where
  "verifyMagicAndVersion d =
     (if length (buffer d) < 8
      then (Inl (DecoderError ''File too small to be a valid WASM module''), d)
      else
        dbind readU32 (\<lambda>magic.
          if magic \<noteq> WASM_MAGIC then dthrow (DecoderError ''Invalid magic number'')
          else
            dbind readU32 (\<lambda>version.
              if version \<noteq> WASM_VERSION then dthrow (DecoderError ''Unsupported version'')
              else dreturn ())) d)"

text \<open>
  \<open>Decoder::parseBytes\<close>: the module, or the error thrown. \<open>Module()\<close> leaves
  \<open>start_function_index\<close> without a value; it is taken as 0.
\<close>

definition parseBytes :: "8 word list \<Rightarrow> error + Module" where
  "parseBytes bytes =
     fst (dbind verifyMagicAndVersion (\<lambda>_. parseModule empty_Module)
            \<lparr>buffer = bytes, position = 0\<rparr>)"

subsection \<open>Over-long signed LEB128 in an accepted module\<close>

text \<open>
  The decoder reads every count, size and index with \<open>readVarUint32\<close>. The signed
  immediates (\<open>i32.const\<close>, \<open>i64.const\<close>) sit in initialiser expressions and function
  bodies, which \<open>readInitExpression\<close> and \<open>readBytes\<close> copy byte by byte.
\<close>

lemmas reader_defs =
  dbind_def dreturn_def dthrow_def Decoder_readByte_def ensureBytes_def
  Decoder_readVarUint32_def Decoder_readVarUint32_loop.simps

lemma verify_header:
  "verifyMagicAndVersion
     \<lparr>buffer = 0x00 # 0x61 # 0x73 # 0x6D # 0x01 # 0x00 # 0x00 # 0x00 # rest, position = 0\<rparr> =
   (Inr (), \<lparr>buffer = 0x00 # 0x61 # 0x73 # 0x6D # 0x01 # 0x00 # 0x00 # 0x00 # rest,
             position = 8\<rparr>)"
  by (simp add: verifyMagicAndVersion_def readU32_def reader_defs from_le_bytes_def
                WASM_MAGIC_def WASM_VERSION_def)






section \<open>Calls and the caller's frame\<close>

subsection \<open>What no instruction changes\<close>

text \<open>
  \<open>module_\<close> points to a constant module, and no member function of the interpreter
  touches \<open>call_stack_\<close>. \<open>frame_static s r\<close> says so of an outcome \<open>r\<close> reached from the
  state \<open>s\<close>: when \<open>r\<close> is a normal return, its state has the module and the call stack
  of \<open>s\<close>.
\<close>

lemma on_stack_state:
  "on_stack f s = Normal a s' \<Longrightarrow> \<exists>st. s' = s\<lparr>stack := st\<rparr>"
  by (auto simp: on_stack_def split: prod.splits sum.splits)

lemma bind_Normal_iff:
  "bind m f = Normal b s' \<longleftrightarrow> (\<exists>a s1. m = Normal a s1 \<and> f a s1 = Normal b s')"
  by (cases m) simp_all

definition frame_static :: "Interp \<Rightarrow> 'a outcome \<Rightarrow> bool" where
  "frame_static s r =
     (case r of
        Normal a s' \<Rightarrow> module s' = module s \<and> call_stack s' = call_stack s
      | Raised e s' \<Rightarrow> True
      | OutOfFuel \<Rightarrow> True
      | Unmodelled \<Rightarrow> True)"

lemma frame_static_simps [simp]:
  "frame_static s (Normal a s') \<longleftrightarrow> module s' = module s \<and> call_stack s' = call_stack s"
  "frame_static s (Raised e s')"
  "frame_static s OutOfFuel"
  "frame_static s Unmodelled"
  by (simp_all add: frame_static_def)

lemma frame_static_rel:
  "frame_static t r \<Longrightarrow> module t = module s \<Longrightarrow> call_stack t = call_stack s \<Longrightarrow>
   frame_static s r"
  by (cases r) simp_all

lemma fs_bind:
  "frame_static s m \<Longrightarrow>
   (\<And>a s1. module s1 = module s \<Longrightarrow> call_stack s1 = call_stack s \<Longrightarrow>
             frame_static s (f a s1)) \<Longrightarrow>
   frame_static s (bind m f)"
  by (cases m) simp_all

lemma fs_on_stack:
  "module t = module s \<Longrightarrow> call_stack t = call_stack s \<Longrightarrow> frame_static s (on_stack f t)"
  by (auto simp: on_stack_def split: prod.splits sum.splits)

lemma fs_readByte:
  "module t = module s \<Longrightarrow> call_stack t = call_stack s \<Longrightarrow>
   frame_static s (Interpreter_readByte t)"
  by (simp add: Interpreter_readByte_def)

lemma fs_readVarUint32_loop:
  "module t = module s \<Longrightarrow> call_stack t = call_stack s \<Longrightarrow>
   frame_static s (Interpreter_readVarUint32_loop r sh t)"
proof (induction r sh t rule: Interpreter_readVarUint32_loop.induct)
  case (1 result shift t)
  show ?case
  proof (cases "Interpreter_readByte t")
    case (Normal byte t')
    from Interpreter_readByte_Normal [OF Normal] have t': "t' = t\<lparr>pc := pc t + 1\<rparr>" by simp
    show ?thesis
    proof (cases "byte AND 0x80 = 0")
      case True
      with Normal t' 1(2,3) show ?thesis
        by (simp add: Interpreter_readVarUint32_loop.simps [of result shift t] Let_def)
    next
      case False
      from "1.IH" [OF Normal refl False] t' 1(2,3)
      have "frame_static s (Interpreter_readVarUint32_loop
              (result OR push_bit shift (ucast (byte AND 0x7F))) (shift + 7) t')"
        by simp
      with Normal False show ?thesis
        by (simp add: Interpreter_readVarUint32_loop.simps [of result shift t] Let_def)
    qed
  qed (simp_all add: Interpreter_readVarUint32_loop.simps [of result shift t])
qed

lemma fs_readVarUint32:
  "module t = module s \<Longrightarrow> call_stack t = call_stack s \<Longrightarrow>
   frame_static s (Interpreter_readVarUint32 t)"
  by (simp add: Interpreter_readVarUint32_def fs_readVarUint32_loop)

lemma fs_readVarInt32_loop:
  "module t = module s \<Longrightarrow> call_stack t = call_stack s \<Longrightarrow>
   frame_static s (Interpreter_readVarInt32_loop r sh t)"
proof (induction r sh t rule: Interpreter_readVarInt32_loop.induct)
  case (1 result shift t)
  show ?case
  proof (cases "Interpreter_readByte t")
    case (Normal byte t')
    from Interpreter_readByte_Normal [OF Normal] have t': "t' = t\<lparr>pc := pc t + 1\<rparr>" by simp
    show ?thesis
    proof (cases "byte AND 0x80 = 0")
      case True
      with Normal t' 1(2,3) show ?thesis
        by (simp add: Interpreter_readVarInt32_loop.simps [of result shift t] Let_def)
    next
      case False
      from "1.IH" [OF Normal refl refl False] t' 1(2,3)
      have "frame_static s (Interpreter_readVarInt32_loop
              (result OR push_bit shift (ucast (byte AND 0x7F))) (shift + 7) t')"
        by simp
      with Normal False show ?thesis
        by (simp add: Interpreter_readVarInt32_loop.simps [of result shift t] Let_def)
    qed
  qed (simp_all add: Interpreter_readVarInt32_loop.simps [of result shift t])
qed

lemma fs_readVarInt32:
  "module t = module s \<Longrightarrow> call_stack t = call_stack s \<Longrightarrow>
   frame_static s (Interpreter_readVarInt32 t)"
  unfolding Interpreter_readVarInt32_def
  by (rule fs_bind) (simp_all add: fs_readVarInt32_loop split: prod.split)

lemma fs_readVarInt64_loop:
  "module t = module s \<Longrightarrow> call_stack t = call_stack s \<Longrightarrow>
   frame_static s (Interpreter_readVarInt64_loop r sh t)"
proof (induction r sh t rule: Interpreter_readVarInt64_loop.induct)
  case (1 result shift t)
  show ?case
  proof (cases "Interpreter_readByte t")
    case (Normal byte t')
    from Interpreter_readByte_Normal [OF Normal] have t': "t' = t\<lparr>pc := pc t + 1\<rparr>" by simp
    show ?thesis
    proof (cases "byte AND 0x80 = 0")
      case True
      with Normal t' 1(2,3) show ?thesis
        by (simp add: Interpreter_readVarInt64_loop.simps [of result shift t] Let_def)
    next
      case False
      from "1.IH" [OF Normal refl refl False] t' 1(2,3)
      have "frame_static s (Interpreter_readVarInt64_loop
              (result OR push_bit shift (ucast (byte AND 0x7F))) (shift + 7) t')"
        by simp
      with Normal False show ?thesis
        by (simp add: Interpreter_readVarInt64_loop.simps [of result shift t] Let_def)
    qed
  qed (simp_all add: Interpreter_readVarInt64_loop.simps [of result shift t])
qed

lemma fs_readVarInt64:
  "module t = module s \<Longrightarrow> call_stack t = call_stack s \<Longrightarrow>
   frame_static s (Interpreter_readVarInt64 t)"
  unfolding Interpreter_readVarInt64_def
  by (rule fs_bind) (simp_all add: fs_readVarInt64_loop split: prod.split)

lemma fs_readF:
  "module t = module s \<Longrightarrow> call_stack t = call_stack s \<Longrightarrow>
   frame_static s (Interpreter_readF32 t)"
  "module t = module s \<Longrightarrow> call_stack t = call_stack s \<Longrightarrow>
   frame_static s (Interpreter_readF64 t)"
  by (simp_all add: Interpreter_readF32_def Interpreter_readF64_def)

lemma fs_push:
  "module t = module s \<Longrightarrow> call_stack t = call_stack s \<Longrightarrow> frame_static s (stack_push v t)"
  "module t = module s \<Longrightarrow> call_stack t = call_stack s \<Longrightarrow>
   frame_static s (stack_pushI32 a t)"
  "module t = module s \<Longrightarrow> call_stack t = call_stack s \<Longrightarrow>
   frame_static s (stack_pushI64 b t)"
  "module t = module s \<Longrightarrow> call_stack t = call_stack s \<Longrightarrow>
   frame_static s (stack_pushF32 c t)"
  "module t = module s \<Longrightarrow> call_stack t = call_stack s \<Longrightarrow>
   frame_static s (stack_pushF64 d t)"
  by (simp_all add: stack_push_def stack_pushI32_def stack_pushI64_def stack_pushF32_def
                    stack_pushF64_def)

lemma fs_vars:
  "module t = module s \<Longrightarrow> call_stack t = call_stack s \<Longrightarrow>
   frame_static s (setLocal i v t)"
  "module t = module s \<Longrightarrow> call_stack t = call_stack s \<Longrightarrow>
   frame_static s (getLocal i t)"
  "module t = module s \<Longrightarrow> call_stack t = call_stack s \<Longrightarrow>
   frame_static s (setGlobal i v t)"
  "module t = module s \<Longrightarrow> call_stack t = call_stack s \<Longrightarrow>
   frame_static s (getGlobal i t)"
  by (simp_all add: setLocal_def getLocal_def setGlobal_def getGlobal_def)

lemma fs_branch:
  "module t = module s \<Longrightarrow> call_stack t = call_stack s \<Longrightarrow> frame_static s (branch d t)"
  by (simp add: branch_def Let_def)

lemma fs_if:
  "(c \<Longrightarrow> frame_static s a) \<Longrightarrow> (\<not> c \<Longrightarrow> frame_static s b) \<Longrightarrow>
   frame_static s (if c then a else b)"
  by simp

lemma fs_case_sum:
  "(\<And>e. frame_static s (f e)) \<Longrightarrow> (\<And>a. frame_static s (g a)) \<Longrightarrow>
   frame_static s (case x of Inl e \<Rightarrow> f e | Inr a \<Rightarrow> g a)"
  by (cases x) simp_all

lemma fs_case_option:
  "frame_static s f \<Longrightarrow> (\<And>a. frame_static s (g a)) \<Longrightarrow>
   frame_static s (case x of None \<Rightarrow> f | Some a \<Rightarrow> g a)"
  by (cases x) simp_all

lemma fs_case_prod:
  "(\<And>a b. frame_static s (f a b)) \<Longrightarrow> frame_static s (case x of (a, b) \<Rightarrow> f a b)"
  by (cases x) simp_all

lemmas fs_prims =
  fs_if fs_case_sum fs_case_option fs_case_prod frame_static_simps(2,3,4)
  fs_on_stack fs_readByte fs_readVarUint32 fs_readVarInt32 fs_readVarInt64 fs_readF fs_push
  fs_vars fs_branch

lemma fs_executeVariable:
  "module t = module s \<Longrightarrow> call_stack t = call_stack s \<Longrightarrow>
   frame_static s (executeVariable opcode t)"
  unfolding executeVariable_def
  by (auto intro!: fs_bind fs_prims split: sum.split)

lemma fs_executeParametric:
  "module t = module s \<Longrightarrow> call_stack t = call_stack s \<Longrightarrow>
   frame_static s (executeParametric opcode t)"
  unfolding executeParametric_def
  by (auto intro!: fs_bind fs_prims)

lemma fs_executeNumericConst:
  "module t = module s \<Longrightarrow> call_stack t = call_stack s \<Longrightarrow>
   frame_static s (executeNumericConst opcode t)"
  unfolding executeNumericConst_def
  by (auto intro!: fs_bind fs_prims)

lemma fs_executeNumeric:
  "module t = module s \<Longrightarrow> call_stack t = call_stack s \<Longrightarrow>
   frame_static s (executeNumeric opcode t)"
  unfolding executeNumeric_def
  by (intro fs_bind fs_prims; assumption)

lemma fs_executeMemory:
  "module t = module s \<Longrightarrow> call_stack t = call_stack s \<Longrightarrow>
   frame_static s (executeMemory opcode t)"
  unfolding executeMemory_def
  by (intro fs_bind fs_prims; (assumption | simp))

lemma fs_executeSaturating:
  "module t = module s \<Longrightarrow> call_stack t = call_stack s \<Longrightarrow>
   frame_static s (executeSaturating sub_opcode t)"
  unfolding executeSaturating_def
  by (intro fs_bind fs_prims; assumption)

lemma fs_executeConversion:
  "module t = module s \<Longrightarrow> call_stack t = call_stack s \<Longrightarrow>
   frame_static s (executeConversion opcode t)"
  unfolding executeConversion_def Let_def
  by (intro fs_bind fs_prims fs_executeSaturating; assumption)

text \<open>The same of a function that stands for \<open>execute\<close> in the instructions.\<close>

definition exec_static :: "(32 word \<Rightarrow> Interp \<Rightarrow> unit outcome) \<Rightarrow> bool" where
  "exec_static exec \<longleftrightarrow> (\<forall>f s. frame_static s (exec f s))"

lemma fs_exec:
  "exec_static exec \<Longrightarrow> module t = module s \<Longrightarrow> call_stack t = call_stack s \<Longrightarrow>
   frame_static s (exec f t)"
  unfolding exec_static_def by (blast intro: frame_static_rel)

lemma fs_call_saving_frame:
  "exec_static exec \<Longrightarrow> module t = module s \<Longrightarrow> call_stack t = call_stack s \<Longrightarrow>
   frame_static s (call_saving_frame exec f t)"
  unfolding call_saving_frame_def Let_def
  by (rule fs_bind) (simp_all add: fs_exec)

lemma fs_read_targets:
  "module t = module s \<Longrightarrow> call_stack t = call_stack s \<Longrightarrow>
   frame_static s (read_targets n acc t)"
  by (induction n arbitrary: acc t) (auto intro!: fs_bind fs_prims)

lemma fs_executeControlFlow:
  "exec_static exec \<Longrightarrow> module t = module s \<Longrightarrow> call_stack t = call_stack s \<Longrightarrow>
   frame_static s (executeControlFlow exec opcode t)"
  unfolding executeControlFlow_def Let_def
  by (intro fs_bind fs_prims fs_read_targets fs_call_saving_frame;
      (assumption | simp add: pushLabel_def popLabel_def))

lemma fs_executeInstruction:
  "exec_static exec \<Longrightarrow> module t = module s \<Longrightarrow> call_stack t = call_stack s \<Longrightarrow>
   frame_static s (executeInstruction exec t)"
  unfolding executeInstruction_def Let_def
  by (intro fs_prims fs_executeControlFlow fs_executeParametric fs_executeVariable
            fs_executeMemory fs_executeNumericConst fs_executeConversion
            fs_executeNumeric; (assumption | simp))

lemma fs_run:
  "exec_static exec \<Longrightarrow> module t = module s \<Longrightarrow> call_stack t = call_stack s \<Longrightarrow>
   frame_static s (run exec fuel t)"
  by (induction fuel arbitrary: t) (auto intro!: fs_bind fs_executeInstruction)

lemma fs_pop_params:
  "module t = module s \<Longrightarrow> call_stack t = call_stack s \<Longrightarrow>
   frame_static s (pop_params n t)"
  by (induction n arbitrary: t) (auto intro!: fs_bind fs_prims)

lemma fs_execute_function:
  "exec_static exec \<Longrightarrow> frame_static s (execute_function exec fuel f s)"
  unfolding execute_function_def Let_def
  by (intro fs_bind fs_prims fs_pop_params fs_run; (assumption | simp))

lemma exec_static_execute: "exec_static (execute n)"
proof (induction n)
  case 0
  show ?case by (simp add: exec_static_def)
next
  case (Suc n)
  show ?case
    unfolding exec_static_def execute.simps by (intro allI fs_execute_function Suc)
qed

subsection \<open>The frame across a call\<close>

lemma call_saving_frame_Normal:
  assumes "call_saving_frame exec func_index s = Normal () s'"
  shows "\<exists>s_out. exec func_index s = Normal () s_out \<and>
           s' = s_out\<lparr>pc := pc s, code := code s, code_size := code_size s,
                      locals := locals s, labels := labels s\<rparr>"
  using assms by (auto simp: call_saving_frame_def Let_def bind_Normal_iff)

text \<open>
  C9. When \<open>call\<close> or \<open>call_indirect\<close> returns normally, the callee \<open>func_index\<close> was
  entered in a state \<open>s_in\<close> that differs from the state \<open>s\<close> at the immediates of the
  instruction in the program counter and the operand stack only, with the program counter
  behind the immediates (the function index; the type index and the reserved byte); the
  callee returned normally in a state \<open>s_out\<close>, and the state after the instruction is
  \<open>s_out\<close> with the program counter of \<open>s_in\<close> and the bytecode, its length, the locals and
  the labels of the caller. Module and call stack are those of \<open>s\<close>, so the operand stack,
  the globals and the memory are all that the call may have changed besides the program
  counter.
\<close>

theorem call_restores_frame:
  assumes op: "opcode = CALL \<or> opcode = CALL_INDIRECT"
    and run: "executeControlFlow (execute n) opcode s = Normal () s'"
  shows "\<exists>func_index s_in s_out.
           execute n func_index s_in = Normal () s_out \<and>
           s_in = s\<lparr>pc := pc s_in, stack := stack s_in\<rparr> \<and>
           s' = s_out\<lparr>pc := pc s_in, code := code s, code_size := code_size s,
                      locals := locals s, labels := labels s\<rparr> \<and>
           module s' = module s \<and> call_stack s' = call_stack s \<and>
           (\<exists>f s1. Interpreter_readVarUint32 s = Normal f s1 \<and>
                   pc s_in = (if opcode = CALL then pc s1 else pc s1 + 1))"
proof -
  from fs_executeControlFlow [OF exec_static_execute refl refl, of s n opcode] run
  have static: "module s' = module s" "call_stack s' = call_stack s"
    by simp_all
  from op show ?thesis
  proof
    assume c: "opcode = CALL"
    with run obtain f s1 where rd: "Interpreter_readVarUint32 s = Normal f s1"
      and call: "call_saving_frame (execute n) f s1 = Normal () s'"
      by (auto simp: executeControlFlow_def Opcode_defs bind_Normal_iff)
    from Interpreter_readVarUint32_state [OF rd] obtain p where s1: "s1 = s\<lparr>pc := p\<rparr>" ..
    from call_saving_frame_Normal [OF call] obtain s_out
      where ex: "execute n f s1 = Normal () s_out"
        and s': "s' = s_out\<lparr>pc := pc s1, code := code s1, code_size := code_size s1,
                        locals := locals s1, labels := labels s1\<rparr>" by blast
    show ?thesis
      by (rule exI [of _ f], rule exI [of _ s1], rule exI [of _ s_out])
         (use ex s' rd c s1 static in simp)
  next
    assume c: "opcode = CALL_INDIRECT"
    with run obtain t s1 where rd: "Interpreter_readVarUint32 s = Normal t s1"
      and rest: "bind (Interpreter_readByte s1) (\<lambda>reserved s.
          if reserved \<noteq> 0x00
          then Raised (InterpreterError ''Invalid table index in call_indirect'') s
          else
            bind (on_stack popI32 s) (\<lambda>elem_index s.
              if sint elem_index < 0 then Raised (Trap ''Undefined element in call_indirect'') s
              else
                case find_element (element_segments (module s)) elem_index of
                  None \<Rightarrow> Raised (Trap ''Undefined element in call_indirect'') s
                | Some func_index \<Rightarrow>
                    (case check_signature (module s) func_index t of
                       Inl e \<Rightarrow> Raised e s
                     | Inr _ \<Rightarrow> call_saving_frame (execute n) func_index s))) = Normal () s'"
      by (auto simp: executeControlFlow_def Opcode_defs bind_Normal_iff)
    from Interpreter_readVarUint32_state [OF rd] obtain p where s1: "s1 = s\<lparr>pc := p\<rparr>" ..
    from rest obtain r s2 where rb: "Interpreter_readByte s1 = Normal r s2"
      and rest2: "bind (on_stack popI32 s2) (\<lambda>elem_index s.
              if sint elem_index < 0 then Raised (Trap ''Undefined element in call_indirect'') s
              else
                case find_element (element_segments (module s)) elem_index of
                  None \<Rightarrow> Raised (Trap ''Undefined element in call_indirect'') s
                | Some func_index \<Rightarrow>
                    (case check_signature (module s) func_index t of
                       Inl e \<Rightarrow> Raised e s
                     | Inr _ \<Rightarrow> call_saving_frame (execute n) func_index s)) = Normal () s'"
      by (auto simp: bind_Normal_iff split: if_splits)
    from Interpreter_readByte_Normal [OF rb] have s2: "s2 = s1\<lparr>pc := pc s1 + 1\<rparr>" by simp
    from rest2 obtain e s3 f where pop: "on_stack popI32 s2 = Normal e s3"
      and call: "call_saving_frame (execute n) f s3 = Normal () s'"
      by (auto simp: bind_Normal_iff split: if_splits option.splits sum.splits)
    from on_stack_state [OF pop] obtain st where s3: "s3 = s2\<lparr>stack := st\<rparr>" ..
    from call_saving_frame_Normal [OF call] obtain s_out
      where ex: "execute n f s3 = Normal () s_out"
        and s': "s' = s_out\<lparr>pc := pc s3, code := code s3, code_size := code_size s3,
                        locals := locals s3, labels := labels s3\<rparr>" by blast
    show ?thesis
      by (rule exI [of _ f], rule exI [of _ s3], rule exI [of _ s_out])
         (use ex s' rd c s1 s2 s3 static in \<open>simp add: Opcode_defs\<close>)
  qed
qed

text \<open>
  An instance: \<open>call 0\<close> of a function of type \<open>() -> ()\<close> with the body \<open>end\<close>, from a
  caller with one local, one label and one operand.
\<close>

definition call_example :: Interp where
  "call_example =
     (init_Interp
        (empty_Module
           \<lparr>types := [\<lparr>params = [], results = []\<rparr>],
            module_functions := [\<lparr>type_index = 0, function_locals = [], body = [0x0B]\<rparr>],
            function_types := [0]\<rparr>))
       \<lparr>stack := [makeI32 5], locals := [makeI32 7], code := [0x10, 0x00, 0x0B],
        code_size := 3, pc := 1,
        labels := [\<lparr>target_pc = 3, stack_height = 0, is_loop = False, arity = 0\<rparr>]\<rparr>"

lemma call_example_read:
  "Interpreter_readVarUint32 call_example = Normal 0 (call_example\<lparr>pc := 2\<rparr>)"
  by (simp add: Interpreter_readVarUint32_def Interpreter_readVarUint32_loop.simps
                Interpreter_readByte_def call_example_def init_Interp_def)

lemma call_example_callee:
  "execute 2 0 (call_example\<lparr>pc := 2\<rparr>) =
     Normal () (call_example\<lparr>pc := 1, code := [0x0B], code_size := 1, locals := [],
                              labels := []\<rparr>)"
  unfolding numeral_2_eq_2
  by (simp add: execute_function_def getImportedFunctionCount_def getFunctionType_def
                call_example_def init_Interp_def empty_Module_def Let_def
                executeInstruction_def isControlFlowInstruction_def Opcode_defs
                executeControlFlow_def)

lemma call_example_run:
  "executeControlFlow (execute 2) CALL call_example = Normal () (call_example\<lparr>pc := 2\<rparr>)"
  by (simp add: executeControlFlow_def Opcode_defs call_example_read call_saving_frame_def
                call_example_callee)

theorem call_restores_frame_witness:
  "\<exists>func_index s_in s_out.
     execute 2 func_index s_in = Normal () s_out \<and>
     s_in = call_example\<lparr>pc := pc s_in, stack := stack s_in\<rparr> \<and>
     call_example\<lparr>pc := 2\<rparr> =
       s_out\<lparr>pc := pc s_in, code := code call_example, code_size := code_size call_example,
              locals := locals call_example, labels := labels call_example\<rparr> \<and>
     (\<exists>f s1. Interpreter_readVarUint32 call_example = Normal f s1 \<and> pc s_in = pc s1)"
  using call_restores_frame [of CALL 2 call_example "call_example\<lparr>pc := 2\<rparr>"]
        call_example_run
  by simp

section \<open>Depth of nested calls\<close>

text \<open>
  \<open>CallStack::push\<close> is the one place that compares a depth with \<open>MAX_DEPTH\<close>; it throws
  a \<open>StackError\<close>. The interpreter has a member \<open>call_stack_\<close> and never calls \<open>push\<close> on
  it: \<open>call\<close> keeps the caller's frame in C++ locals and calls \<open>execute\<close>.
\<close>

lemma CallStack_push_at_MAX_DEPTH:
  "length frames = MAX_DEPTH \<Longrightarrow>
   CallStack_push frame frames =
     (Inl (StackError ''Call stack overflow: maximum depth exceeded''), frames)"
  by (simp add: CallStack_push_def checkDepthLimit_def)

lemma ucast_i32_payload: "(ucast (ucast (c :: 32 word) :: 64 word) :: 32 word) = c"
  by (simp add: ucast_up_ucast_id is_up)

lemma on_stack_popI32:
  "stack s \<noteq> [] \<Longrightarrow> vtype (last (stack s)) = I32 \<Longrightarrow>
   on_stack popI32 s =
     Normal (ucast (payload (last (stack s)))) (s\<lparr>stack := butlast (stack s)\<rparr>)"
  by (simp add: on_stack_def typed_pop_cases checkType_def)

lemma makeI32_sel [simp]:
  "vtype (makeI32 c) = I32" "ucast (payload (makeI32 c)) = c"
  by (simp_all add: makeI32_def ucast_i32_payload)

text \<open>
  A module with one function of type \<open>(i32) -> i32\<close> that calls itself:
  \<open>local.get 0; if (result i32) local.get 0; i32.const 1; i32.sub; call 0; i32.const 1;
  i32.add else i32.const 1 end; end\<close>. For the argument \<open>n\<close> it nests \<open>n + 1\<close> activations
  and returns \<open>n + 1\<close>; nothing in it can trap.
\<close>

definition rec_body :: "8 word list" where
  "rec_body =
     [0x20, 0x00, 0x04, 0x7F, 0x20, 0x00, 0x41, 0x01, 0x6B, 0x10, 0x00, 0x41, 0x01, 0x6A,
      0x05, 0x41, 0x01, 0x0B, 0x0B]"

definition rec_Module :: Module where
  "rec_Module =
     empty_Module
       \<lparr>types := [\<lparr>params = [I32], results = [I32]\<rparr>],
        module_functions := [\<lparr>type_index = 0, function_locals = [], body = rec_body\<rparr>],
        function_types := [0]\<rparr>"

text \<open>
  The module in binary form (type, function and code sections), as \<open>parseBytes\<close> reads
  it.
\<close>

definition rec_wasm :: "8 word list" where
  "rec_wasm =
     [0x00, 0x61, 0x73, 0x6D, 0x01, 0x00, 0x00, 0x00,
      0x01, 0x06, 0x01, 0x60, 0x01, 0x7F, 0x01, 0x7F,
      0x03, 0x02, 0x01, 0x00,
      0x0A, 0x16, 0x01, 0x14, 0x00,
      0x20, 0x00, 0x04, 0x7F, 0x20, 0x00, 0x41, 0x01, 0x6B, 0x10, 0x00, 0x41, 0x01, 0x6A,
      0x05, 0x41, 0x01, 0x0B, 0x0B]"

lemma rec_wasm_header:
  "verifyMagicAndVersion \<lparr>buffer = rec_wasm, position = 0\<rparr> =
     (Inr (), \<lparr>buffer = rec_wasm, position = 8\<rparr>)"
  unfolding rec_wasm_def by (rule verify_header)

lemma rec_wasm_types:
  "parseTypeSection m \<lparr>buffer = rec_wasm, position = 10\<rparr> =
     (Inr (m\<lparr>types := types m @ [\<lparr>params = [I32], results = [I32]\<rparr>]\<rparr>),
      \<lparr>buffer = rec_wasm, position = 16\<rparr>)"
  by (simp add: parseTypeSection_def readFuncType_def readValueType_def reader_defs
                rec_wasm_def I32_def)

lemma rec_wasm_funcs:
  "parseFunctionSection m \<lparr>buffer = rec_wasm, position = 18\<rparr> =
     (Inr (m\<lparr>function_types := function_types m @ [0]\<rparr>),
      \<lparr>buffer = rec_wasm, position = 20\<rparr>)"
  by (simp add: parseFunctionSection_def reader_defs rec_wasm_def)

lemma rec_wasm_code:
  "function_types m = [0] \<Longrightarrow>
   parseCodeSection m \<lparr>buffer = rec_wasm, position = 22\<rparr> =
     (Inr (m\<lparr>module_functions := module_functions m @
              [\<lparr>type_index = 0, function_locals = [], body = rec_body\<rparr>]\<rparr>),
      \<lparr>buffer = rec_wasm, position = 44\<rparr>)"
  by (simp add: parseCodeSection_def readBytes_def reader_defs rec_wasm_def rec_body_def)

lemma parseBytes_rec_wasm: "parseBytes rec_wasm = Inr rec_Module"
proof -
  have len: "length rec_wasm = 44" by (simp add: rec_wasm_def)
  have nth: "rec_wasm ! 8 = 1" "rec_wasm ! 9 = 6" "rec_wasm ! 16 = 3" "rec_wasm ! 17 = 2"
    "rec_wasm ! 20 = 10" "rec_wasm ! 21 = 0x16"
    by (simp_all add: rec_wasm_def)
  show ?thesis
    by (simp add: parseBytes_def dbind_def [of verifyMagicAndVersion] rec_wasm_header
                  parseModule_def parseModule_loop.simps parseSection_def
                  Decoder_readByte_def ensureBytes_def Decoder_readVarUint32_def
                  Decoder_readVarUint32_loop.simps len nth
                  rec_wasm_types rec_wasm_funcs rec_wasm_code
                  rec_Module_def empty_Module_def)
qed

text \<open>An activation of the function at the program counter \<open>p\<close>.\<close>

definition rec_at :: "Interp \<Rightarrow> nat \<Rightarrow> Stack \<Rightarrow> TypedValue list \<Rightarrow> Label list \<Rightarrow> bool" where
  "rec_at s p st ls lbs \<longleftrightarrow>
     module s = rec_Module \<and> code s = rec_body \<and> code_size s = 19 \<and> pc s = p \<and>
     stack s = st \<and> locals s = ls \<and> labels s = lbs"

lemmas fetch_defs =
  executeInstruction_def isControlFlowInstruction_def isMemoryInstruction_def
  isNumericInstruction_def Opcode_defs Let_def

lemmas imm_defs =
  Interpreter_readVarUint32_def Interpreter_readVarUint32_loop.simps
  Interpreter_readVarInt32_def Interpreter_readVarInt32_loop.simps Interpreter_readByte_def

lemma rec_body_nth:
  "rec_body ! 0 = 0x20" "rec_body ! 1 = 0x00" "rec_body ! 2 = 0x04" "rec_body ! 3 = 0x7F"
  "rec_body ! 4 = 0x20" "rec_body ! 5 = 0x00" "rec_body ! 6 = 0x41" "rec_body ! 7 = 0x01"
  "rec_body ! 8 = 0x6B" "rec_body ! 9 = 0x10" "rec_body ! 10 = 0x00" "rec_body ! 11 = 0x41"
  "rec_body ! 12 = 0x01" "rec_body ! 13 = 0x6A" "rec_body ! 14 = 0x05" "rec_body ! 15 = 0x41"
  "rec_body ! 16 = 0x01" "rec_body ! 17 = 0x0B" "rec_body ! 18 = 0x0B"
  "length rec_body = 19" "rec_body ! Suc 0 = 0x00"
  by (simp_all add: rec_body_def)

subsection \<open>The instructions of the function\<close>

lemma step_local_get_0:
  assumes "pc s + 1 < code_size s" "code s ! pc s = 0x20" "code s ! (pc s + 1) = 0x00"
    "locals s = v # vs"
  shows "executeInstruction exec s = Normal () (s\<lparr>stack := stack s @ [v], pc := pc s + 2\<rparr>)"
  using assms
  by (simp add: fetch_defs imm_defs executeVariable_def getLocal_def stack_push_def push_def)

lemma step_i32_const_1:
  assumes "pc s + 1 < code_size s" "code s ! pc s = 0x41" "code s ! (pc s + 1) = 0x01"
  shows "executeInstruction exec s =
           Normal () (s\<lparr>stack := stack s @ [makeI32 1], pc := pc s + 2\<rparr>)"
  using assms
  by (simp add: fetch_defs imm_defs executeNumericConst_def stack_pushI32_def pushI32_def)

lemma step_i32_sub:
  assumes "pc s < code_size s" "code s ! pc s = 0x6B" "stack s = st @ [makeI32 a, makeI32 b]"
  shows "executeInstruction exec s =
           Normal () (s\<lparr>stack := st @ [makeI32 (a - b)], pc := pc s + 1\<rparr>)"
  using assms
  by (simp add: fetch_defs executeNumeric_def on_stack_popI32 stack_pushI32_def pushI32_def
        butlast_append)

lemma step_i32_add:
  assumes "pc s < code_size s" "code s ! pc s = 0x6A" "stack s = st @ [makeI32 a, makeI32 b]"
  shows "executeInstruction exec s =
           Normal () (s\<lparr>stack := st @ [makeI32 (a + b)], pc := pc s + 1\<rparr>)"
  using assms
  by (simp add: fetch_defs executeNumeric_def on_stack_popI32 stack_pushI32_def pushI32_def
        butlast_append)

lemma step_call_0:
  assumes "pc s + 1 < code_size s" "code s ! pc s = 0x10" "code s ! (pc s + 1) = 0x00"
  shows "executeInstruction exec s =
           bind (exec 0 (s\<lparr>pc := pc s + 2\<rparr>)) (\<lambda>_ t.
             Normal () (t\<lparr>pc := pc s + 2, code := code s, code_size := code_size s,
                          locals := locals s, labels := labels s\<rparr>))"
  using assms
  by (simp add: fetch_defs imm_defs executeControlFlow_def call_saving_frame_def)

lemma step_else:
  assumes "pc s < code_size s" "code s ! pc s = 0x05" "labels s = lbs @ [l]"
  shows "executeInstruction exec s = Normal () (s\<lparr>pc := target_pc l, labels := lbs\<rparr>)"
  using assms
  by (simp add: fetch_defs executeControlFlow_def popLabel_def)

lemma step_end_label:
  assumes "pc s < code_size s" "code s ! pc s = 0x0B" "labels s = lbs @ [l]"
  shows "executeInstruction exec s = Normal () (s\<lparr>pc := pc s + 1, labels := lbs\<rparr>)"
  using assms
  by (simp add: fetch_defs executeControlFlow_def popLabel_def)

lemma step_end_function:
  assumes "pc s < code_size s" "code s ! pc s = 0x0B" "labels s = []"
  shows "executeInstruction exec s = Normal () (s\<lparr>pc := pc s + 1\<rparr>)"
  using assms
  by (simp add: fetch_defs executeControlFlow_def popLabel_def)

lemma rec_scan:
  assumes "code s = rec_body" "code_size s = 19"
  shows "findMatchingElseAndEnd 4 s = Inr (18, 15)"
  using assms
  by (simp add: findMatchingElseAndEnd_def findMatchingElseAndEnd_loop.simps
        skipInstructionOperands_def skip_leb_def skip_leb_loop.simps Let_def rec_body_def)

definition if_label :: "nat \<Rightarrow> Label" where
  "if_label h = \<lparr>target_pc = 18, stack_height = h, is_loop = False, arity = 1\<rparr>"

lemma step_if_rec:
  assumes "code s = rec_body" "code_size s = 19" "pc s = 2" "stack s = st @ [makeI32 c]"
  shows "executeInstruction exec s =
           Normal () (s\<lparr>stack := st, pc := (if c = 0 then 15 else 4),
                        labels := labels s @ [if_label (length st)]\<rparr>)"
  using assms
  by (simp add: fetch_defs executeControlFlow_def Interpreter_readByte_def on_stack_popI32
        rec_scan pushLabel_def if_label_def rec_body_nth)

lemma rec_step_0:
  assumes "rec_at s 0 st [v] lbs"
  shows "\<exists>s'. executeInstruction exec s = Normal () s' \<and> rec_at s' 2 (st @ [v]) [v] lbs"
proof -
  from assms
  have "executeInstruction exec s = Normal () (s\<lparr>stack := stack s @ [v], pc := pc s + 2\<rparr>)"
    by (intro step_local_get_0 [where vs = "[]"]) (simp_all add: rec_at_def rec_body_nth)
  with assms show ?thesis by (simp add: rec_at_def)
qed

lemma rec_step_2:
  assumes "rec_at s 2 (st @ [makeI32 c]) ls lbs"
  shows "\<exists>s'. executeInstruction exec s = Normal () s' \<and>
              rec_at s' (if c = 0 then 15 else 4) st ls (lbs @ [if_label (length st)])"
proof -
  from assms
  have "executeInstruction exec s =
          Normal () (s\<lparr>stack := st, pc := (if c = 0 then 15 else 4),
                       labels := labels s @ [if_label (length st)]\<rparr>)"
    by (intro step_if_rec) (simp_all add: rec_at_def)
  with assms show ?thesis by (simp add: rec_at_def)
qed

lemma rec_step_4:
  assumes "rec_at s 4 st [v] lbs"
  shows "\<exists>s'. executeInstruction exec s = Normal () s' \<and> rec_at s' 6 (st @ [v]) [v] lbs"
proof -
  from assms
  have "executeInstruction exec s = Normal () (s\<lparr>stack := stack s @ [v], pc := pc s + 2\<rparr>)"
    by (intro step_local_get_0 [where vs = "[]"]) (simp_all add: rec_at_def rec_body_nth)
  with assms show ?thesis by (simp add: rec_at_def)
qed

lemma rec_step_const:
  assumes "rec_at s p st ls lbs" "p = 6 \<or> p = 11 \<or> p = 15"
  shows "\<exists>s'. executeInstruction exec s = Normal () s' \<and>
              rec_at s' (p + 2) (st @ [makeI32 1]) ls lbs"
proof -
  from assms
  have "executeInstruction exec s =
          Normal () (s\<lparr>stack := stack s @ [makeI32 1], pc := pc s + 2\<rparr>)"
    by (intro step_i32_const_1) (auto simp: rec_at_def rec_body_nth)
  with assms(1) show ?thesis by (simp add: rec_at_def)
qed

lemma rec_step_8:
  assumes "rec_at s 8 (st @ [makeI32 a, makeI32 b]) ls lbs"
  shows "\<exists>s'. executeInstruction exec s = Normal () s' \<and>
              rec_at s' 9 (st @ [makeI32 (a - b)]) ls lbs"
proof -
  from assms
  have "executeInstruction exec s =
          Normal () (s\<lparr>stack := st @ [makeI32 (a - b)], pc := pc s + 1\<rparr>)"
    by (intro step_i32_sub) (simp_all add: rec_at_def rec_body_nth)
  with assms show ?thesis by (simp add: rec_at_def)
qed

lemma rec_step_13:
  assumes "rec_at s 13 (st @ [makeI32 a, makeI32 b]) ls lbs"
  shows "\<exists>s'. executeInstruction exec s = Normal () s' \<and>
              rec_at s' 14 (st @ [makeI32 (a + b)]) ls lbs"
proof -
  from assms
  have "executeInstruction exec s =
          Normal () (s\<lparr>stack := st @ [makeI32 (a + b)], pc := pc s + 1\<rparr>)"
    by (intro step_i32_add) (simp_all add: rec_at_def rec_body_nth)
  with assms show ?thesis by (simp add: rec_at_def)
qed

lemma rec_step_14:
  assumes "rec_at s 14 st ls (lbs @ [if_label h])"
  shows "\<exists>s'. executeInstruction exec s = Normal () s' \<and> rec_at s' 18 st ls lbs"
proof -
  from assms
  have "executeInstruction exec s =
          Normal () (s\<lparr>pc := target_pc (if_label h), labels := lbs\<rparr>)"
    by (intro step_else) (simp_all add: rec_at_def rec_body_nth)
  with assms show ?thesis by (simp add: rec_at_def if_label_def)
qed

lemma rec_step_17:
  assumes "rec_at s 17 st ls (lbs @ [l])"
  shows "\<exists>s'. executeInstruction exec s = Normal () s' \<and> rec_at s' 18 st ls lbs"
proof -
  from assms
  have "executeInstruction exec s = Normal () (s\<lparr>pc := pc s + 1, labels := lbs\<rparr>)"
    by (intro step_end_label) (simp_all add: rec_at_def rec_body_nth)
  with assms show ?thesis by (simp add: rec_at_def)
qed

lemma rec_step_18:
  assumes "rec_at s 18 st ls []"
  shows "\<exists>s'. executeInstruction exec s = Normal () s' \<and> rec_at s' 19 st ls []"
proof -
  from assms
  have "executeInstruction exec s = Normal () (s\<lparr>pc := pc s + 1\<rparr>)"
    by (intro step_end_function) (simp_all add: rec_at_def rec_body_nth)
  with assms show ?thesis by (simp add: rec_at_def)
qed

lemma rec_step_9:
  assumes at: "rec_at s 9 (st @ [makeI32 a]) ls lbs"
    and callee: "\<And>t. module t = rec_Module \<Longrightarrow> stack t = st @ [makeI32 a] \<Longrightarrow>
                   \<exists>t'. exec 0 t = Normal () t' \<and> module t' = rec_Module \<and>
                        stack t' = st @ [makeI32 (a + 1)]"
  shows "\<exists>s'. executeInstruction exec s = Normal () s' \<and>
              rec_at s' 11 (st @ [makeI32 (a + 1)]) ls lbs"
proof -
  from at
  have raw: "executeInstruction exec s =
          bind (exec 0 (s\<lparr>pc := pc s + 2\<rparr>)) (\<lambda>_ t.
            Normal () (t\<lparr>pc := pc s + 2, code := code s, code_size := code_size s,
                         locals := locals s, labels := labels s\<rparr>))"
    by (intro step_call_0) (simp_all add: rec_at_def rec_body_nth)
  from at have "module (s\<lparr>pc := pc s + 2\<rparr>) = rec_Module"
    "stack (s\<lparr>pc := pc s + 2\<rparr>) = st @ [makeI32 a]"
    by (simp_all add: rec_at_def)
  from callee [OF this] obtain t' where
    t': "exec 0 (s\<lparr>pc := pc s + 2\<rparr>) = Normal () t'" "module t' = rec_Module"
        "stack t' = st @ [makeI32 (a + 1)]"
    by blast
  show ?thesis
    unfolding raw t'(1) using at t'(2,3) by (simp add: rec_at_def)
qed

lemma rec_run_step:
  assumes "rec_at s p st ls lbs" "executeInstruction exec s = Normal () s'" "p < 19"
    "Suc j = k"
  shows "run exec k s = run exec j s'"
  using assms by (cases k) (simp_all add: rec_at_def)

lemma rec_run_done:
  assumes "rec_at s 19 st ls lbs"
  shows "run exec k s = Normal () s"
  using assms by (cases k) (simp_all add: rec_at_def)

subsection \<open>One activation\<close>

lemma rec_Module_facts:
  "getImportedFunctionCount rec_Module = 0"
  "getFunctionType rec_Module 0 = Some \<lparr>params = [I32], results = [I32]\<rparr>"
  "module_functions rec_Module = [\<lparr>type_index = 0, function_locals = [], body = rec_body\<rparr>]"
  by (simp_all add: rec_Module_def empty_Module_def getImportedFunctionCount_def
                    getFunctionType_def Let_def)

lemma rec_enter:
  assumes "module s = rec_Module" "stack s = st @ [v]"
  shows "\<exists>s0. execute_function exec k 0 s = run exec k s0 \<and> rec_at s0 0 st [v] []"
  using assms
  apply (simp add: execute_function_def rec_Module_facts Let_def on_stack_def pop_def
                   checkNotEmpty_def rec_body_nth)
  apply (rule exI, rule conjI, rule refl)
  apply (simp add: rec_at_def)
  done

lemma run_rec_zero:
  assumes a0: "rec_at s 0 st [makeI32 0] []" and k: "5 \<le> k"
  shows "\<exists>s'. run exec k s = Normal () s' \<and> stack s' = st @ [makeI32 1]"
proof -
  from rec_step_0 [OF a0] obtain s1 where
    e0: "executeInstruction exec s = Normal () s1" and
    a1: "rec_at s1 2 (st @ [makeI32 0]) [makeI32 0] []" by blast
  from rec_step_2 [OF a1] obtain s2 where
    e1: "executeInstruction exec s1 = Normal () s2" and
    a2: "rec_at s2 15 st [makeI32 0] [if_label (length st)]" by auto
  from rec_step_const [OF a2] obtain s3 where
    e2: "executeInstruction exec s2 = Normal () s3" and
    a3: "rec_at s3 17 (st @ [makeI32 1]) [makeI32 0] [if_label (length st)]" by auto
  from a3 have a3': "rec_at s3 17 (st @ [makeI32 1]) [makeI32 0] ([] @ [if_label (length st)])"
    by simp
  from rec_step_17 [OF a3'] obtain s4 where
    e3: "executeInstruction exec s3 = Normal () s4" and
    a4: "rec_at s4 18 (st @ [makeI32 1]) [makeI32 0] []" by auto
  from rec_step_18 [OF a4] obtain s5 where
    e4: "executeInstruction exec s4 = Normal () s5" and
    a5: "rec_at s5 19 (st @ [makeI32 1]) [makeI32 0] []" by blast
  have "run exec k s = run exec (k - 1) s1"
    by (rule rec_run_step [OF a0 e0]) (use k in arith)+
  also have "\<dots> = run exec (k - 2) s2"
    by (rule rec_run_step [OF a1 e1]) (use k in arith)+
  also have "\<dots> = run exec (k - 3) s3"
    by (rule rec_run_step [OF a2 e2]) (use k in arith)+
  also have "\<dots> = run exec (k - 4) s4"
    by (rule rec_run_step [OF a3 e3]) (use k in arith)+
  also have "\<dots> = run exec (k - 5) s5"
    by (rule rec_run_step [OF a4 e4]) (use k in arith)+
  also have "\<dots> = Normal () s5"
    by (rule rec_run_done [OF a5])
  finally show ?thesis using a5 by (simp add: rec_at_def)
qed

lemma run_rec_pos:
  assumes a0: "rec_at s 0 st [makeI32 c] []" and c: "c \<noteq> 0" and k: "10 \<le> k"
    and callee: "\<And>t st'. module t = rec_Module \<Longrightarrow> stack t = st' @ [makeI32 (c - 1)] \<Longrightarrow>
                   \<exists>t'. exec 0 t = Normal () t' \<and> module t' = rec_Module \<and>
                        stack t' = st' @ [makeI32 (c - 1 + 1)]"
  shows "\<exists>s'. run exec k s = Normal () s' \<and> stack s' = st @ [makeI32 (c + 1)]"
proof -
  from rec_step_0 [OF a0] obtain s1 where
    e0: "executeInstruction exec s = Normal () s1" and
    a1: "rec_at s1 2 (st @ [makeI32 c]) [makeI32 c] []" by blast
  from rec_step_2 [OF a1] c obtain s2 where
    e1: "executeInstruction exec s1 = Normal () s2" and
    a2: "rec_at s2 4 st [makeI32 c] [if_label (length st)]" by auto
  from rec_step_4 [OF a2] obtain s3 where
    e2: "executeInstruction exec s2 = Normal () s3" and
    a3: "rec_at s3 6 (st @ [makeI32 c]) [makeI32 c] [if_label (length st)]" by blast
  from rec_step_const [OF a3] obtain s4 where
    e3: "executeInstruction exec s3 = Normal () s4" and
    a4: "rec_at s4 8 (st @ [makeI32 c, makeI32 1]) [makeI32 c] [if_label (length st)]"
    by auto
  from rec_step_8 [OF a4] obtain s5 where
    e4: "executeInstruction exec s4 = Normal () s5" and
    a5: "rec_at s5 9 (st @ [makeI32 (c - 1)]) [makeI32 c] [if_label (length st)]" by blast
  have cal: "\<And>t. module t = rec_Module \<Longrightarrow> stack t = st @ [makeI32 (c - 1)] \<Longrightarrow>
                \<exists>t'. exec 0 t = Normal () t' \<and> module t' = rec_Module \<and>
                     stack t' = st @ [makeI32 (c - 1 + 1)]"
    using callee by blast
  from rec_step_9 [where exec = exec and st = st and a = "c - 1", OF a5 cal] obtain s6 where
    e5: "executeInstruction exec s5 = Normal () s6" and
    a6: "rec_at s6 11 (st @ [makeI32 c]) [makeI32 c] [if_label (length st)]" by auto
  from rec_step_const [OF a6] obtain s7 where
    e6: "executeInstruction exec s6 = Normal () s7" and
    a7: "rec_at s7 13 (st @ [makeI32 c, makeI32 1]) [makeI32 c] [if_label (length st)]"
    by auto
  from rec_step_13 [OF a7] obtain s8 where
    e7: "executeInstruction exec s7 = Normal () s8" and
    a8: "rec_at s8 14 (st @ [makeI32 (c + 1)]) [makeI32 c] [if_label (length st)]" by blast
  from a8
  have a8': "rec_at s8 14 (st @ [makeI32 (c + 1)]) [makeI32 c] ([] @ [if_label (length st)])"
    by simp
  from rec_step_14 [OF a8'] obtain s9 where
    e8: "executeInstruction exec s8 = Normal () s9" and
    a9: "rec_at s9 18 (st @ [makeI32 (c + 1)]) [makeI32 c] []" by auto
  from rec_step_18 [OF a9] obtain s10 where
    e9: "executeInstruction exec s9 = Normal () s10" and
    a10: "rec_at s10 19 (st @ [makeI32 (c + 1)]) [makeI32 c] []" by blast
  have "run exec k s = run exec (k - 1) s1"
    by (rule rec_run_step [OF a0 e0]) (use k in arith)+
  also have "\<dots> = run exec (k - 2) s2"
    by (rule rec_run_step [OF a1 e1]) (use k in arith)+
  also have "\<dots> = run exec (k - 3) s3"
    by (rule rec_run_step [OF a2 e2]) (use k in arith)+
  also have "\<dots> = run exec (k - 4) s4"
    by (rule rec_run_step [OF a3 e3]) (use k in arith)+
  also have "\<dots> = run exec (k - 5) s5"
    by (rule rec_run_step [OF a4 e4]) (use k in arith)+
  also have "\<dots> = run exec (k - 6) s6"
    by (rule rec_run_step [OF a5 e5]) (use k in arith)+
  also have "\<dots> = run exec (k - 7) s7"
    by (rule rec_run_step [OF a6 e6]) (use k in arith)+
  also have "\<dots> = run exec (k - 8) s8"
    by (rule rec_run_step [OF a7 e7]) (use k in arith)+
  also have "\<dots> = run exec (k - 9) s9"
    by (rule rec_run_step [OF a8 e8]) (use k in arith)+
  also have "\<dots> = run exec (k - 10) s10"
    by (rule rec_run_step [OF a9 e9]) (use k in arith)+
  also have "\<dots> = Normal () s10"
    by (rule rec_run_done [OF a10])
  finally show ?thesis using a10 by (simp add: rec_at_def)
qed

subsection \<open>Any depth\<close>

text \<open>
  With fuel for it, the function returns \<open>n + 1\<close> for every argument \<open>n\<close>: no depth of
  nesting makes it trap.
\<close>

lemma execute_static:
  assumes "execute F f s = Normal () s'"
  shows "module s' = module s" "call_stack s' = call_stack s"
proof -
  from exec_static_execute [of F] have "frame_static s (execute F f s)"
    unfolding exec_static_def by blast
  with assms show "module s' = module s" "call_stack s' = call_stack s"
    by simp_all
qed

lemma rec_execute:
  assumes "n < 2 ^ 32" "module s = rec_Module" "stack s = st @ [makeI32 (of_nat n)]"
    "n + 11 \<le> F"
  shows "\<exists>s'. execute F 0 s = Normal () s' \<and> module s' = rec_Module \<and>
              stack s' = st @ [makeI32 (of_nat n + 1)]"
  using assms
proof (induction n arbitrary: F s st)
  case 0
  from 0(4) obtain k where F: "F = Suc k" and k: "5 \<le> k"
    by (cases F) simp_all
  from rec_enter [of s st "makeI32 0" "execute k" k] 0(2,3) obtain s0 where
    enter: "execute_function (execute k) k 0 s = run (execute k) k s0" and
    a0: "rec_at s0 0 st [makeI32 0] []" by auto
  from run_rec_zero [OF a0 k, of "execute k"] obtain s' where
    r: "run (execute k) k s0 = Normal () s'" and st: "stack s' = st @ [makeI32 1]" by blast
  have ex: "execute F 0 s = Normal () s'"
    by (simp add: F enter r)
  from execute_static(1) [OF ex] 0(2) st ex show ?case by simp
next
  case (Suc n)
  let ?c = "of_nat (Suc n) :: 32 word"
  from Suc.prems(4) obtain k where F: "F = Suc k" and k: "n + 11 \<le> k"
    by (cases F) simp_all
  from Suc.prems(1) have c0: "?c \<noteq> 0"
    by (simp add: of_nat_neq_0 del: of_nat_Suc)
  have c1: "?c - 1 = of_nat n" by simp
  from rec_enter [of s st "makeI32 ?c" "execute k" k] Suc.prems(2,3) obtain s0 where
    enter: "execute_function (execute k) k 0 s = run (execute k) k s0" and
    a0: "rec_at s0 0 st [makeI32 ?c] []" by auto
  have callee: "\<exists>t'. execute k 0 t = Normal () t' \<and> module t' = rec_Module \<and>
                     stack t' = st' @ [makeI32 (?c - 1 + 1)]"
    if "module t = rec_Module" "stack t = st' @ [makeI32 (?c - 1)]" for t st'
    using Suc.IH [of t st' k] that Suc.prems(1) k unfolding c1 by simp
  from k have k10: "10 \<le> k" by simp
  from run_rec_pos [OF a0 c0 k10, of "execute k"] callee obtain s' where
    r: "run (execute k) k s0 = Normal () s'" and st: "stack s' = st @ [makeI32 (?c + 1)]"
    by blast
  have ex: "execute F 0 s = Normal () s'"
    by (simp add: F enter r)
  from execute_static(1) [OF ex] Suc.prems(2) st ex show ?case by simp
qed

definition rec_start :: "32 word \<Rightarrow> Interp" where
  "rec_start n = (init_Interp rec_Module)\<lparr>stack := [makeI32 n]\<rparr>"

text \<open>
  C2. Nesting deeper than 1024 should trap. The function called with 1100 nests 1101
  activations of \<open>execute\<close>; it returns normally with the result 1101 on the operand
  stack, and the call stack has stayed empty.
\<close>

theorem recursion_deeper_than_1024_returns:
  "\<exists>s'. execute 1111 0 (rec_start 1100) = Normal () s' \<and>
        stack s' = [makeI32 1101] \<and> call_stack s' = []"
proof -
  have "\<exists>s'. execute 1111 0 (rec_start 1100) = Normal () s' \<and> module s' = rec_Module \<and>
             stack s' = [] @ [makeI32 (of_nat 1100 + 1)]"
    by (rule rec_execute) (simp_all add: rec_start_def init_Interp_def)
  then obtain s' where ex: "execute 1111 0 (rec_start 1100) = Normal () s'"
    and st: "stack s' = [makeI32 1101]" by auto
  from execute_static(2) [OF ex] have "call_stack s' = []"
    by (simp add: rec_start_def init_Interp_def)
  with ex st show ?thesis by blast
qed

end
